theory Spec2Isabelle
  imports Complex_Main
begin

unbundle bit_operations_syntax

section \<open>Numerical conventions\<close>

text \<open>
  The engines of fgcm work on numpy arrays of double-precision numbers held in shared
  memory.  In this development a floating-point quantity is a \<^typ>\<open>real\<close>, a fixed-size
  array is a total function from its index (or index pair) to its element, and the length
  of an array is carried beside it where the code iterates over the whole array
  (\<open>np.where\<close>).  An index array is a list.  The indices that the star store holds into
  its own arrays (object, band) are taken to lie inside them, and the counters of the
  engines to stay below the range of their integer types.  In the gray
  statistics a division by zero is not left to the reals: where a residual variance of
  zero reaches a weight, the infinite and undefined values that numpy computes are
  followed case by case.  The model errors of the observations, by whose squares the
  chi-squared engine divides, are taken to be positive.
\<close>

type_synonym arr1 = "nat \<Rightarrow> real"
type_synonym arr2 = "nat \<times> nat \<Rightarrow> real"

datatype error =
    InvalidOptions       \<comment> \<open>ValueError: Cannot set allExposures and computeDerivatives or computeSEDSlopes\<close>
  | NoGoodStars          \<comment> \<open>ValueError: No good stars to fit!\<close>
  | StrangeFirstElement  \<comment> \<open>ValueError: Very strange that the goodStarsSub first element is non-zero.\<close>
  | TooManyParameters    \<comment> \<open>ValueError: Number of parameters fitted is more than number of constraints!\<close>
  | MagStdNotComputed    \<comment> \<open>ValueError: Must run FgcmChisq to compute magStd before ...\<close>
  | IndexError           \<comment> \<open>reading element 0 of an empty array\<close>
  | ZeroDivisionError    \<comment> \<open>integer division by zero\<close>
  | EmptyReduction       \<comment> \<open>ValueError of numpy: minimum of a zero-size array\<close>
  | InvalidSqrt          \<comment> \<open>square root of a negative number\<close>
  | EmptyMatchInput      \<comment> \<open>ValueError of esutil: arr1 and arr2 must each be non-zero length\<close>
  | UnboundLocalError    \<comment> \<open>a local variable is read before it is assigned\<close>

subsection \<open>numpy and esutil operations\<close>

text \<open>\<open>np.add.at(a, idx, vals)\<close>: unbuffered in-place addition, one element of \<open>idx\<close> after
  the other, so that a repeated index accumulates.  The index and value arrays are given
  as functions of the position that is run through.\<close>

definition add_at :: "('k \<Rightarrow> 'v::plus) \<Rightarrow> ('i \<Rightarrow> 'k) \<Rightarrow> ('i \<Rightarrow> 'v) \<Rightarrow> 'i list \<Rightarrow> ('k \<Rightarrow> 'v)" where
  "add_at a key val xs = fold (\<lambda>i g. g(key i := g (key i) + val i)) xs a"

text \<open>\<open>np.multiply.at(a, idx, vals)\<close>: the same with multiplication; a repeated index is
  multiplied once for every occurrence.\<close>

definition multiply_at :: "('k \<Rightarrow> 'v::times) \<Rightarrow> ('i \<Rightarrow> 'k) \<Rightarrow> ('i \<Rightarrow> 'v) \<Rightarrow> 'i list \<Rightarrow> ('k \<Rightarrow> 'v)" where
  "multiply_at a key val xs = fold (\<lambda>i g. g(key i := g (key i) * val i)) xs a"

text \<open>\<open>esutil.numpy_util.match(arr1, arr2)\<close> returns two index arrays \<open>sub1\<close>, \<open>sub2\<close> with
  \<open>arr1[sub1] == arr2[sub2]\<close>, where \<open>arr1\<close> holds unique values and \<open>arr2\<close> may repeat
  them: \<open>sub2\<close> lists, in increasing order, the positions of \<open>arr2\<close> whose value occurs in
  \<open>arr1\<close>, and \<open>sub1\<close> the position in \<open>arr1\<close> of each of these values.\<close>

fun index_of :: "nat list \<Rightarrow> nat \<Rightarrow> nat" where
  "index_of [] v = 0"
| "index_of (x # xs) v = (if x = v then 0 else Suc (index_of xs v))"

definition match_sub2 :: "nat list \<Rightarrow> (nat \<Rightarrow> nat) \<Rightarrow> nat list \<Rightarrow> nat list" where
  "match_sub2 arr1 arr2 dom2 = filter (\<lambda>j. arr2 j \<in> set arr1) dom2"

definition match_sub1 :: "nat list \<Rightarrow> (nat \<Rightarrow> nat) \<Rightarrow> nat list \<Rightarrow> nat list" where
  "match_sub1 arr1 arr2 dom2 = map (\<lambda>j. index_of arr1 (arr2 j)) (match_sub2 arr1 arr2 dom2)"

text \<open>The function refuses an empty array on either side; when both hold elements but
  share no value, both results are empty.\<close>

definition np_match ::
  "nat list \<Rightarrow> (nat \<Rightarrow> nat) \<Rightarrow> nat list \<Rightarrow> error + nat list \<times> nat list" where
  "np_match arr1 arr2 dom2 =
     (if arr1 = [] \<or> dom2 = [] then Inl EmptyMatchInput
      else Inr (match_sub1 arr1 arr2 dom2, match_sub2 arr1 arr2 dom2))"

section \<open>The star store\<close>

text \<open>The shared arrays of \<open>FgcmStars\<close> that the three engines read and write, one field
  for each array handle.  \<open>nStars\<close> is the length of the object arrays and \<open>nStarObs\<close> the
  length of the observation arrays.\<close>

record fgcmStars =
  nStars :: nat
  nStarObs :: nat
  nBands :: nat
  objFlag :: "nat \<Rightarrow> int"
  objNGoodObs :: "nat \<times> nat \<Rightarrow> int"
  objSEDSlope :: arr2
  objMagStdMean :: arr2
  objMagStdMeanNoChrom :: arr2
  objMagStdMeanErr :: arr2
  obsObjIDIndex :: "nat \<Rightarrow> nat"
  obsExpIndex :: "nat \<Rightarrow> nat"
  obsBandIndex :: "nat \<Rightarrow> nat"
  obsLUTFilterIndex :: "nat \<Rightarrow> nat"
  obsCCD :: "nat \<Rightarrow> int"
  obsFlag :: "nat \<Rightarrow> int"
  obsSecZenith :: arr1
  obsMagADU :: arr1
  obsMagADUModelErr :: arr1
  obsMagStd :: arr1
  bandRequiredIndex :: "nat list"
  bandExtraIndex :: "nat list"
  minObsPerBand :: int
  magStdComputed :: bool
  allMagStdComputed :: bool

section \<open>Configuration shared by the engines\<close>

text \<open>Every engine copies \<open>ccdStartIndex\<close> and \<open>illegalValue\<close> from the configuration; the
  bit \<open>objFlagDict['RESERVED']\<close> of \<open>fgcmUtilities\<close> is kept with them.\<close>

record fgcmConfig =
  ccdStartIndex :: int
  illegalValue :: real
  reservedFlag :: int

section \<open>The parameter container\<close>

text \<open>What the engines use of \<open>FgcmParameters\<close>.  The layout of the fit-parameter vector
  (the sizes, the offset of every parameter family and the switches that select the
  families) is fixed when the container is built; it is kept in a record of its own.\<close>

record parLayout =
  nFitPars :: nat
  nCampaignNights :: nat
  nWashIntervals :: nat
  nFitBands :: nat
  fitBandIndex :: "nat list"
  parO3Loc :: nat
  parAlphaLoc :: nat
  parExternalPWVOffsetLoc :: nat
  parExternalPWVScaleLoc :: nat
  parRetrievedPWVScaleLoc :: nat
  parRetrievedPWVNightlyOffsetLoc :: nat
  parRetrievedPWVOffsetLoc :: nat
  parPWVInterceptLoc :: nat
  parPWVPerSlopeLoc :: nat
  parExternalTauOffsetLoc :: nat
  parExternalTauScaleLoc :: nat
  parLnTauInterceptLoc :: nat
  parLnTauSlopeLoc :: nat
  parQESysInterceptLoc :: nat
  parQESysSlopeLoc :: nat
  hasExternalPWV :: bool
  useRetrievedPWV :: bool
  useNightlyRetrievedPWV :: bool
  hasExternalTau :: bool

text \<open>The per-exposure arrays, as \<open>parsToExposures\<close> leaves them, the wash dates and the
  stored repeatability.\<close>

record fgcmPars =
  expFlag :: "nat \<Rightarrow> int"
  expPWV :: arr1
  expO3 :: arr1
  expLnTau :: arr1
  expTau :: arr1
  expAlpha :: arr1
  expPmb :: arr1
  expQESys :: arr1
  expMJD :: arr1
  expDeltaUT :: arr1
  expNightIndex :: "nat \<Rightarrow> nat"
  expWashIndex :: "nat \<Rightarrow> nat"
  externalPWVFlag :: "nat \<Rightarrow> bool"
  externalTauFlag :: "nat \<Rightarrow> bool"
  compRetrievedPWVFlag :: "nat \<Rightarrow> int"
  washMJDs :: arr1
  compSigFgcm :: arr1

text \<open>The dictionary returned by \<open>getUnitDict\<close>, one field for each key the chi-squared
  engine reads.\<close>

record unitDict =
  o3Unit :: real
  alphaUnit :: real
  pwvUnit :: real
  pwvGlobalUnit :: real
  pwvPerSlopeUnit :: real
  tauUnit :: real
  lnTauUnit :: real
  lnTauSlopeUnit :: real
  qeSysUnit :: real
  qeSysSlopeUnit :: real

text \<open>A loop whose body may raise: the first error ends it.\<close>

fun foldE :: "('a \<Rightarrow> 's \<Rightarrow> 'e + 's) \<Rightarrow> 'a list \<Rightarrow> 's \<Rightarrow> 'e + 's" where
  "foldE f [] s = Inr s"
| "foldE f (x # xs) s = (case f x s of Inl e \<Rightarrow> Inl e | Inr s' \<Rightarrow> foldE f xs s')"

section \<open>FgcmGray.computeCCDAndExpGray\<close>

record grayConfig = fgcmConfig +
  minStarPerCCD :: int
  maxCCDGrayErr :: real
  ccdGrayMaxStarErr :: real
  nExp :: nat
  nCCD :: nat

text \<open>The arrays the method fills: the per-(exposure, CCD) and per-exposure tables of the
  engine and the three fields of the parameter container written at the end.  The gray of
  a cell can be left as not-a-number; \<open>ccdGrayIsNaN\<close> marks these cells, and \<open>ccdGray\<close>
  holds 0 there.\<close>

record grayArrays =
  ccdGray :: arr2
  ccdGrayIsNaN :: "nat \<times> nat \<Rightarrow> bool"
  ccdGrayRMS :: arr2
  ccdGrayErr :: arr2
  ccdNGoodObs :: "nat \<times> nat \<Rightarrow> int"
  ccdNGoodStars :: "nat \<times> nat \<Rightarrow> int"
  ccdNGoodTilings :: arr2
  expGray :: arr1
  expGrayRMS :: arr1
  expGrayErr :: arr1
  expNGoodStars :: "nat \<Rightarrow> int"
  expNGoodCCDs :: "nat \<Rightarrow> int"
  expNGoodTilings :: arr1
  compExpGray :: arr1
  compVarGray :: arr1
  compNGoodStarPerExp :: "nat \<Rightarrow> int"

text \<open>\<open>minObs = objNGoodObs[:, bandRequiredIndex].min(axis=1)\<close> and the selection of the good
  stars; the reduction has no value when there is no required band.\<close>

definition minObs :: "fgcmStars \<Rightarrow> nat \<Rightarrow> int" where
  "minObs st s = min_list (map (\<lambda>b. objNGoodObs st (s, b)) (bandRequiredIndex st))"

definition grayGoodStars :: "fgcmStars \<Rightarrow> nat list" where
  "grayGoodStars st =
     filter (\<lambda>s. minObs st s \<ge> minObsPerBand st \<and> objFlag st s = 0) [0..<nStars st]"

text \<open>\<open>EGrayGO\<close> and \<open>EGrayErr2GO\<close>, as functions of the observation they belong to.\<close>

definition EGray :: "fgcmStars \<Rightarrow> nat \<Rightarrow> real" where
  "EGray st i = objMagStdMean st (obsObjIDIndex st i, obsBandIndex st i) - obsMagStd st i"

definition EGrayErr2 :: "fgcmStars \<Rightarrow> bool \<Rightarrow> nat \<Rightarrow> real" where
  "EGrayErr2 st onlyObsErr i =
     (if onlyObsErr then (obsMagADUModelErr st i)\<^sup>2
      else (obsMagADUModelErr st i)\<^sup>2
           - (objMagStdMeanErr st (obsObjIDIndex st i, obsBandIndex st i))\<^sup>2)"

text \<open>The three successive values of \<open>goodObs\<close>: matched to the good stars, cut to the
  unflagged observations, cut on the maximum error.\<close>

definition grayMatchedObs :: "fgcmStars \<Rightarrow> nat list" where
  "grayMatchedObs st =
     filter (\<lambda>i. obsFlag st i = 0)
       (match_sub2 (grayGoodStars st) (obsObjIDIndex st) [0..<nStarObs st])"

definition grayGoodObs :: "grayConfig \<Rightarrow> fgcmStars \<Rightarrow> bool \<Rightarrow> nat list" where
  "grayGoodObs cfg st onlyObsErr =
     filter (\<lambda>i. EGrayErr2 st onlyObsErr i < ccdGrayMaxStarErr cfg) (grayMatchedObs st)"

text \<open>The observations that are summed: those of the required bands, then, for every extra
  band in turn, those of that band whose object has enough observations in it.\<close>

definition reqBandUse :: "fgcmStars \<Rightarrow> nat list \<Rightarrow> nat list" where
  "reqBandUse st goodObs = match_sub2 (bandRequiredIndex st) (obsBandIndex st) goodObs"

definition extraBandUse :: "fgcmStars \<Rightarrow> nat list \<Rightarrow> nat \<Rightarrow> nat list" where
  "extraBandUse st goodObs extraBandIndex =
     filter (\<lambda>i. obsBandIndex st i = extraBandIndex
               \<and> objNGoodObs st (obsObjIDIndex st i, extraBandIndex) \<ge> minObsPerBand st) goodObs"

definition grayUse :: "grayConfig \<Rightarrow> fgcmStars \<Rightarrow> bool \<Rightarrow> nat list" where
  "grayUse cfg st onlyObsErr =
     (let goodObs = grayGoodObs cfg st onlyObsErr
      in reqBandUse st goodObs @ concat (map (extraBandUse st goodObs) (bandExtraIndex st)))"

text \<open>The cell of an observation.  The CCD index is the CCD number less \<open>ccdStartIndex\<close>;
  numpy counts a negative index from the end of the axis and refuses an index beyond
  either end.\<close>

definition obsCCDIndex :: "grayConfig \<Rightarrow> fgcmStars \<Rightarrow> nat \<Rightarrow> int" where
  "obsCCDIndex cfg st i = obsCCD st i - ccdStartIndex cfg"

definition cellInRange :: "grayConfig \<Rightarrow> fgcmStars \<Rightarrow> nat \<Rightarrow> bool" where
  "cellInRange cfg st i \<longleftrightarrow>
     obsExpIndex st i < nExp cfg \<and> - int (nCCD cfg) \<le> obsCCDIndex cfg st i
     \<and> obsCCDIndex cfg st i < int (nCCD cfg)"

definition ccdKey :: "grayConfig \<Rightarrow> fgcmStars \<Rightarrow> nat \<Rightarrow> nat \<times> nat" where
  "ccdKey cfg st i =
     (obsExpIndex st i,
      nat (if obsCCDIndex cfg st i < 0 then obsCCDIndex cfg st i + int (nCCD cfg)
           else obsCCDIndex cfg st i))"

definition cellObs :: "grayConfig \<Rightarrow> fgcmStars \<Rightarrow> bool \<Rightarrow> nat \<times> nat \<Rightarrow> nat list" where
  "cellObs cfg st onlyObsErr c = filter (\<lambda>i. ccdKey cfg st i = c) (grayUse cfg st onlyObsErr)"

text \<open>The five accumulations of \<open>np.add.at\<close> over the (exposure, CCD) cells.  In the
  three real sums a contribution of variance zero adds nothing.  In numpy it adds
  \<open>1/0 = inf\<close> to the weight, \<open>x/0\<close> to the sum of the residuals and \<open>x\<^sup>2/0\<close> to the sum of
  their squares, which is \<open>inf\<close> for a residual other than zero and not-a-number for a
  residual of zero: \<open>ccdInfinite\<close> says that the weight of the cell is infinite, and
  \<open>ccdUndefined\<close> that its sum of squares is not a number.\<close>

definition ccdInfinite :: "grayConfig \<Rightarrow> fgcmStars \<Rightarrow> bool \<Rightarrow> nat \<times> nat \<Rightarrow> bool" where
  "ccdInfinite cfg st onlyObsErr c \<longleftrightarrow>
     list_ex (\<lambda>i. EGrayErr2 st onlyObsErr i = 0) (cellObs cfg st onlyObsErr c)"

definition ccdUndefined :: "grayConfig \<Rightarrow> fgcmStars \<Rightarrow> bool \<Rightarrow> nat \<times> nat \<Rightarrow> bool" where
  "ccdUndefined cfg st onlyObsErr c \<longleftrightarrow>
     list_ex (\<lambda>i. EGrayErr2 st onlyObsErr i = 0 \<and> EGray st i = 0) (cellObs cfg st onlyObsErr c)"


definition ccdGrayWt :: "grayConfig \<Rightarrow> fgcmStars \<Rightarrow> bool \<Rightarrow> arr2" where
  "ccdGrayWt cfg st onlyObsErr =
     add_at (\<lambda>_. 0) (ccdKey cfg st) (\<lambda>i. 1 / EGrayErr2 st onlyObsErr i) (grayUse cfg st onlyObsErr)"

definition ccdGraySum :: "grayConfig \<Rightarrow> fgcmStars \<Rightarrow> bool \<Rightarrow> arr2" where
  "ccdGraySum cfg st onlyObsErr =
     add_at (\<lambda>_. 0) (ccdKey cfg st) (\<lambda>i. EGray st i / EGrayErr2 st onlyObsErr i)
       (grayUse cfg st onlyObsErr)"

definition ccdGrayRMSSum :: "grayConfig \<Rightarrow> fgcmStars \<Rightarrow> bool \<Rightarrow> arr2" where
  "ccdGrayRMSSum cfg st onlyObsErr =
     add_at (\<lambda>_. 0) (ccdKey cfg st) (\<lambda>i. (EGray st i)\<^sup>2 / EGrayErr2 st onlyObsErr i)
       (grayUse cfg st onlyObsErr)"

definition ccdNGoodStarsSum :: "grayConfig \<Rightarrow> fgcmStars \<Rightarrow> bool \<Rightarrow> nat \<times> nat \<Rightarrow> int" where
  "ccdNGoodStarsSum cfg st onlyObsErr =
     add_at (\<lambda>_. 0) (ccdKey cfg st) (\<lambda>_. 1) (grayUse cfg st onlyObsErr)"

definition ccdNGoodObsSum :: "grayConfig \<Rightarrow> fgcmStars \<Rightarrow> bool \<Rightarrow> nat \<times> nat \<Rightarrow> int" where
  "ccdNGoodObsSum cfg st onlyObsErr =
     add_at (\<lambda>_. 0) (ccdKey cfg st)
       (\<lambda>i. objNGoodObs st (obsObjIDIndex st i, obsBandIndex st i)) (grayUse cfg st onlyObsErr)"

text \<open>The normalisation of the cells.  \<open>ccdGd\<close> is the first \<open>gd\<close> of the code, taken on
  the raw sums: an infinite weight is positive, and the sum of squares is then positive
  unless it is not a number.  In such a cell the gray (anything infinite over \<open>inf\<close>) and
  \<open>tempRMS2\<close> are not numbers, which \<open>ccdNaN\<close> says; no comparison with a not-a-number
  holds, so the cell is neither \<open>ok\<close> nor \<open>bad\<close>, its error is \<open>sqrt (1/inf) = 0\<close>, and its
  RMS keeps the infinite sum until the test for non-finite values replaces it.  Outside
  \<open>ccdGd\<close>, \<open>tempRMS2\<close> is zero and the cell receives the illegal value.\<close>

definition ccdGd :: "grayConfig \<Rightarrow> fgcmStars \<Rightarrow> bool \<Rightarrow> nat \<times> nat \<Rightarrow> bool" where
  "ccdGd cfg st onlyObsErr c \<longleftrightarrow>
     ccdNGoodStarsSum cfg st onlyObsErr c > 2
     \<and> (if ccdInfinite cfg st onlyObsErr c then \<not> ccdUndefined cfg st onlyObsErr c
        else ccdGrayWt cfg st onlyObsErr c > 0 \<and> ccdGrayRMSSum cfg st onlyObsErr c > 0)"

definition ccdNaN :: "grayConfig \<Rightarrow> fgcmStars \<Rightarrow> bool \<Rightarrow> nat \<times> nat \<Rightarrow> bool" where
  "ccdNaN cfg st onlyObsErr c \<longleftrightarrow> ccdInfinite cfg st onlyObsErr c \<and> ccdGd cfg st onlyObsErr c"

definition ccdGrayDivided :: "grayConfig \<Rightarrow> fgcmStars \<Rightarrow> bool \<Rightarrow> arr2" where
  "ccdGrayDivided cfg st onlyObsErr c =
     (if ccdNaN cfg st onlyObsErr c then 0
      else if ccdGd cfg st onlyObsErr c
      then ccdGraySum cfg st onlyObsErr c / ccdGrayWt cfg st onlyObsErr c
      else ccdGraySum cfg st onlyObsErr c)"

definition tempRMS2 :: "grayConfig \<Rightarrow> fgcmStars \<Rightarrow> bool \<Rightarrow> arr2" where
  "tempRMS2 cfg st onlyObsErr c =
     (if ccdGd cfg st onlyObsErr c \<and> \<not> ccdNaN cfg st onlyObsErr c
      then ccdGrayRMSSum cfg st onlyObsErr c / ccdGrayWt cfg st onlyObsErr c
           - (ccdGrayDivided cfg st onlyObsErr c)\<^sup>2
      else 0)"

definition ccdBad :: "grayConfig \<Rightarrow> fgcmStars \<Rightarrow> bool \<Rightarrow> nat \<times> nat \<Rightarrow> bool" where
  "ccdBad cfg st onlyObsErr c \<longleftrightarrow>
     (if ccdNaN cfg st onlyObsErr c then False
      else ccdNGoodStarsSum cfg st onlyObsErr c \<le> 2
           \<or> (\<not> ccdInfinite cfg st onlyObsErr c \<and> ccdGrayWt cfg st onlyObsErr c \<le> 0)
           \<or> tempRMS2 cfg st onlyObsErr c \<le> 0)"

definition ccdGrayFinal :: "grayConfig \<Rightarrow> fgcmStars \<Rightarrow> bool \<Rightarrow> arr2" where
  "ccdGrayFinal cfg st onlyObsErr c =
     (if ccdBad cfg st onlyObsErr c then illegalValue cfg else ccdGrayDivided cfg st onlyObsErr c)"

definition ccdGrayRMSFinal :: "grayConfig \<Rightarrow> fgcmStars \<Rightarrow> bool \<Rightarrow> arr2" where
  "ccdGrayRMSFinal cfg st onlyObsErr c =
     (if ccdBad cfg st onlyObsErr c then illegalValue cfg
      else if ccdNaN cfg st onlyObsErr c then illegalValue cfg
      else if tempRMS2 cfg st onlyObsErr c > 0 then sqrt (tempRMS2 cfg st onlyObsErr c)
      else ccdGrayRMSSum cfg st onlyObsErr c)"

definition ccdGrayErrFinal :: "grayConfig \<Rightarrow> fgcmStars \<Rightarrow> bool \<Rightarrow> arr2" where
  "ccdGrayErrFinal cfg st onlyObsErr c =
     (if ccdBad cfg st onlyObsErr c then illegalValue cfg
      else if ccdNaN cfg st onlyObsErr c then 0
      else if ccdGd cfg st onlyObsErr c then sqrt (1 / ccdGrayWt cfg st onlyObsErr c)
      else 0)"

definition ccdNGoodTilingsFinal :: "grayConfig \<Rightarrow> fgcmStars \<Rightarrow> bool \<Rightarrow> arr2" where
  "ccdNGoodTilingsFinal cfg st onlyObsErr c =
     (if ccdGd cfg st onlyObsErr c
      then real_of_int (ccdNGoodObsSum cfg st onlyObsErr c)
           / real_of_int (ccdNGoodStarsSum cfg st onlyObsErr c)
      else 0)"

text \<open>The CCDs that enter the exposure sums: \<open>goodCCD = np.where(...)\<close> runs through the
  \<open>nExp\<close> by \<open>nCCD\<close> table row by row.\<close>

definition goodCCD :: "grayConfig \<Rightarrow> fgcmStars \<Rightarrow> bool \<Rightarrow> (nat \<times> nat) list" where
  "goodCCD cfg st onlyObsErr =
     filter (\<lambda>c. ccdNGoodStarsSum cfg st onlyObsErr c \<ge> minStarPerCCD cfg
               \<and> ccdGrayErrFinal cfg st onlyObsErr c > 0
               \<and> ccdGrayErrFinal cfg st onlyObsErr c < maxCCDGrayErr cfg)
       (List.product [0..<nExp cfg] [0..<nCCD cfg])"

definition expGrayWt :: "grayConfig \<Rightarrow> fgcmStars \<Rightarrow> bool \<Rightarrow> arr1" where
  "expGrayWt cfg st onlyObsErr =
     add_at (\<lambda>_. 0) fst (\<lambda>c. 1 / (ccdGrayErrFinal cfg st onlyObsErr c)\<^sup>2)
       (goodCCD cfg st onlyObsErr)"

definition expGraySum :: "grayConfig \<Rightarrow> fgcmStars \<Rightarrow> bool \<Rightarrow> arr1" where
  "expGraySum cfg st onlyObsErr =
     add_at (\<lambda>_. 0) fst
       (\<lambda>c. ccdGrayFinal cfg st onlyObsErr c / (ccdGrayErrFinal cfg st onlyObsErr c)\<^sup>2)
       (goodCCD cfg st onlyObsErr)"

definition expGrayRMSSum :: "grayConfig \<Rightarrow> fgcmStars \<Rightarrow> bool \<Rightarrow> arr1" where
  "expGrayRMSSum cfg st onlyObsErr =
     add_at (\<lambda>_. 0) fst
       (\<lambda>c. (ccdGrayFinal cfg st onlyObsErr c)\<^sup>2 / (ccdGrayErrFinal cfg st onlyObsErr c)\<^sup>2)
       (goodCCD cfg st onlyObsErr)"

definition expNGoodCCDsSum :: "grayConfig \<Rightarrow> fgcmStars \<Rightarrow> bool \<Rightarrow> nat \<Rightarrow> int" where
  "expNGoodCCDsSum cfg st onlyObsErr =
     add_at (\<lambda>_. 0) fst (\<lambda>_. 1) (goodCCD cfg st onlyObsErr)"

definition expNGoodTilingsSum :: "grayConfig \<Rightarrow> fgcmStars \<Rightarrow> bool \<Rightarrow> arr1" where
  "expNGoodTilingsSum cfg st onlyObsErr =
     add_at (\<lambda>_. 0) fst (ccdNGoodTilingsFinal cfg st onlyObsErr) (goodCCD cfg st onlyObsErr)"

definition expNGoodStarsSum :: "grayConfig \<Rightarrow> fgcmStars \<Rightarrow> bool \<Rightarrow> nat \<Rightarrow> int" where
  "expNGoodStarsSum cfg st onlyObsErr =
     add_at (\<lambda>_. 0) fst (ccdNGoodStarsSum cfg st onlyObsErr) (goodCCD cfg st onlyObsErr)"

definition expGd :: "grayConfig \<Rightarrow> fgcmStars \<Rightarrow> bool \<Rightarrow> nat \<Rightarrow> bool" where
  "expGd cfg st onlyObsErr e \<longleftrightarrow> expNGoodCCDsSum cfg st onlyObsErr e > 2"

definition expGrayFinal :: "grayConfig \<Rightarrow> fgcmStars \<Rightarrow> bool \<Rightarrow> arr1" where
  "expGrayFinal cfg st onlyObsErr e =
     (if expNGoodCCDsSum cfg st onlyObsErr e \<le> 2 then illegalValue cfg
      else expGraySum cfg st onlyObsErr e / expGrayWt cfg st onlyObsErr e)"

definition expGrayRMSFinal :: "grayConfig \<Rightarrow> fgcmStars \<Rightarrow> bool \<Rightarrow> arr1" where
  "expGrayRMSFinal cfg st onlyObsErr e =
     (if expNGoodCCDsSum cfg st onlyObsErr e \<le> 2 then illegalValue cfg
      else sqrt (expGrayRMSSum cfg st onlyObsErr e / expGrayWt cfg st onlyObsErr e
                 - (expGraySum cfg st onlyObsErr e / expGrayWt cfg st onlyObsErr e)\<^sup>2))"

definition expGrayErrFinal :: "grayConfig \<Rightarrow> fgcmStars \<Rightarrow> bool \<Rightarrow> arr1" where
  "expGrayErrFinal cfg st onlyObsErr e =
     (if expNGoodCCDsSum cfg st onlyObsErr e \<le> 2 then illegalValue cfg
      else sqrt (1 / expGrayWt cfg st onlyObsErr e))"

definition expNGoodTilingsFinal :: "grayConfig \<Rightarrow> fgcmStars \<Rightarrow> bool \<Rightarrow> arr1" where
  "expNGoodTilingsFinal cfg st onlyObsErr e =
     (if expNGoodCCDsSum cfg st onlyObsErr e \<le> 2 then illegalValue cfg
      else expNGoodTilingsSum cfg st onlyObsErr e
           / real_of_int (expNGoodCCDsSum cfg st onlyObsErr e))"

text \<open>The method.  It refuses to run before the standardised magnitudes of all exposures
  exist; the minimum over no required band, a match with an empty side (no good star, no
  observation at all, or no observation left by the cuts) and a cell outside the tables
  make it fail; otherwise it fills every table.  The argument \<open>oldVarGray\<close> is the content of
  \<open>fgcmPars.compVarGray\<close> before the call, of which only the measured exposures are
  overwritten.\<close>

definition computeCCDAndExpGray ::
  "grayConfig \<Rightarrow> fgcmStars \<Rightarrow> arr1 \<Rightarrow> bool \<Rightarrow> error + grayArrays" where
  "computeCCDAndExpGray cfg st oldVarGray onlyObsErr =
     (if \<not> allMagStdComputed st then Inl MagStdNotComputed
      else if bandRequiredIndex st = [] then Inl EmptyReduction
      else if grayGoodStars st = [] \<or> nStarObs st = 0 then Inl EmptyMatchInput
      else if grayGoodObs cfg st onlyObsErr = [] then Inl EmptyMatchInput
      else if list_ex (\<lambda>i. \<not> cellInRange cfg st i) (grayUse cfg st onlyObsErr)
      then Inl IndexError
      else Inr \<lparr>
        ccdGray = ccdGrayFinal cfg st onlyObsErr,
        ccdGrayIsNaN = ccdNaN cfg st onlyObsErr,
        ccdGrayRMS = ccdGrayRMSFinal cfg st onlyObsErr,
        ccdGrayErr = ccdGrayErrFinal cfg st onlyObsErr,
        ccdNGoodObs = ccdNGoodObsSum cfg st onlyObsErr,
        ccdNGoodStars = ccdNGoodStarsSum cfg st onlyObsErr,
        ccdNGoodTilings = ccdNGoodTilingsFinal cfg st onlyObsErr,
        expGray = expGrayFinal cfg st onlyObsErr,
        expGrayRMS = expGrayRMSFinal cfg st onlyObsErr,
        expGrayErr = expGrayErrFinal cfg st onlyObsErr,
        expNGoodStars = expNGoodStarsSum cfg st onlyObsErr,
        expNGoodCCDs = expNGoodCCDsSum cfg st onlyObsErr,
        expNGoodTilings = expNGoodTilingsFinal cfg st onlyObsErr,
        compExpGray = expGrayFinal cfg st onlyObsErr,
        compVarGray = (\<lambda>e. if expGd cfg st onlyObsErr e
                            then (expGrayRMSFinal cfg st onlyObsErr e)\<^sup>2 else oldVarGray e),
        compNGoodStarPerExp = expNGoodStarsSum cfg st onlyObsErr \<rparr>)"

subsection \<open>The statistics of a cell, as the specification words them\<close>

text \<open>The total inverse-variance weight of the observations that contribute to the cell
  \<open>c\<close>, and the weighted means of their residual and of its square.\<close>

definition cellWeight :: "grayConfig \<Rightarrow> fgcmStars \<Rightarrow> bool \<Rightarrow> arr2" where
  "cellWeight cfg st onlyObsErr c =
     (\<Sum>i\<leftarrow>cellObs cfg st onlyObsErr c. 1 / EGrayErr2 st onlyObsErr i)"

definition cellMean :: "grayConfig \<Rightarrow> fgcmStars \<Rightarrow> bool \<Rightarrow> arr2" where
  "cellMean cfg st onlyObsErr c =
     (\<Sum>i\<leftarrow>cellObs cfg st onlyObsErr c. EGray st i / EGrayErr2 st onlyObsErr i)
     / cellWeight cfg st onlyObsErr c"

definition cellMeanSq :: "grayConfig \<Rightarrow> fgcmStars \<Rightarrow> bool \<Rightarrow> arr2" where
  "cellMeanSq cfg st onlyObsErr c =
     (\<Sum>i\<leftarrow>cellObs cfg st onlyObsErr c. (EGray st i)\<^sup>2 / EGrayErr2 st onlyObsErr i)
     / cellWeight cfg st onlyObsErr c"

text \<open>The CCDs of exposure \<open>e\<close> that pass the gate on the stored tables, and the
  weighted statistics of these CCDs.\<close>

definition gateCCDs :: "grayConfig \<Rightarrow> grayArrays \<Rightarrow> nat \<Rightarrow> nat list" where
  "gateCCDs cfg g e =
     filter (\<lambda>d. ccdNGoodStars g (e, d) \<ge> minStarPerCCD cfg \<and> 0 < ccdGrayErr g (e, d)
               \<and> ccdGrayErr g (e, d) < maxCCDGrayErr cfg) [0..<nCCD cfg]"

definition gateWeight :: "grayConfig \<Rightarrow> grayArrays \<Rightarrow> arr1" where
  "gateWeight cfg g e = (\<Sum>d\<leftarrow>gateCCDs cfg g e. 1 / (ccdGrayErr g (e, d))\<^sup>2)"

definition gateMean :: "grayConfig \<Rightarrow> grayArrays \<Rightarrow> arr1" where
  "gateMean cfg g e =
     (\<Sum>d\<leftarrow>gateCCDs cfg g e. ccdGray g (e, d) / (ccdGrayErr g (e, d))\<^sup>2) / gateWeight cfg g e"

definition gateMeanSq :: "grayConfig \<Rightarrow> grayArrays \<Rightarrow> arr1" where
  "gateMeanSq cfg g e =
     (\<Sum>d\<leftarrow>gateCCDs cfg g e. (ccdGray g (e, d))\<^sup>2 / (ccdGrayErr g (e, d))\<^sup>2)
     / gateWeight cfg g e"

subsection \<open>A small catalogue\<close>

text \<open>One exposure with two CCDs and four stars of one observation each.  Stars 0 to 2 sit on
  the first CCD with unit model error and residuals 1, 0 and -1.  Star 3 sits on the second
  CCD; its mean magnitude has error 2 while its observation has model error 1.\<close>

definition grayCfgEx :: grayConfig where
  "grayCfgEx = \<lparr> ccdStartIndex = 1, illegalValue = -9999, reservedFlag = 4,
     minStarPerCCD = 3, maxCCDGrayErr = 1, ccdGrayMaxStarErr = 2, nExp = 1, nCCD = 2 \<rparr>"

definition grayStarsEx :: fgcmStars where
  "grayStarsEx = \<lparr> nStars = 4, nStarObs = 4, nBands = 1,
     objFlag = (\<lambda>_. 0), objNGoodObs = (\<lambda>_. 1), objSEDSlope = (\<lambda>_. 0),
     objMagStdMean = (\<lambda>_. 20), objMagStdMeanNoChrom = (\<lambda>_. 20),
     objMagStdMeanErr = (\<lambda>c. if fst c = 3 then 2 else 0),
     obsObjIDIndex = (\<lambda>i. i), obsExpIndex = (\<lambda>_. 0), obsBandIndex = (\<lambda>_. 0),
     obsLUTFilterIndex = (\<lambda>_. 0), obsCCD = (\<lambda>i. if i = 3 then 2 else 1),
     obsFlag = (\<lambda>_. 0), obsSecZenith = (\<lambda>_. 1), obsMagADU = (\<lambda>_. 0),
     obsMagADUModelErr = (\<lambda>_. 1),
     obsMagStd = (\<lambda>i. if i = 0 then 19 else if i = 1 then 20 else 21),
     bandRequiredIndex = [0], bandExtraIndex = [], minObsPerBand = 1,
     magStdComputed = True, allMagStdComputed = True \<rparr>"


text \<open>The same catalogue with error 1 for the mean magnitude of star 0, as it is
  computed from a single observation of model error 1: the residual of that observation
  has variance zero.\<close>

definition grayStarsZero :: fgcmStars where
  "grayStarsZero =
     grayStarsEx\<lparr>objMagStdMeanErr := (\<lambda>c. if fst c = 0 then 1 else if fst c = 3 then 2 else 0)\<rparr>"

section \<open>FgcmSigFgcm.computeSigFgcm\<close>

record sigConfig = fgcmConfig +
  sigFgcmMaxEGray :: real
  sigFgcmMaxErr :: real
  colorSplitIndices :: "nat \<times> nat"

text \<open>\<open>np.sqrt\<close> has no real value on a negative number, and \<open>np.median\<close> of a non-empty
  array is the middle element of the sorted array, or the mean of the two middle ones.\<close>

definition np_sqrt :: "real \<Rightarrow> error + real" where
  "np_sqrt x = (if x < 0 then Inl InvalidSqrt else Inr (sqrt x))"

definition np_median :: "real list \<Rightarrow> real" where
  "np_median xs =
     (let s = sort xs; n = length s
      in if odd n then s ! (n div 2) else (s ! (n div 2 - 1) + s ! (n div 2)) / 2)"

text \<open>The stars that are used, the reserved ones or the unflagged ones, and the cut of
  their matched observations to the unflagged observations on unflagged exposures.\<close>

definition sigGoodStars :: "sigConfig \<Rightarrow> fgcmStars \<Rightarrow> bool \<Rightarrow> nat list" where
  "sigGoodStars cfg st reserved =
     (if reserved
      then filter (\<lambda>s. minObs st s \<ge> minObsPerBand st \<and> (objFlag st s AND reservedFlag cfg) > 0)
             [0..<nStars st]
      else filter (\<lambda>s. minObs st s \<ge> minObsPerBand st \<and> objFlag st s = 0) [0..<nStars st])"

definition sigCutObs :: "fgcmPars \<Rightarrow> fgcmStars \<Rightarrow> nat list \<Rightarrow> nat list" where
  "sigCutObs pars st matched =
     filter (\<lambda>i. expFlag pars (obsExpIndex st i) = 0 \<and> obsFlag st i = 0) matched"

text \<open>The colour of the object of an observation, the sorted colours (\<open>gmiGO[st]\<close>) and the
  four pairs of cuts: all, blue 25 percent, middle 50 percent, red 25 percent.\<close>

definition gmiGO :: "sigConfig \<Rightarrow> fgcmStars \<Rightarrow> nat \<Rightarrow> real" where
  "gmiGO cfg st i =
     objMagStdMean st (obsObjIDIndex st i, fst (colorSplitIndices cfg))
     - objMagStdMean st (obsObjIDIndex st i, snd (colorSplitIndices cfg))"

definition gmiCutLow :: "real list \<Rightarrow> real list" where
  "gmiCutLow srt =
     [srt ! 0, srt ! 0, srt ! (length srt div 4), srt ! ((3 * length srt) div 4)]"

definition gmiCutHigh :: "real list \<Rightarrow> real list" where
  "gmiCutHigh srt =
     [last srt, srt ! (length srt div 4), srt ! ((3 * length srt) div 4), last srt]"

text \<open>The selection \<open>sigUse\<close> of one band and one colour cut.\<close>

definition sigUse ::
  "sigConfig \<Rightarrow> fgcmStars \<Rightarrow> nat list \<Rightarrow> real \<Rightarrow> real \<Rightarrow> nat \<Rightarrow> nat list" where
  "sigUse cfg st goodObs lo hi bandIndex =
     (if bandIndex \<in> set (bandRequiredIndex st)
      then filter (\<lambda>i. \<bar>EGray st i\<bar> < sigFgcmMaxEGray cfg
                    \<and> EGrayErr2 st False i > 0
                    \<and> EGrayErr2 st False i < (sigFgcmMaxErr cfg)\<^sup>2
                    \<and> EGray st i \<noteq> 0
                    \<and> obsBandIndex st i = bandIndex
                    \<and> gmiGO cfg st i > lo \<and> gmiGO cfg st i < hi) goodObs
      else filter (\<lambda>i. \<bar>EGray st i\<bar> < sigFgcmMaxEGray cfg
                    \<and> EGrayErr2 st False i > 0
                    \<and> EGrayErr2 st False i < (sigFgcmMaxErr cfg)\<^sup>2
                    \<and> EGray st i \<noteq> 0
                    \<and> obsBandIndex st i = bandIndex
                    \<and> objNGoodObs st (obsObjIDIndex st i, bandIndex) \<ge> minObsPerBand st
                    \<and> gmiGO cfg st i > lo \<and> gmiGO cfg st i < hi) goodObs)"

text \<open>The value given to \<open>sigFgcm[bandIndex]\<close>.  The first argument is the width
  \<open>coeff[2]\<close> of the Gaussian fit, \<open>None\<close> when it is not finite (which includes a fit
  that raised, for which the code substitutes infinities); the second is the median of
  the residual variances of the selection.\<close>

definition sigFgcmValue :: "real option \<Rightarrow> real \<Rightarrow> error + real" where
  "sigFgcmValue width med =
     (case width of
        None \<Rightarrow> Inr (5 / 100)
      | Some sigma \<Rightarrow>
          if med > sigma\<^sup>2 then Inr (1 / 1000) else np_sqrt (sigma\<^sup>2 - med))"

text \<open>What the method changes: the local array \<open>sigFgcm\<close>, the array
  \<open>fgcmPars.compSigFgcm\<close>, whether the local name \<open>extraName\<close> of the plot file has been
  assigned, and the lines \<open>sigFgcm (band) (cut) = value\<close> written to the log, each as the
  band, the colour cut and the value.\<close>

record sigState =
  sigFgcm :: arr1
  parsSigFgcm :: arr1
  extraNameSet :: bool
  sigLog :: "(nat \<times> nat \<times> real) list"

text \<open>One pass of the inner loop, for the band \<open>bandIndex\<close> and the colour cut \<open>c\<close>.  An empty
  selection leaves everything as it is.  Otherwise the element of the band is set, logged,
  and saved when \<open>save\<close> is set and the cut is the full colour range; \<open>extraName\<close> is
  assigned on the way to the plot only, which \<open>doPlots = False\<close> skips.  The Gaussian fitter
  \<open>histoGauss\<close> of \<open>fgcmUtilities\<close> is a parameter: it maps the sample to the finite width it
  fits, if any.  A failure carries the state that is left behind.\<close>

definition sigFgcmStep ::
  "(real list \<Rightarrow> real option) \<Rightarrow> sigConfig \<Rightarrow> fgcmStars \<Rightarrow> bool \<Rightarrow> bool \<Rightarrow> nat list \<Rightarrow> nat
   \<Rightarrow> nat \<Rightarrow> sigState \<Rightarrow> error \<times> sigState + sigState" where
  "sigFgcmStep histoGauss cfg st doPlots save goodObs bandIndex c s =
     (let srt = sort (map (gmiGO cfg st) goodObs);
          use = sigUse cfg st goodObs (gmiCutLow srt ! c) (gmiCutHigh srt ! c) bandIndex
      in if use = [] then Inr s
         else case sigFgcmValue (histoGauss (map (EGray st) use))
                     (np_median (map (EGrayErr2 st False) use)) of
                Inl e \<Rightarrow> Inl (e, s)
              | Inr v \<Rightarrow>
                  let s1 = s\<lparr>sigFgcm := (sigFgcm s)(bandIndex := v)\<rparr>;
                      s2 = s1\<lparr>sigLog := sigLog s1 @ [(bandIndex, c, sigFgcm s1 bandIndex)]\<rparr>;
                      s3 = (if save \<and> c = 0
                            then s2\<lparr>parsSigFgcm := (parsSigFgcm s2)(bandIndex := sigFgcm s2 bandIndex)\<rparr>
                            else s2)
                  in Inr (if doPlots then s3\<lparr>extraNameSet := True\<rparr> else s3))"

text \<open>The body of the outer loop: the four colour cuts, then the file name of the figure,
  which reads \<open>extraName\<close>.\<close>

definition sigFgcmBand ::
  "(real list \<Rightarrow> real option) \<Rightarrow> sigConfig \<Rightarrow> fgcmStars \<Rightarrow> bool \<Rightarrow> bool \<Rightarrow> nat list \<Rightarrow> nat
   \<Rightarrow> sigState \<Rightarrow> error \<times> sigState + sigState" where
  "sigFgcmBand histoGauss cfg st doPlots save goodObs bandIndex s =
     (case foldE (sigFgcmStep histoGauss cfg st doPlots save goodObs bandIndex) [0..<4] s of
        Inl e \<Rightarrow> Inl e
      | Inr s' \<Rightarrow> if extraNameSet s' then Inr s' else Inl (UnboundLocalError, s'))"

text \<open>The method.  The minimum over no required band, a match with no good star or no
  observation at all, and the first sorted colour of no observation make it fail before
  anything is changed.  The argument \<open>crunch\<close> only enters the name of the plot file and is
  left out, as are the figures.\<close>

definition computeSigFgcm ::
  "(real list \<Rightarrow> real option) \<Rightarrow> sigConfig \<Rightarrow> fgcmPars \<Rightarrow> fgcmStars \<Rightarrow> bool \<Rightarrow> bool \<Rightarrow> bool
   \<Rightarrow> error \<times> sigState + sigState" where
  "computeSigFgcm histoGauss cfg pars st reserved doPlots save =
     (let s0 = \<lparr> sigFgcm = (\<lambda>_. 0), parsSigFgcm = compSigFgcm pars, extraNameSet = False,
                 sigLog = [] \<rparr>
      in if \<not> magStdComputed st then Inl (MagStdNotComputed, s0)
         else if bandRequiredIndex st = [] then Inl (EmptyReduction, s0)
         else case np_match (sigGoodStars cfg st reserved) (obsObjIDIndex st) [0..<nStarObs st] of
                Inl e \<Rightarrow> Inl (e, s0)
              | Inr m \<Rightarrow>
                  let goodObs = sigCutObs pars st (snd m)
                  in if goodObs = [] then Inl (IndexError, s0)
                     else foldE (sigFgcmBand histoGauss cfg st doPlots save goodObs)
                            [0..<nBands st] s0)"

subsection \<open>The scatter of a band and a colour cut\<close>

text \<open>The selection of a band and a colour cut among the observations the method uses, the
  scatter that the three cases give it, and the log lines of the first \<open>n\<close> bands.\<close>

definition sigGoodObs :: "sigConfig \<Rightarrow> fgcmPars \<Rightarrow> fgcmStars \<Rightarrow> bool \<Rightarrow> nat list" where
  "sigGoodObs cfg pars st reserved =
     sigCutObs pars st (match_sub2 (sigGoodStars cfg st reserved) (obsObjIDIndex st) [0..<nStarObs st])"

definition sigSelection ::
  "sigConfig \<Rightarrow> fgcmPars \<Rightarrow> fgcmStars \<Rightarrow> bool \<Rightarrow> nat \<Rightarrow> nat \<Rightarrow> nat list" where
  "sigSelection cfg pars st reserved bandIndex c =
     (let goodObs = sigGoodObs cfg pars st reserved;
          srt = sort (map (gmiGO cfg st) goodObs)
      in sigUse cfg st goodObs (gmiCutLow srt ! c) (gmiCutHigh srt ! c) bandIndex)"

definition sigScatter ::
  "(real list \<Rightarrow> real option) \<Rightarrow> sigConfig \<Rightarrow> fgcmPars \<Rightarrow> fgcmStars \<Rightarrow> bool \<Rightarrow> nat \<Rightarrow> nat
   \<Rightarrow> real" where
  "sigScatter histoGauss cfg pars st reserved bandIndex c =
     (let use = sigSelection cfg pars st reserved bandIndex c;
          med = np_median (map (EGrayErr2 st False) use)
      in case histoGauss (map (EGray st) use) of
           None \<Rightarrow> 5 / 100
         | Some sigma \<Rightarrow> if med > sigma\<^sup>2 then 1 / 1000 else sqrt (sigma\<^sup>2 - med))"

definition sigLines ::
  "(real list \<Rightarrow> real option) \<Rightarrow> sigConfig \<Rightarrow> fgcmPars \<Rightarrow> fgcmStars \<Rightarrow> bool \<Rightarrow> nat list
   \<Rightarrow> nat \<Rightarrow> (nat \<times> nat \<times> real) list" where
  "sigLines histoGauss cfg pars st reserved cs bandIndex =
     concat (map (\<lambda>c. if sigSelection cfg pars st reserved bandIndex c = [] then []
                       else [(bandIndex, c, sigScatter histoGauss cfg pars st reserved bandIndex c)])
               cs)"

text \<open>Whether the method reaches its loops: the magnitudes are computed, there is a required
  band, and neither side of the match nor the cut of the matched observations is empty.\<close>

definition sigReady :: "sigConfig \<Rightarrow> fgcmPars \<Rightarrow> fgcmStars \<Rightarrow> bool \<Rightarrow> bool" where
  "sigReady cfg pars st reserved \<longleftrightarrow>
     magStdComputed st \<and> bandRequiredIndex st \<noteq> [] \<and> sigGoodStars cfg st reserved \<noteq> []
     \<and> nStarObs st \<noteq> 0 \<and> sigGoodObs cfg pars st reserved \<noteq> []"

subsection \<open>A small sample for the repeatability\<close>

text \<open>Three stars of colours 0, 1 and 2 with one observation each in band 0, of residuals
  1, 2 and 3 and of residual variance 1/100.\<close>

definition sigCfgEx :: sigConfig where
  "sigCfgEx = \<lparr> ccdStartIndex = 1, illegalValue = -9999, reservedFlag = 4,
     sigFgcmMaxEGray = 10, sigFgcmMaxErr = 1, colorSplitIndices = (0, 1) \<rparr>"

definition sigStarsEx :: fgcmStars where
  "sigStarsEx = \<lparr> nStars = 3, nStarObs = 3, nBands = 2,
     objFlag = (\<lambda>_. 0), objNGoodObs = (\<lambda>_. 1), objSEDSlope = (\<lambda>_. 0),
     objMagStdMean = (\<lambda>c. if snd c = 0 then 20 + real (fst c) else 20),
     objMagStdMeanNoChrom = (\<lambda>_. 20), objMagStdMeanErr = (\<lambda>_. 0),
     obsObjIDIndex = (\<lambda>i. i), obsExpIndex = (\<lambda>_. 0), obsBandIndex = (\<lambda>_. 0),
     obsLUTFilterIndex = (\<lambda>_. 0), obsCCD = (\<lambda>_. 1),
     obsFlag = (\<lambda>_. 0), obsSecZenith = (\<lambda>_. 1), obsMagADU = (\<lambda>_. 0),
     obsMagADUModelErr = (\<lambda>_. 1 / 10), obsMagStd = (\<lambda>_. 19),
     bandRequiredIndex = [0], bandExtraIndex = [], minObsPerBand = 1,
     magStdComputed = True, allMagStdComputed = True \<rparr>"

definition sigParsEx :: fgcmPars where
  "sigParsEx = \<lparr> expFlag = (\<lambda>_. 0), expPWV = (\<lambda>_. 0), expO3 = (\<lambda>_. 0), expLnTau = (\<lambda>_. 0),
     expTau = (\<lambda>_. 1), expAlpha = (\<lambda>_. 0), expPmb = (\<lambda>_. 0), expQESys = (\<lambda>_. 0),
     expMJD = (\<lambda>_. 0), expDeltaUT = (\<lambda>_. 0), expNightIndex = (\<lambda>_. 0),
     expWashIndex = (\<lambda>_. 0), externalPWVFlag = (\<lambda>_. False),
     externalTauFlag = (\<lambda>_. False), compRetrievedPWVFlag = (\<lambda>_. 0), washMJDs = (\<lambda>_. 0),
     compSigFgcm = (\<lambda>_. 0) \<rparr>"

section \<open>FgcmChisq\<close>

subsection \<open>Configuration, collaborators and state\<close>

record chisqConfig = fgcmConfig +
  nCore :: nat
  nStarPerRun :: nat
  noChromaticCorrections :: bool
  I10StdBand :: arr1
  useSedLUT :: bool
  exposureRetrieved :: int   \<comment> \<open>\<open>retrievalFlagDict['EXPOSURE_RETRIEVED']\<close>\<close>

text \<open>The look-up table is asked about one observation at a time: the filter, the
  atmospheric state of the exposure (PWV, O3, lnTau, alpha), the secant of the zenith angle,
  the CCD index and the pressure.\<close>

type_synonym lutArgs = "nat \<times> real \<times> real \<times> real \<times> real \<times> real \<times> int \<times> real"

text \<open>The collaborators of the engine, none of which is part of it: the reload of the
  parameter container from the fit vector (\<open>reloadParArray\<close> followed by
  \<open>parsToExposures\<close>), its unit dictionary, the evaluators of the look-up table (the index
  structure of \<open>getIndices\<close> is a function of its arguments and is not kept apart) and the
  two routines of the star store that recompute the SED slopes of the given stars.\<close>

record collaborators =
  reloadParArray :: "fgcmPars \<Rightarrow> real list \<Rightarrow> bool \<Rightarrow> fgcmPars"
  getUnitDict :: "bool \<Rightarrow> unitDict"
  computeI0 :: "lutArgs \<Rightarrow> real"
  computeI1 :: "lutArgs \<Rightarrow> real"
  computeLogDerivatives :: "lutArgs \<Rightarrow> real \<Rightarrow> real \<times> real \<times> real \<times> real"
  hasI1Derivatives :: bool
  computeLogDerivativesI1 :: "lutArgs \<Rightarrow> real \<Rightarrow> real \<Rightarrow> real \<Rightarrow> real \<times> real \<times> real \<times> real"
  computeObjectSEDSlopes :: "fgcmStars \<Rightarrow> nat list \<Rightarrow> arr2"
  computeObjectSEDSlopesLUT :: "fgcmStars \<Rightarrow> nat list \<Rightarrow> arr2"

text \<open>The attributes of the \<open>FgcmChisq\<close> object that outlive a call: the history of the
  chi-squared values, the number of parameters actually fitted, and the match cache
  (\<open>self.goodObs\<close>, \<open>self.goodStarsSub\<close>).\<close>

record fgcmChisq =
  fitChisqs :: "real list"
  nActualFitPars :: nat
  matchesCached :: bool
  goodObsCache :: "nat list"
  goodStarsSubCache :: "nat list"

record world =
  wpars :: fgcmPars
  wstars :: fgcmStars
  wchisq :: fgcmChisq

text \<open>The arguments of \<open>__call__\<close>; \<open>fgcmGray\<close> is the \<open>ccdGray\<close> table of the gray engine
  when one is given, as a function of the exposure and of the CCD index as numpy reads
  it, a negative one from the end of the axis.\<close>

record callArgs =
  fitParams :: "real list"
  fitterUnits :: bool
  computeDerivatives :: bool
  computeSEDSlopes :: bool
  useMatchCache :: bool
  debug :: bool
  allExposures :: bool
  includeReserve :: bool
  fgcmGray :: "(nat \<times> int \<Rightarrow> real) option"

subsection \<open>In-place operations on the array of partial sums\<close>

text \<open>\<open>a[idx] *= c\<close> and \<open>a[idx] += c\<close> with an index array: every selected element is
  changed once.  \<open>np.unique\<close> sorts and removes duplicates.\<close>

definition imul_at :: "arr1 \<Rightarrow> nat list \<Rightarrow> real \<Rightarrow> arr1" where
  "imul_at a idx c = (\<lambda>k. if k \<in> set idx then a k * c else a k)"

definition iadd_at :: "arr1 \<Rightarrow> nat list \<Rightarrow> real \<Rightarrow> arr1" where
  "iadd_at a idx c = (\<lambda>k. if k \<in> set idx then a k + c else a k)"

definition np_unique :: "nat list \<Rightarrow> nat list" where
  "np_unique xs = remdups (sort xs)"

subsection \<open>The worker: standardised magnitudes and mean magnitudes\<close>

text \<open>The local arrays of \<open>_worker\<close> that are cut to \<open>goodObs\<close> (the names ending in
  \<open>GO\<close>) are functions of the observation they belong to; \<open>goodObs\<close> holds every
  observation at most once, so that a position in it and the observation there determine
  each other.\<close>

definition objKey :: "fgcmStars \<Rightarrow> nat \<Rightarrow> nat \<times> nat" where
  "objKey st i = (obsObjIDIndex st i, obsBandIndex st i)"

definition obsCCDIndexGO :: "chisqConfig \<Rightarrow> fgcmStars \<Rightarrow> nat \<Rightarrow> int" where
  "obsCCDIndexGO cfg st i = obsCCD st i - ccdStartIndex cfg"

definition lutArgsGO :: "chisqConfig \<Rightarrow> fgcmPars \<Rightarrow> fgcmStars \<Rightarrow> nat \<Rightarrow> lutArgs" where
  "lutArgsGO cfg p st i =
     (let e = obsExpIndex st i
      in (obsLUTFilterIndex st i, expPWV p e, expO3 p e, expLnTau p e, expAlpha p e,
          obsSecZenith st i, obsCCD st i - ccdStartIndex cfg, expPmb p e))"

definition I0GO :: "collaborators \<Rightarrow> chisqConfig \<Rightarrow> fgcmPars \<Rightarrow> fgcmStars \<Rightarrow> arr1" where
  "I0GO C cfg p st i = computeI0 C (lutArgsGO cfg p st i)"

definition I10GO :: "collaborators \<Rightarrow> chisqConfig \<Rightarrow> fgcmPars \<Rightarrow> fgcmStars \<Rightarrow> arr1" where
  "I10GO C cfg p st i = computeI1 C (lutArgsGO cfg p st i) / I0GO C cfg p st i"

text \<open>\<open>obsMagGO\<close>, with the CCD gray added where a gray table is given and its cell is
  above the illegal value.\<close>

definition obsMagGO ::
  "collaborators \<Rightarrow> chisqConfig \<Rightarrow> callArgs \<Rightarrow> fgcmPars \<Rightarrow> fgcmStars \<Rightarrow> arr1" where
  "obsMagGO C cfg a p st i =
     (let m = obsMagADU st i + 2.5 * log 10 (I0GO C cfg p st i) + expQESys p (obsExpIndex st i)
      in case fgcmGray a of
           None \<Rightarrow> m
         | Some gray \<Rightarrow>
             if gray (obsExpIndex st i, obsCCDIndexGO cfg st i) > illegalValue cfg
             then m + gray (obsExpIndex st i, obsCCDIndexGO cfg st i) else m)"

definition obsMagErr2GO :: "fgcmStars \<Rightarrow> arr1" where
  "obsMagErr2GO st i = (obsMagADUModelErr st i)\<^sup>2"

definition wtSum :: "fgcmStars \<Rightarrow> nat list \<Rightarrow> arr2" where
  "wtSum st gobs = add_at (\<lambda>_. 0) (objKey st) (\<lambda>i. 1 / obsMagErr2GO st i) gobs"

text \<open>The block run for \<open>computeSEDSlopes\<close>: the mean magnitudes from the magnitudes
  without chromatic correction, then the slopes from the star store.\<close>

definition sedMeanMags ::
  "collaborators \<Rightarrow> chisqConfig \<Rightarrow> callArgs \<Rightarrow> fgcmPars \<Rightarrow> fgcmStars \<Rightarrow> nat list \<Rightarrow> fgcmStars" where
  "sedMeanMags C cfg a p st gobs =
     (let objMagStdMeanTemp =
            add_at (\<lambda>_. 0) (objKey st) (\<lambda>i. obsMagGO C cfg a p st i / obsMagErr2GO st i) gobs
      in st\<lparr> objMagStdMean :=
               (\<lambda>k. if wtSum st gobs k > 0 then objMagStdMeanTemp k / wtSum st gobs k
                    else objMagStdMean st k),
             objMagStdMeanErr :=
               (\<lambda>k. if wtSum st gobs k > 0 then sqrt (1 / wtSum st gobs k)
                    else objMagStdMeanErr st k) \<rparr>)"

definition sedSlopeStep ::
  "collaborators \<Rightarrow> chisqConfig \<Rightarrow> callArgs \<Rightarrow> fgcmPars \<Rightarrow> fgcmStars \<Rightarrow> nat list \<Rightarrow> nat list
   \<Rightarrow> fgcmStars" where
  "sedSlopeStep C cfg a p st goodStars gobs =
     (if computeSEDSlopes a
      then (let st1 = sedMeanMags C cfg a p st gobs
            in st1\<lparr> objSEDSlope :=
                      (if useSedLUT cfg then computeObjectSEDSlopesLUT C st1 goodStars
                       else computeObjectSEDSlopes C st1 goodStars) \<rparr>)
      else st)"

text \<open>The linearised chromatic correction and the write of the standardised magnitudes
  of \<open>goodObs\<close> into the shared array.\<close>

definition deltaStdGO :: "collaborators \<Rightarrow> chisqConfig \<Rightarrow> fgcmPars \<Rightarrow> fgcmStars \<Rightarrow> arr1" where
  "deltaStdGO C cfg p st i =
     (let d = 2.5 * log 10 ((1 + objSEDSlope st (objKey st i) * I10GO C cfg p st i)
                            / (1 + objSEDSlope st (objKey st i)
                                   * I10StdBand cfg (obsBandIndex st i)))
      in if noChromaticCorrections cfg then d * 0 else d)"

definition writeMagStd ::
  "collaborators \<Rightarrow> chisqConfig \<Rightarrow> callArgs \<Rightarrow> fgcmPars \<Rightarrow> fgcmStars \<Rightarrow> nat list \<Rightarrow> fgcmStars" where
  "writeMagStd C cfg a p st gobs =
     st\<lparr> obsMagStd :=
           (\<lambda>i. if i \<in> set gobs then obsMagGO C cfg a p st i + deltaStdGO C cfg p st i
                else obsMagStd st i) \<rparr>"

text \<open>The mean magnitudes: \<open>obsMagStdGO\<close> is read back from the shared array that was
  just written.\<close>

definition meanMags ::
  "collaborators \<Rightarrow> chisqConfig \<Rightarrow> callArgs \<Rightarrow> fgcmPars \<Rightarrow> fgcmStars \<Rightarrow> nat list \<Rightarrow> fgcmStars" where
  "meanMags C cfg a p st gobs =
     (let objMagStdMeanTemp =
            add_at (\<lambda>_. 0) (objKey st) (\<lambda>i. obsMagStd st i / obsMagErr2GO st i) gobs;
          objMagStdMeanNoChromTemp =
            add_at (\<lambda>_. 0) (objKey st) (\<lambda>i. obsMagGO C cfg a p st i / obsMagErr2GO st i) gobs
      in st\<lparr> objMagStdMean :=
               (\<lambda>k. if wtSum st gobs k > 0 then objMagStdMeanTemp k / wtSum st gobs k
                    else objMagStdMean st k),
             objMagStdMeanNoChrom :=
               (\<lambda>k. if wtSum st gobs k > 0 then objMagStdMeanNoChromTemp k / wtSum st gobs k
                    else objMagStdMeanNoChrom st k),
             objMagStdMeanErr :=
               (\<lambda>k. if wtSum st gobs k > 0 then sqrt (1 / wtSum st gobs k)
                    else objMagStdMeanErr st k) \<rparr>)"

text \<open>The residuals, the weights, the observations of the fit bands and the partial
  chi-squared.\<close>

definition deltaMagGO :: "fgcmStars \<Rightarrow> arr1" where
  "deltaMagGO st i = obsMagStd st i - objMagStdMean st (objKey st i)"

definition obsWeightGO :: "fgcmStars \<Rightarrow> arr1" where
  "obsWeightGO st i = 1 / obsMagErr2GO st i"

definition obsFitUseGO :: "parLayout \<Rightarrow> fgcmStars \<Rightarrow> nat list \<Rightarrow> nat list" where
  "obsFitUseGO lay st gobs = match_sub2 (fitBandIndex lay) (obsBandIndex st) gobs"

definition partialChisq :: "parLayout \<Rightarrow> fgcmStars \<Rightarrow> nat list \<Rightarrow> real" where
  "partialChisq lay st gobs =
     (\<Sum>i\<leftarrow>obsFitUseGO lay st gobs. (deltaMagGO st i)\<^sup>2 * obsWeightGO st i)"

definition nSums :: "parLayout \<Rightarrow> callArgs \<Rightarrow> nat" where
  "nSums lay a = (if computeDerivatives a then 2 + 2 * nFitPars lay else 2)"

subsection \<open>The worker: derivatives\<close>

text \<open>The local arrays the derivative blocks read: the observations of the fit bands
  (\<open>obsFitUseGO\<close>), the band and exposure of an observation, its variance, the squared
  error of the mean magnitude of its object, the weighted residual, and the four
  logarithmic derivatives from the look-up table.\<close>

record workerLocals =
  fitUse :: "nat list"
  bandGO :: "nat \<Rightarrow> nat"
  expGO :: "nat \<Rightarrow> nat"
  err2GO :: arr1
  meanErr2GO :: arr1
  dmwGOF :: arr1
  dLdPWVGO :: arr1
  dLdO3GO :: arr1
  dLdTauGO :: arr1
  dLdAlphaGO :: arr1

definition logDerivativesGO ::
  "collaborators \<Rightarrow> chisqConfig \<Rightarrow> fgcmPars \<Rightarrow> fgcmStars \<Rightarrow> nat \<Rightarrow> real \<times> real \<times> real \<times> real" where
  "logDerivativesGO C cfg p st i =
     (case computeLogDerivatives C (lutArgsGO cfg p st i) (I0GO C cfg p st i) of
        (dPWV, dO3, dTau, dAlpha) \<Rightarrow>
          if hasI1Derivatives C
          then (case computeLogDerivativesI1 C (lutArgsGO cfg p st i) (I0GO C cfg p st i)
                       (I10GO C cfg p st i) (objSEDSlope st (objKey st i)) of
                  (dPWVI1, dO3I1, dTauI1, dAlphaI1) \<Rightarrow>
                    (dPWV + dPWVI1, dO3 + dO3I1, dTau + dTauI1, dAlpha + dAlphaI1))
          else (dPWV, dO3, dTau, dAlpha))"

definition workerLocalsOf ::
  "collaborators \<Rightarrow> chisqConfig \<Rightarrow> parLayout \<Rightarrow> fgcmPars \<Rightarrow> fgcmStars \<Rightarrow> nat list
   \<Rightarrow> workerLocals" where
  "workerLocalsOf C cfg lay p st gobs =
     \<lparr> fitUse = obsFitUseGO lay st gobs,
       bandGO = obsBandIndex st,
       expGO = obsExpIndex st,
       err2GO = obsMagErr2GO st,
       meanErr2GO = (\<lambda>i. (objMagStdMeanErr st (objKey st i))\<^sup>2),
       dmwGOF = (\<lambda>i. deltaMagGO st i * obsWeightGO st i),
       dLdPWVGO = (\<lambda>i. fst (logDerivativesGO C cfg p st i)),
       dLdO3GO = (\<lambda>i. fst (snd (logDerivativesGO C cfg p st i))),
       dLdTauGO = (\<lambda>i. fst (snd (snd (logDerivativesGO C cfg p st i)))),
       dLdAlphaGO = (\<lambda>i. snd (snd (snd (logDerivativesGO C cfg p st i)))) \<rparr>"

text \<open>Every \<open>magdLd...\<close> array is built in two steps over a selection \<open>sel\<close> of
  observations: \<open>np.add.at\<close> of the value over the variance, then \<open>np.multiply.at\<close> of the
  squared error of the mean magnitude of the object of each observation.\<close>

definition magdLd ::
  "(nat \<Rightarrow> 'k) \<Rightarrow> arr1 \<Rightarrow> workerLocals \<Rightarrow> nat list \<Rightarrow> 'k \<Rightarrow> real" where
  "magdLd key val L sel =
     multiply_at (add_at (\<lambda>_. 0) key (\<lambda>i. val i / err2GO L i) sel) key (meanErr2GO L) sel"

text \<open>A family with one parameter for each night or wash interval is updated by three
  statements: \<open>np.add.at(partialArray[loc:loc+n], idx, term)\<close>,
  \<open>partialArray[loc + scaleIdx] *= c\<close> and \<open>partialArray[nFitPars + loc + touchIdx] += 1\<close>.
  A family with one global parameter is updated by
  \<open>partialArray[loc] = v\<close> and \<open>partialArray[nFitPars + loc] += 1\<close>.\<close>

definition familyUpdate ::
  "arr1 \<Rightarrow> nat \<Rightarrow> nat \<Rightarrow> (nat \<Rightarrow> nat) \<Rightarrow> arr1 \<Rightarrow> nat list \<Rightarrow> nat list \<Rightarrow> real \<Rightarrow> nat list
   \<Rightarrow> arr1" where
  "familyUpdate pa nfit loc idx term sel scaleIdx c touchIdx =
     iadd_at
       (imul_at (add_at pa (\<lambda>i. loc + idx i) term sel) (map (\<lambda>n. loc + n) scaleIdx) c)
       (map (\<lambda>n. nfit + loc + n) touchIdx) 1"

definition globalUpdate :: "arr1 \<Rightarrow> nat \<Rightarrow> nat \<Rightarrow> real \<Rightarrow> arr1" where
  "globalUpdate pa nfit loc v = iadd_at (pa(loc := v)) [nfit + loc] 1"

text \<open>The night and the wash interval of an observation, the index pairs with its band,
  and the selections of the blocks.\<close>

definition nightGOF :: "fgcmPars \<Rightarrow> workerLocals \<Rightarrow> nat \<Rightarrow> nat" where
  "nightGOF p L i = expNightIndex p (expGO L i)"

definition nightBand :: "fgcmPars \<Rightarrow> workerLocals \<Rightarrow> nat \<Rightarrow> nat \<times> nat" where
  "nightBand p L i = (nightGOF p L i, bandGO L i)"

definition washGOF :: "fgcmPars \<Rightarrow> workerLocals \<Rightarrow> nat \<Rightarrow> nat" where
  "washGOF p L i = expWashIndex p (expGO L i)"

definition washBand :: "fgcmPars \<Rightarrow> workerLocals \<Rightarrow> nat \<Rightarrow> nat \<times> nat" where
  "washBand p L i = (washGOF p L i, bandGO L i)"

definition uNights :: "fgcmPars \<Rightarrow> workerLocals \<Rightarrow> nat list \<Rightarrow> nat list" where
  "uNights p L sel = np_unique (map (nightGOF p L) sel)"

definition hasExtPWV :: "fgcmPars \<Rightarrow> workerLocals \<Rightarrow> nat list" where
  "hasExtPWV p L = filter (\<lambda>i. externalPWVFlag p (expGO L i)) (fitUse L)"

definition noExtPWV :: "fgcmPars \<Rightarrow> workerLocals \<Rightarrow> nat list" where
  "noExtPWV p L = filter (\<lambda>i. \<not> externalPWVFlag p (expGO L i)) (fitUse L)"

definition hasRetrievedPWV :: "chisqConfig \<Rightarrow> fgcmPars \<Rightarrow> workerLocals \<Rightarrow> nat list" where
  "hasRetrievedPWV cfg p L =
     filter (\<lambda>i. (compRetrievedPWVFlag p (expGO L i) AND exposureRetrieved cfg) > 0) (fitUse L)"

definition hasExtTau :: "fgcmPars \<Rightarrow> workerLocals \<Rightarrow> nat list" where
  "hasExtTau p L = filter (\<lambda>i. externalTauFlag p (expGO L i)) (fitUse L)"

definition noExtTau :: "fgcmPars \<Rightarrow> workerLocals \<Rightarrow> nat list" where
  "noExtTau p L = filter (\<lambda>i. \<not> externalTauFlag p (expGO L i)) (fitUse L)"

text \<open>Three of the arrays are read by a later block than the one that fills them; they
  are all zero when their block does not run.\<close>

definition magdLdPWVOffset :: "parLayout \<Rightarrow> fgcmPars \<Rightarrow> workerLocals \<Rightarrow> arr2" where
  "magdLdPWVOffset lay p L =
     (if hasExternalPWV lay \<and> \<not> useRetrievedPWV lay
      then magdLd (nightBand p L) (dLdPWVGO L) L (hasExtPWV p L) else (\<lambda>_. 0))"

definition magdLdPWVScale :: "parLayout \<Rightarrow> fgcmPars \<Rightarrow> workerLocals \<Rightarrow> arr1" where
  "magdLdPWVScale lay p L =
     (if hasExternalPWV lay \<and> \<not> useRetrievedPWV lay
      then magdLd (bandGO L) (\<lambda>i. expPWV p (expGO L i) * dLdPWVGO L i) L (hasExtPWV p L)
      else (\<lambda>_. 0))"

definition magdLdTauOffset :: "parLayout \<Rightarrow> fgcmPars \<Rightarrow> workerLocals \<Rightarrow> arr2" where
  "magdLdTauOffset lay p L =
     (if hasExternalTau lay
      then magdLd (nightBand p L) (dLdTauGO L) L (hasExtTau p L) else (\<lambda>_. 0))"

text \<open>Three more are filled and never read: \<open>magdLdPWVIntercept\<close>, \<open>magdLdTauIntercept\<close>
  and \<open>magdLdTauScale\<close>.\<close>

definition magdLdPWVIntercept :: "fgcmPars \<Rightarrow> workerLocals \<Rightarrow> arr2" where
  "magdLdPWVIntercept p L = magdLd (nightBand p L) (dLdPWVGO L) L (noExtPWV p L)"

definition magdLdTauIntercept :: "fgcmPars \<Rightarrow> workerLocals \<Rightarrow> arr2" where
  "magdLdTauIntercept p L = magdLd (nightBand p L) (dLdTauGO L) L (noExtTau p L)"

definition magdLdTauScale :: "fgcmPars \<Rightarrow> workerLocals \<Rightarrow> arr1" where
  "magdLdTauScale p L =
     magdLd (bandGO L) (\<lambda>i. expTau p (expGO L i) * dLdTauGO L i) L (hasExtTau p L)"

text \<open>The blocks, in the order of the code.\<close>

definition blockO3 :: "parLayout \<Rightarrow> fgcmPars \<Rightarrow> unitDict \<Rightarrow> workerLocals \<Rightarrow> arr1 \<Rightarrow> arr1" where
  "blockO3 lay p u L pa =
     (let magdLdO3 = magdLd (nightBand p L) (dLdO3GO L) L (fitUse L);
          uNightIndex = uNights p L (fitUse L)
      in familyUpdate pa (nFitPars lay) (parO3Loc lay) (nightGOF p L)
           (\<lambda>i. dmwGOF L i * (dLdO3GO L i - magdLdO3 (nightBand p L i)))
           (fitUse L) uNightIndex (2 / o3Unit u) uNightIndex)"

definition blockAlpha :: "parLayout \<Rightarrow> fgcmPars \<Rightarrow> unitDict \<Rightarrow> workerLocals \<Rightarrow> arr1 \<Rightarrow> arr1" where
  "blockAlpha lay p u L pa =
     (let magdLdAlpha = magdLd (nightBand p L) (dLdAlphaGO L) L (fitUse L);
          uNightIndex = uNights p L (fitUse L)
      in familyUpdate pa (nFitPars lay) (parAlphaLoc lay) (nightGOF p L)
           (\<lambda>i. dmwGOF L i * (dLdAlphaGO L i - magdLdAlpha (nightBand p L i)))
           (fitUse L) uNightIndex (2 / alphaUnit u) uNightIndex)"

definition blockPWVExternal ::
  "parLayout \<Rightarrow> fgcmPars \<Rightarrow> unitDict \<Rightarrow> workerLocals \<Rightarrow> arr1 \<Rightarrow> arr1" where
  "blockPWVExternal lay p u L pa =
     (if hasExternalPWV lay \<and> \<not> useRetrievedPWV lay
      then (let hasExtGOF = hasExtPWV p L;
                uNightIndexHasExt = uNights p L hasExtGOF;
                pa1 = familyUpdate pa (nFitPars lay) (parExternalPWVOffsetLoc lay) (nightGOF p L)
                        (\<lambda>i. dmwGOF L i
                              * (dLdPWVGO L i - magdLdPWVOffset lay p L (nightBand p L i)))
                        hasExtGOF uNightIndexHasExt (2 / pwvUnit u) uNightIndexHasExt
            in globalUpdate pa1 (nFitPars lay) (parExternalPWVScaleLoc lay)
                 (2 * ((\<Sum>i\<leftarrow>hasExtGOF. dmwGOF L i
                          * (expPWV p (expGO L i) * dLdPWVGO L i
                             - magdLdPWVScale lay p L (bandGO L i)))
                       / pwvGlobalUnit u)))
      else pa)"

definition blockPWVRetrieved ::
  "chisqConfig \<Rightarrow> parLayout \<Rightarrow> fgcmPars \<Rightarrow> unitDict \<Rightarrow> workerLocals \<Rightarrow> arr1 \<Rightarrow> arr1" where
  "blockPWVRetrieved cfg lay p u L pa =
     (let sel = hasRetrievedPWV cfg p L
      in if sel \<noteq> []
         then (let magdLdPWVRetrievedScale =
                     magdLd (bandGO L) (\<lambda>i. expPWV p (expGO L i) * dLdPWVGO L i) L sel;
                   pa1 = globalUpdate pa (nFitPars lay) (parRetrievedPWVScaleLoc lay)
                           (2 * ((\<Sum>i\<leftarrow>sel. dmwGOF L i
                                    * (expPWV p (expGO L i) * dLdPWVGO L i
                                       - magdLdPWVRetrievedScale (bandGO L i)))
                                 / pwvGlobalUnit u))
               in if useNightlyRetrievedPWV lay
                  then (let magdLdPWVRetrievedNightlyOffset =
                              magdLd (nightBand p L) (dLdPWVGO L) L sel;
                            uNightIndexHasRetrievedPWV = uNights p L sel
                        in familyUpdate pa1 (nFitPars lay)
                             (parRetrievedPWVNightlyOffsetLoc lay) (nightGOF p L)
                             (\<lambda>i. dmwGOF L i
                                   * (dLdPWVGO L i
                                      - magdLdPWVRetrievedNightlyOffset (nightBand p L i)))
                             sel uNightIndexHasRetrievedPWV (2 / pwvUnit u)
                             uNightIndexHasRetrievedPWV)
                  else (let magdLdPWVRetrievedOffset = magdLd (bandGO L) (dLdPWVGO L) L sel
                        in globalUpdate pa1 (nFitPars lay) (parRetrievedPWVOffsetLoc lay)
                             (2 * ((\<Sum>i\<leftarrow>sel. dmwGOF L i
                                      * (dLdPWVGO L i - magdLdPWVRetrievedOffset (bandGO L i)))
                                   / pwvGlobalUnit u))))
         else pa)"

text \<open>The nightly intercept subtracts \<open>magdLdPWVOffset\<close>; the slope is scaled on the nights
  of all fit observations and touches the first slope parameter only.\<close>

definition blockPWVNoExternal ::
  "parLayout \<Rightarrow> fgcmPars \<Rightarrow> unitDict \<Rightarrow> workerLocals \<Rightarrow> arr1 \<Rightarrow> arr1" where
  "blockPWVNoExternal lay p u L pa =
     (let noExtGOF = noExtPWV p L;
          uNightIndexNoExt = uNights p L noExtGOF;
          pa1 = familyUpdate pa (nFitPars lay) (parPWVInterceptLoc lay) (nightGOF p L)
                  (\<lambda>i. dmwGOF L i * (dLdPWVGO L i - magdLdPWVOffset lay p L (nightBand p L i)))
                  noExtGOF uNightIndexNoExt (2 / pwvUnit u) uNightIndexNoExt;
          magdLdPWVPerSlope =
            magdLd (nightBand p L)
              (\<lambda>i. expDeltaUT p (expGO L i) * expPWV p (expGO L i) * dLdPWVGO L i) L noExtGOF
      in familyUpdate pa1 (nFitPars lay) (parPWVPerSlopeLoc lay) (nightGOF p L)
           (\<lambda>i. dmwGOF L i
                 * (expDeltaUT p (expGO L i) * expPWV p (expGO L i) * dLdPWVGO L i
                    - magdLdPWVPerSlope (nightBand p L i)))
           noExtGOF (uNights p L (fitUse L)) (2 / pwvPerSlopeUnit u) [0])"

definition blockPWV ::
  "chisqConfig \<Rightarrow> parLayout \<Rightarrow> fgcmPars \<Rightarrow> unitDict \<Rightarrow> workerLocals \<Rightarrow> arr1 \<Rightarrow> arr1" where
  "blockPWV cfg lay p u L pa =
     (if useRetrievedPWV lay then blockPWVRetrieved cfg lay p u L pa
      else blockPWVNoExternal lay p u L pa)"

text \<open>The global scale of the external optical depth subtracts \<open>magdLdPWVScale\<close>.\<close>

definition blockTauExternal ::
  "parLayout \<Rightarrow> fgcmPars \<Rightarrow> unitDict \<Rightarrow> workerLocals \<Rightarrow> arr1 \<Rightarrow> arr1" where
  "blockTauExternal lay p u L pa =
     (if hasExternalTau lay
      then (let hasExtGOF = hasExtTau p L;
                uNightIndexHasExt = uNights p L hasExtGOF;
                pa1 = familyUpdate pa (nFitPars lay) (parExternalTauOffsetLoc lay) (nightGOF p L)
                        (\<lambda>i. dmwGOF L i
                              * (dLdTauGO L i - magdLdTauOffset lay p L (nightBand p L i)))
                        hasExtGOF uNightIndexHasExt (2 / tauUnit u) uNightIndexHasExt
            in globalUpdate pa1 (nFitPars lay) (parExternalTauScaleLoc lay)
                 (2 * ((\<Sum>i\<leftarrow>hasExtGOF. dmwGOF L i
                          * (expTau p (expGO L i) * dLdTauGO L i
                             - magdLdPWVScale lay p L (bandGO L i)))
                       / tauUnit u)))
      else pa)"

text \<open>The nightly intercept of lnTau subtracts \<open>magdLdTauOffset\<close>.\<close>

definition blockTauNoExternal ::
  "parLayout \<Rightarrow> fgcmPars \<Rightarrow> unitDict \<Rightarrow> workerLocals \<Rightarrow> arr1 \<Rightarrow> arr1" where
  "blockTauNoExternal lay p u L pa =
     (let noExtGOF = noExtTau p L;
          uNightIndexNoExt = uNights p L noExtGOF;
          pa1 = familyUpdate pa (nFitPars lay) (parLnTauInterceptLoc lay) (nightGOF p L)
                  (\<lambda>i. dmwGOF L i * (dLdTauGO L i - magdLdTauOffset lay p L (nightBand p L i)))
                  noExtGOF uNightIndexNoExt (2 / lnTauUnit u) uNightIndexNoExt;
          magdLdTauPerSlope =
            magdLd (nightBand p L) (\<lambda>i. expDeltaUT p (expGO L i) * dLdTauGO L i) L noExtGOF
      in familyUpdate pa1 (nFitPars lay) (parLnTauSlopeLoc lay) (nightGOF p L)
           (\<lambda>i. dmwGOF L i
                 * (expDeltaUT p (expGO L i) * dLdTauGO L i
                    - magdLdTauPerSlope (nightBand p L i)))
           noExtGOF uNightIndexNoExt (2 / lnTauSlopeUnit u) uNightIndexNoExt)"

definition blockWash :: "parLayout \<Rightarrow> fgcmPars \<Rightarrow> unitDict \<Rightarrow> workerLocals \<Rightarrow> arr1 \<Rightarrow> arr1" where
  "blockWash lay p u L pa =
     (let uWashIndex = np_unique (map (washGOF p L) (fitUse L));
          magdLdWashIntercept = magdLd (washBand p L) (\<lambda>_. 1) L (fitUse L);
          pa1 = familyUpdate pa (nFitPars lay) (parQESysInterceptLoc lay) (washGOF p L)
                  (\<lambda>i. dmwGOF L i * (1 - magdLdWashIntercept (washBand p L i)))
                  (fitUse L) uWashIndex (2 / qeSysUnit u) uWashIndex;
          magdLdWashSlope =
            magdLd (washBand p L)
              (\<lambda>i. expMJD p (expGO L i) - washMJDs p (washGOF p L i)) L (fitUse L)
      in familyUpdate pa1 (nFitPars lay) (parQESysSlopeLoc lay) (washGOF p L)
           (\<lambda>i. dmwGOF L i
                 * ((expMJD p (expGO L i) - washMJDs p (washGOF p L i))
                    - magdLdWashSlope (washBand p L i)))
           (fitUse L) uWashIndex (2 / qeSysSlopeUnit u) uWashIndex)"

definition workerDerivatives ::
  "chisqConfig \<Rightarrow> parLayout \<Rightarrow> fgcmPars \<Rightarrow> unitDict \<Rightarrow> workerLocals \<Rightarrow> arr1 \<Rightarrow> arr1" where
  "workerDerivatives cfg lay p u L pa =
     blockWash lay p u L
       (blockTauNoExternal lay p u L
          (blockTauExternal lay p u L
             (blockPWV cfg lay p u L
                (blockPWVExternal lay p u L
                   (blockAlpha lay p u L
                      (blockO3 lay p u L pa))))))"

subsection \<open>The worker\<close>

text \<open>\<open>_worker\<close> receives the stars and the observations of its section.  Its first step
  is the match of the fit bands with the bands of its observations, which fails when
  there is no fit band or the section has no observation; nothing has been written then.
  The positions that this match selects are \<open>obsFitUseGO\<close>.  The worker returns no partial
  sums when \<open>allExposures\<close> is set.  Otherwise the array of partial sums has the
  chi-squared in its last but one element and the number of fit observations in its last,
  and with \<open>computeDerivatives\<close> the derivatives and the touch counters before them.  The
  magnitudes \<open>obsMagGO\<close> do not depend on what the worker writes, so they are taken from
  the state at hand wherever they are used.\<close>

definition worker ::
  "collaborators \<Rightarrow> chisqConfig \<Rightarrow> parLayout \<Rightarrow> callArgs \<Rightarrow> world \<Rightarrow> nat list \<times> nat list
   \<Rightarrow> error + world \<times> arr1 option" where
  "worker C cfg lay a w job =
     (case np_match (fitBandIndex lay) (obsBandIndex (wstars w)) (snd job) of
        Inl e \<Rightarrow> Inl e
      | Inr m \<Rightarrow>
         (let p = wpars w;
              st1 = sedSlopeStep C cfg a p (wstars w) (fst job) (snd job);
              st2 = writeMagStd C cfg a p st1 (snd job)
          in if allExposures a then Inr (w\<lparr>wstars := st2\<rparr>, None)
             else (let st3 = meanMags C cfg a p st2 (snd job);
                       pa0 = (\<lambda>_. 0)
                               (nSums lay a - 2 := partialChisq lay st3 (snd job),
                                nSums lay a - 1 := real (length (obsFitUseGO lay st3 (snd job))))
                   in Inr (w\<lparr>wstars := st3\<rparr>,
                           Some (if computeDerivatives a
                                 then workerDerivatives cfg lay p (getUnitDict C (fitterUnits a))
                                        (workerLocalsOf C cfg lay p st3 (snd job)) pa0
                                 else pa0)))))"

text \<open>The workers run one after the other on the shared arrays; the arrays of partial
  sums they deliver are collected, and \<open>partialSums\<close> is their element-wise sum.  The
  failure of a worker ends the call, with what the workers before it have written.\<close>

fun runWorkers ::
  "collaborators \<Rightarrow> chisqConfig \<Rightarrow> parLayout \<Rightarrow> callArgs \<Rightarrow> world \<Rightarrow> (nat list \<times> nat list) list
   \<Rightarrow> error \<times> world + world \<times> arr1 list" where
  "runWorkers C cfg lay a w [] = Inr (w, [])"
| "runWorkers C cfg lay a w (job # jobs) =
     (case worker C cfg lay a w job of
        Inl e \<Rightarrow> Inl (e, w)
      | Inr (w1, r) \<Rightarrow>
          (case runWorkers C cfg lay a w1 jobs of
             Inl failure \<Rightarrow> Inl failure
           | Inr (w2, rs) \<Rightarrow> Inr (w2, (case r of None \<Rightarrow> rs | Some pa \<Rightarrow> pa # rs))))"

definition sumArrays :: "arr1 list \<Rightarrow> arr1" where
  "sumArrays rs = (\<lambda>k. \<Sum>pa\<leftarrow>rs. pa k)"

subsection \<open>The selection of stars and observations\<close>

definition chisqGoodStars :: "chisqConfig \<Rightarrow> callArgs \<Rightarrow> fgcmStars \<Rightarrow> nat list" where
  "chisqGoodStars cfg a st =
     (if includeReserve a
      then filter (\<lambda>s. (objFlag st s AND (255 AND NOT (reservedFlag cfg))) = 0) [0..<nStars st]
      else filter (\<lambda>s. objFlag st s = 0) [0..<nStars st])"

text \<open>The pre-match: the match of the good stars with the observations, which fails on an
  empty observation table; the pairs (position in \<open>goodStars\<close>, observation) of the match;
  the check of the first pair, of which there is none when no observation belongs to a
  good star; and the cut to the unflagged observations, on unflagged exposures unless
  \<open>allExposures\<close> is set.  It returns \<open>goodStarsSub\<close> and \<open>goodObs\<close>.\<close>

definition preMatch ::
  "callArgs \<Rightarrow> fgcmPars \<Rightarrow> fgcmStars \<Rightarrow> nat list \<Rightarrow> error + nat list \<times> nat list" where
  "preMatch a p st goodStars =
     (case np_match goodStars (obsObjIDIndex st) [0..<nStarObs st] of
        Inl e \<Rightarrow> Inl e
      | Inr (sub1, sub2) \<Rightarrow>
          if sub1 = [] then Inl IndexError
          else if hd sub1 \<noteq> 0 then Inl StrangeFirstElement
          else (let gd = filter (\<lambda>m. (if \<not> allExposures a
                                        then expFlag p (obsExpIndex st (snd m)) = 0
                                             \<and> obsFlag st (snd m) = 0
                                        else obsFlag st (snd m) = 0))
                           (zip sub1 sub2)
                in Inr (map fst gd, map snd gd)))"

text \<open>With \<open>useMatchCache\<close> the result of an earlier call is taken as it is, and a fresh
  result is stored.\<close>

definition matching ::
  "callArgs \<Rightarrow> world \<Rightarrow> nat list \<Rightarrow> error + world \<times> nat list \<times> nat list" where
  "matching a w goodStars =
     (if useMatchCache a \<and> matchesCached (wchisq w)
      then Inr (w, goodStarsSubCache (wchisq w), goodObsCache (wchisq w))
      else case preMatch a (wpars w) (wstars w) goodStars of
             Inl e \<Rightarrow> Inl e
           | Inr (sub, gobs) \<Rightarrow>
               Inr (if useMatchCache a
                    then w\<lparr>wchisq := (wchisq w)\<lparr>matchesCached := True, goodObsCache := gobs,
                                                goodStarsSubCache := sub\<rparr>\<rparr>
                    else w, sub, gobs))"

subsection \<open>The sections of the workers\<close>

text \<open>\<open>np.array_split(xs, n)\<close> gives \<open>n\<close> sections of which the first \<open>len mod n\<close> hold one
  element more; \<open>np.searchsorted\<close> on a sorted array gives the number of elements below
  the value; \<open>np.split(xs, indices)\<close> cuts at the given positions.\<close>

fun chunks :: "'a list \<Rightarrow> nat list \<Rightarrow> 'a list list" where
  "chunks xs [] = []"
| "chunks xs (k # ks) = take k xs # chunks (drop k xs) ks"

definition array_split :: "'a list \<Rightarrow> nat \<Rightarrow> 'a list list" where
  "array_split xs n =
     chunks xs (replicate (length xs mod n) (length xs div n + 1)
                @ replicate (n - length xs mod n) (length xs div n))"

definition searchsorted :: "nat list \<Rightarrow> nat \<Rightarrow> nat" where
  "searchsorted xs v = length (takeWhile (\<lambda>x. x < v) xs)"

fun np_split :: "'a list \<Rightarrow> nat \<Rightarrow> nat list \<Rightarrow> 'a list list" where
  "np_split xs prev [] = [drop prev xs]"
| "np_split xs prev (i # is) = take (i - prev) (drop prev xs) # np_split xs i is"

text \<open>The list of jobs: the whole selection in debug mode; otherwise the sections of
  \<open>goodStars\<close> with the observations of their stars, the longest first (the sort of Python
  is stable, also when reversed).  Reading the first star of an empty section fails, and
  so does indexing \<open>goodStars\<close> beyond its end.\<close>

definition workerList ::
  "chisqConfig \<Rightarrow> callArgs \<Rightarrow> nat list \<Rightarrow> nat list \<Rightarrow> nat list
   \<Rightarrow> error + (nat list \<times> nat list) list" where
  "workerList cfg a goodStars goodStarsSub gobs =
     (if debug a then Inr [(goodStars, gobs)]
      else if nStarPerRun cfg = 0 then Inl ZeroDivisionError
      else (let nSections = length goodStars div nStarPerRun cfg + 1;
                goodStarsList = array_split goodStars nSections
            in if [] \<in> set (tl goodStarsList) then Inl IndexError
               else if list_ex (\<lambda>k. k \<ge> length goodStars) goodStarsSub then Inl IndexError
               else (let splitValues = map hd (tl goodStarsList);
                         splitIndices =
                           map (searchsorted (map (\<lambda>k. goodStars ! k) goodStarsSub)) splitValues;
                         goodObsList = np_split gobs 0 splitIndices
                     in Inr (sort_key (\<lambda>elt. - int (length (snd elt)))
                               (zip goodStarsList goodObsList)))))"

subsection \<open>The call\<close>

definition resetMeans :: "fgcmStars \<Rightarrow> fgcmStars" where
  "resetMeans st =
     st\<lparr> objMagStdMean := (\<lambda>_. 99), objMagStdMeanNoChrom := (\<lambda>_. 99),
         objMagStdMeanErr := (\<lambda>_. 99) \<rparr>"

definition markComputed :: "callArgs \<Rightarrow> world \<Rightarrow> world" where
  "markComputed a w =
     w\<lparr>wstars := (wstars w)\<lparr> magStdComputed := True,
                             allMagStdComputed :=
                               (if allExposures a then True else allMagStdComputed (wstars w)) \<rparr>\<rparr>"

text \<open>What precedes the workers: the check of the options, the reload of the parameters,
  the reset of the mean magnitudes, the selection of the stars, the match and the list
  of jobs.  A failure holds the state it leaves behind.\<close>

definition invalidOptions :: "callArgs \<Rightarrow> bool" where
  "invalidOptions a \<longleftrightarrow> allExposures a \<and> (computeDerivatives a \<or> computeSEDSlopes a)"

definition reloaded :: "collaborators \<Rightarrow> callArgs \<Rightarrow> world \<Rightarrow> world" where
  "reloaded C a w =
     w\<lparr> wpars := reloadParArray C (wpars w) (fitParams a) (fitterUnits a),
        wstars := (if \<not> allExposures a then resetMeans (wstars w) else wstars w) \<rparr>"

definition prepare ::
  "collaborators \<Rightarrow> chisqConfig \<Rightarrow> callArgs \<Rightarrow> world
   \<Rightarrow> error \<times> world + world \<times> (nat list \<times> nat list) list" where
  "prepare C cfg a w =
     (if invalidOptions a then Inl (InvalidOptions, w)
      else (let w1 = reloaded C a w;
                goodStars = chisqGoodStars cfg a (wstars w1)
            in if goodStars = [] then Inl (NoGoodStars, w1)
               else case matching a w1 goodStars of
                      Inl e \<Rightarrow> Inl (e, w1)
                    | Inr (w2, goodStarsSub, gobs) \<Rightarrow>
                        (case workerList cfg a goodStars goodStarsSub gobs of
                           Inl e \<Rightarrow> Inl (e, w2)
                         | Inr jobs \<Rightarrow> Inr (w2, jobs))))"

text \<open>What follows the workers.  The number of parameters actually fitted is counted
  from the touch counters when derivatives are computed, and is the stored number
  otherwise.  A result is the new state, the chi-squared per degree of freedom and, with
  \<open>computeDerivatives\<close>, its derivatives.\<close>

type_synonym callResult = "error \<times> world + world \<times> real \<times> real list option"

definition activePars :: "parLayout \<Rightarrow> callArgs \<Rightarrow> world \<Rightarrow> arr1 \<Rightarrow> nat" where
  "activePars lay a w partialSums =
     (if computeDerivatives a
      then length (filter (\<lambda>k. partialSums (nFitPars lay + k) > 0) [0..<nFitPars lay])
      else nActualFitPars (wchisq w))"

definition fitDOF :: "parLayout \<Rightarrow> callArgs \<Rightarrow> world \<Rightarrow> arr1 \<Rightarrow> real" where
  "fitDOF lay a w partialSums =
     partialSums (nSums lay a - 1) - real (activePars lay a w partialSums)"

definition finish :: "parLayout \<Rightarrow> callArgs \<Rightarrow> world \<Rightarrow> arr1 \<Rightarrow> callResult" where
  "finish lay a w partialSums =
     (if \<not> allExposures a
      then (let w1 = w\<lparr>wchisq := (wchisq w)\<lparr>nActualFitPars := activePars lay a w partialSums\<rparr>\<rparr>
            in if fitDOF lay a w partialSums \<le> 0 then Inl (TooManyParameters, w1)
               else (let fitChisq = partialSums (nSums lay a - 2) / fitDOF lay a w partialSums;
                         w2 = w1\<lparr>wchisq := (wchisq w1)\<lparr>fitChisqs :=
                                                         fitChisqs (wchisq w1) @ [fitChisq]\<rparr>\<rparr>
                     in Inr (markComputed a w2, fitChisq,
                             if computeDerivatives a
                             then Some (map (\<lambda>k. partialSums k / fitDOF lay a w partialSums)
                                          [0..<nFitPars lay])
                             else None)))
      else Inr (markComputed a w,
                if fitChisqs (wchisq w) = [] then 0 else last (fitChisqs (wchisq w)),
                None))"

definition call ::
  "collaborators \<Rightarrow> chisqConfig \<Rightarrow> parLayout \<Rightarrow> callArgs \<Rightarrow> world \<Rightarrow> callResult" where
  "call C cfg lay a w =
     (case prepare C cfg a w of
        Inl failure \<Rightarrow> Inl failure
      | Inr (w2, jobs) \<Rightarrow>
          (case runWorkers C cfg lay a w2 jobs of
             Inl failure \<Rightarrow> Inl failure
           | Inr (w3, rs) \<Rightarrow> finish lay a w3 (sumArrays rs)))"

subsection \<open>Quantities of a call that the statements refer to\<close>

text \<open>The arrays of partial sums that the workers of a call deliver.\<close>

definition callTrace ::
  "collaborators \<Rightarrow> chisqConfig \<Rightarrow> parLayout \<Rightarrow> callArgs \<Rightarrow> world \<Rightarrow> arr1 list" where
  "callTrace C cfg lay a w =
     (case prepare C cfg a w of
        Inl failure \<Rightarrow> []
      | Inr (w2, jobs) \<Rightarrow>
          (case runWorkers C cfg lay a w2 jobs of Inl failure \<Rightarrow> [] | Inr (w3, rs) \<Rightarrow> rs))"

text \<open>Every worker of a list of jobs gets past its match: there is a fit band, and no
  section is without observations.\<close>

definition workersRun :: "parLayout \<Rightarrow> (nat list \<times> nat list) list \<Rightarrow> bool" where
  "workersRun lay jobs \<longleftrightarrow> list_all (\<lambda>job. fitBandIndex lay \<noteq> [] \<and> snd job \<noteq> []) jobs"

text \<open>The degrees of freedom that a call computes, if it gets that far, and the conditions
  under which it raises: the degrees of freedom are not positive; the list of good stars
  (taken after the reload and the reset); the three conditions named by the
  specification; and the failure of the check on the first pair of a fresh match.\<close>

definition callDOF ::
  "collaborators \<Rightarrow> chisqConfig \<Rightarrow> parLayout \<Rightarrow> callArgs \<Rightarrow> world \<Rightarrow> real option" where
  "callDOF C cfg lay a w =
     (case prepare C cfg a w of
        Inl failure \<Rightarrow> None
      | Inr (w2, jobs) \<Rightarrow>
          if allExposures a then None
          else (case runWorkers C cfg lay a w2 jobs of
                  Inl failure \<Rightarrow> None
                | Inr (w3, rs) \<Rightarrow> Some (fitDOF lay a w3 (sumArrays rs))))"

definition nonPositiveDOF ::
  "collaborators \<Rightarrow> chisqConfig \<Rightarrow> parLayout \<Rightarrow> callArgs \<Rightarrow> world \<Rightarrow> bool" where
  "nonPositiveDOF C cfg lay a w =
     (case callDOF C cfg lay a w of None \<Rightarrow> False | Some d \<Rightarrow> d \<le> 0)"

definition callGoodStars :: "collaborators \<Rightarrow> chisqConfig \<Rightarrow> callArgs \<Rightarrow> world \<Rightarrow> nat list" where
  "callGoodStars C cfg a w = chisqGoodStars cfg a (wstars (reloaded C a w))"

definition claimedRaiseCondition ::
  "collaborators \<Rightarrow> chisqConfig \<Rightarrow> parLayout \<Rightarrow> callArgs \<Rightarrow> world \<Rightarrow> bool" where
  "claimedRaiseCondition C cfg lay a w \<longleftrightarrow>
     invalidOptions a \<or> callGoodStars C cfg a w = [] \<or> nonPositiveDOF C cfg lay a w"

definition firstPairStrange :: "collaborators \<Rightarrow> chisqConfig \<Rightarrow> callArgs \<Rightarrow> world \<Rightarrow> bool" where
  "firstPairStrange C cfg a w \<longleftrightarrow>
     \<not> (useMatchCache a \<and> matchesCached (wchisq w))
     \<and> (case match_sub1 (callGoodStars C cfg a w) (obsObjIDIndex (wstars w))
               [0..<nStarObs (wstars w)] of
          [] \<Rightarrow> False
        | k # ks \<Rightarrow> k \<noteq> 0)"

text \<open>The gradient component that the specification gives a parameter: \<open>2 / unit\<close> times
  the sum, over the fit observations that touch the parameter, of weight times residual
  times the partial derivative less its mean for the object, which is the weighted mean,
  over the observations of the object in the band, of the partial derivative with respect
  to the parameter (zero for an observation that does not touch it).\<close>

definition objectMeanPartial ::
  "fgcmStars \<Rightarrow> nat list \<Rightarrow> arr1 \<Rightarrow> (nat \<Rightarrow> bool) \<Rightarrow> nat \<times> nat \<Rightarrow> real" where
  "objectMeanPartial st gobs dLdp touches k =
     (\<Sum>i\<leftarrow>filter (\<lambda>i. objKey st i = k) gobs.
          obsWeightGO st i * (if touches i then dLdp i else 0))
     / (\<Sum>i\<leftarrow>filter (\<lambda>i. objKey st i = k) gobs. obsWeightGO st i)"

definition claimedGradient ::
  "real \<Rightarrow> parLayout \<Rightarrow> fgcmStars \<Rightarrow> nat list \<Rightarrow> arr1 \<Rightarrow> (nat \<Rightarrow> bool) \<Rightarrow> real" where
  "claimedGradient unit lay st gobs dLdp touches =
     2 / unit
     * (\<Sum>i\<leftarrow>filter touches (obsFitUseGO lay st gobs).
            obsWeightGO st i * deltaMagGO st i
            * (dLdp i - objectMeanPartial st gobs dLdp touches (objKey st i)))"

subsection \<open>A small catalogue for the chi-squared engine\<close>

text \<open>Two stars with two observations each in one fit band, on two exposures that are two
  nights: observations 0 and 1 of star 0 with magnitudes 1 and -1, observations 2 and 3 of
  star 1 with magnitudes 3 and -3, all of model error 1.  The look-up table is flat
  (\<open>I0 = 1\<close>, \<open>I1 = 0\<close>), its derivative with respect to the optical depth is 1 and with
  respect to ozone the secant of the zenith angle, which is 3 for observation 2 and 1
  elsewhere.  All units are 1, and the reload leaves the container as it is.\<close>

definition chisqCollabEx :: collaborators where
  "chisqCollabEx = \<lparr>
     reloadParArray = (\<lambda>p v u. p),
     getUnitDict = (\<lambda>_. \<lparr> o3Unit = 1, alphaUnit = 1, pwvUnit = 1, pwvGlobalUnit = 1,
                           pwvPerSlopeUnit = 1, tauUnit = 1, lnTauUnit = 1, lnTauSlopeUnit = 1,
                           qeSysUnit = 1, qeSysSlopeUnit = 1 \<rparr>),
     computeI0 = (\<lambda>_. 1),
     computeI1 = (\<lambda>_. 0),
     computeLogDerivatives = (\<lambda>args _. (0, fst (snd (snd (snd (snd (snd args))))), 1, 0)),
     hasI1Derivatives = False,
     computeLogDerivativesI1 = (\<lambda>_ _ _ _. (0, 0, 0, 0)),
     computeObjectSEDSlopes = (\<lambda>st _. objSEDSlope st),
     computeObjectSEDSlopesLUT = (\<lambda>st _. objSEDSlope st) \<rparr>"

definition chisqCfgEx :: chisqConfig where
  "chisqCfgEx = \<lparr> ccdStartIndex = 1, illegalValue = - 9999, reservedFlag = 4,
     nCore = 1, nStarPerRun = 2, noChromaticCorrections = False, I10StdBand = (\<lambda>_. 0),
     useSedLUT = False, exposureRetrieved = 1 \<rparr>"

definition chisqLayEx :: parLayout where
  "chisqLayEx = \<lparr> nFitPars = 14, nCampaignNights = 2, nWashIntervals = 1, nFitBands = 1,
     fitBandIndex = [0], parO3Loc = 0, parAlphaLoc = 2, parExternalPWVOffsetLoc = 0,
     parExternalPWVScaleLoc = 0, parRetrievedPWVScaleLoc = 0,
     parRetrievedPWVNightlyOffsetLoc = 0, parRetrievedPWVOffsetLoc = 0,
     parPWVInterceptLoc = 4, parPWVPerSlopeLoc = 6, parExternalTauOffsetLoc = 0,
     parExternalTauScaleLoc = 0, parLnTauInterceptLoc = 8, parLnTauSlopeLoc = 10,
     parQESysInterceptLoc = 12, parQESysSlopeLoc = 13, hasExternalPWV = False,
     useRetrievedPWV = False, useNightlyRetrievedPWV = False, hasExternalTau = False \<rparr>"

definition chisqParsEx :: fgcmPars where
  "chisqParsEx = \<lparr> expFlag = (\<lambda>_. 0), expPWV = (\<lambda>_. 0), expO3 = (\<lambda>_. 0),
     expLnTau = (\<lambda>_. 0), expTau = (\<lambda>_. 1), expAlpha = (\<lambda>_. 0), expPmb = (\<lambda>_. 0),
     expQESys = (\<lambda>_. 0), expMJD = (\<lambda>_. 0), expDeltaUT = (\<lambda>_. 0),
     expNightIndex = (\<lambda>e. if e = 0 then 0 else 1), expWashIndex = (\<lambda>_. 0),
     externalPWVFlag = (\<lambda>_. False), externalTauFlag = (\<lambda>_. False),
     compRetrievedPWVFlag = (\<lambda>_. 0), washMJDs = (\<lambda>_. 0), compSigFgcm = (\<lambda>_. 0) \<rparr>"

definition chisqStarsEx :: fgcmStars where
  "chisqStarsEx = \<lparr> nStars = 2, nStarObs = 4, nBands = 1,
     objFlag = (\<lambda>_. 0), objNGoodObs = (\<lambda>_. 2), objSEDSlope = (\<lambda>_. 0),
     objMagStdMean = (\<lambda>_. 5), objMagStdMeanNoChrom = (\<lambda>_. 5), objMagStdMeanErr = (\<lambda>_. 5),
     obsObjIDIndex = (\<lambda>i. if i < 2 then 0 else 1),
     obsExpIndex = (\<lambda>i. if i = 0 \<or> i = 2 then 0 else 1),
     obsBandIndex = (\<lambda>_. 0), obsLUTFilterIndex = (\<lambda>_. 0), obsCCD = (\<lambda>_. 1),
     obsFlag = (\<lambda>_. 0), obsSecZenith = (\<lambda>i. if i = 2 then 3 else 1),
     obsMagADU = (\<lambda>i. if i = 0 then 1 else if i = 1 then - 1 else if i = 2 then 3 else - 3),
     obsMagADUModelErr = (\<lambda>_. 1), obsMagStd = (\<lambda>_. 0),
     bandRequiredIndex = [0], bandExtraIndex = [], minObsPerBand = 1,
     magStdComputed = False, allMagStdComputed = False \<rparr>"

definition chisqWorldEx :: world where
  "chisqWorldEx = \<lparr> wpars = chisqParsEx, wstars = chisqStarsEx,
     wchisq = \<lparr> fitChisqs = [3, 7], nActualFitPars = 2, matchesCached = False,
                goodObsCache = [], goodStarsSubCache = [] \<rparr> \<rparr>"

text \<open>The arguments of a plain evaluation in debug mode; the other calls differ from it in
  one flag.\<close>

definition chisqArgsEx :: callArgs where
  "chisqArgsEx = \<lparr> fitParams = [], fitterUnits = False, computeDerivatives = False,
     computeSEDSlopes = False, useMatchCache = False, debug = True, allExposures = False,
     includeReserve = False, fgcmGray = None \<rparr>"

text \<open>The same catalogue with every observation attributed to star 1, so that star 0,
  the first good star, has none.\<close>

definition chisqWorldStrange :: world where
  "chisqWorldStrange = chisqWorldEx\<lparr>wstars := chisqStarsEx\<lparr>obsObjIDIndex := (\<lambda>_. 1)\<rparr>\<rparr>"

text \<open>The evaluation with derivatives, the star store after its worker, and the local
  arrays of the worker there.\<close>

definition chisqArgsDeriv :: callArgs where
  "chisqArgsDeriv = chisqArgsEx\<lparr>computeDerivatives := True\<rparr>"

definition chisqStarsStd :: fgcmStars where
  "chisqStarsStd =
     meanMags chisqCollabEx chisqCfgEx chisqArgsDeriv chisqParsEx
       (writeMagStd chisqCollabEx chisqCfgEx chisqArgsDeriv chisqParsEx
          (resetMeans chisqStarsEx) [0, 1, 2, 3])
       [0, 1, 2, 3]"

definition chisqLocalsEx :: workerLocals where
  "chisqLocalsEx =
     workerLocalsOf chisqCollabEx chisqCfgEx chisqLayEx chisqParsEx chisqStarsStd [0, 1, 2, 3]"

section \<open>Properties of the array operations\<close>

lemma add_at_app:
  fixes a :: "'k \<Rightarrow> 'v::comm_monoid_add"
  shows "add_at a key val xs k = a k + sum_list (map val (filter (\<lambda>i. key i = k) xs))"
proof (induction xs arbitrary: a)
  case Nil
  show ?case by (simp add: add_at_def)
next
  case (Cons x xs)
  have "add_at a key val (x # xs) k = add_at (a(key x := a (key x) + val x)) key val xs k"
    by (simp only: add_at_def fold_Cons comp_apply)
  also have "\<dots> = (a(key x := a (key x) + val x)) k
                   + sum_list (map val (filter (\<lambda>i. key i = k) xs))"
    by (rule Cons.IH)
  also have "\<dots> = a k + sum_list (map val (filter (\<lambda>i. key i = k) (x # xs)))"
    by (simp add: add.assoc)
  finally show ?case .
qed

section \<open>The gray statistics\<close>

lemma ccdNGoodStarsSum_length:
  "ccdNGoodStarsSum cfg st b c = int (length (cellObs cfg st b c))"
  by (simp add: ccdNGoodStarsSum_def add_at_app cellObs_def sum_list_triv)

lemma ccdGrayWt_cell: "ccdGrayWt cfg st b c = cellWeight cfg st b c"
  by (simp add: ccdGrayWt_def add_at_app cellObs_def cellWeight_def)

lemma ccdGraySum_cell:
  "ccdGraySum cfg st b c / cellWeight cfg st b c = cellMean cfg st b c"
  by (simp add: ccdGraySum_def add_at_app cellObs_def cellMean_def)

lemma ccdGrayRMSSum_cell:
  "ccdGrayRMSSum cfg st b c / cellWeight cfg st b c = cellMeanSq cfg st b c"
  by (simp add: ccdGrayRMSSum_def add_at_app cellObs_def cellMeanSq_def)

lemma positive_spread_positive_sum:
  fixes W S1 S2 :: real
  assumes "0 < W" and "0 < S2 / W - (S1 / W)\<^sup>2"
  shows "0 < S2"
proof -
  have "0 \<le> (S1 / W)\<^sup>2" by simp
  with assms(2) have "0 < S2 / W" by linarith
  with assms(1) show ?thesis by (simp add: zero_less_divide_iff)
qed

lemma computeCCDAndExpGray_Inr:
  assumes "computeCCDAndExpGray cfg st old b = Inr g"
  shows "ccdGray g = ccdGrayFinal cfg st b" "ccdGrayRMS g = ccdGrayRMSFinal cfg st b"
    "ccdGrayErr g = ccdGrayErrFinal cfg st b" "ccdNGoodStars g = ccdNGoodStarsSum cfg st b"
    "expGray g = expGrayFinal cfg st b" "expGrayRMS g = expGrayRMSFinal cfg st b"
    "expGrayErr g = expGrayErrFinal cfg st b" "expNGoodCCDs g = expNGoodCCDsSum cfg st b"
    "ccdGrayIsNaN g = ccdNaN cfg st b"
  using assms by (auto simp: computeCCDAndExpGray_def split: if_splits)

text \<open>A cell none of whose contributions has variance zero stores the weighted statistics
  or the illegal value.\<close>

lemma ccd_cell_cases:
  assumes "computeCCDAndExpGray cfg st old b = Inr g"
    and fin: "\<not> ccdInfinite cfg st b c"
  shows "if 2 < length (cellObs cfg st b c) \<and> 0 < cellWeight cfg st b c
            \<and> 0 < cellMeanSq cfg st b c - (cellMean cfg st b c)\<^sup>2
         then ccdGray g c = cellMean cfg st b c
              \<and> ccdGrayErr g c = sqrt (1 / cellWeight cfg st b c)
              \<and> ccdGrayRMS g c = sqrt (cellMeanSq cfg st b c - (cellMean cfg st b c)\<^sup>2)
         else ccdGray g c = illegalValue cfg \<and> ccdGrayRMS g c = illegalValue cfg
              \<and> ccdGrayErr g c = illegalValue cfg"
proof -
  note sel = computeCCDAndExpGray_Inr [OF assms(1)]
  from fin have nan: "\<not> ccdNaN cfg st b c" by (simp add: ccdNaN_def)
  let ?W = "cellWeight cfg st b c"
  let ?S2 = "ccdGrayRMSSum cfg st b c"
  let ?S1 = "ccdGraySum cfg st b c"
  have m: "?S1 / ?W = cellMean cfg st b c" by (rule ccdGraySum_cell)
  have q: "?S2 / ?W = cellMeanSq cfg st b c" by (rule ccdGrayRMSSum_cell)
  show ?thesis
  proof (cases "2 < length (cellObs cfg st b c) \<and> 0 < ?W
                \<and> 0 < cellMeanSq cfg st b c - (cellMean cfg st b c)\<^sup>2")
    case True
    then have "0 < ?S2 / ?W - (?S1 / ?W)\<^sup>2" by (simp add: m q)
    with True have pos: "0 < ?S2" using positive_spread_positive_sum by blast
    from True pos have gd: "ccdGd cfg st b c"
      by (simp add: ccdGd_def fin ccdNGoodStarsSum_length ccdGrayWt_cell)
    have t: "tempRMS2 cfg st b c = cellMeanSq cfg st b c - (cellMean cfg st b c)\<^sup>2"
      using gd by (simp add: tempRMS2_def nan ccdGrayDivided_def ccdGrayWt_cell m q)
    have nb: "\<not> ccdBad cfg st b c"
      using True by (simp add: ccdBad_def nan fin t ccdNGoodStarsSum_length ccdGrayWt_cell)
    show ?thesis
      using True gd nb
      by (simp add: sel ccdGrayFinal_def ccdGrayRMSFinal_def ccdGrayErrFinal_def t nan
          ccdGrayDivided_def ccdGrayWt_cell m)
  next
    case False
    have "ccdBad cfg st b c"
    proof (cases "ccdGd cfg st b c")
      case True
      then have t: "tempRMS2 cfg st b c = cellMeanSq cfg st b c - (cellMean cfg st b c)\<^sup>2"
        by (simp add: tempRMS2_def nan ccdGrayDivided_def ccdGrayWt_cell m q)
      from True have "2 < length (cellObs cfg st b c) \<and> 0 < ?W"
        by (simp add: ccdGd_def fin ccdNGoodStarsSum_length ccdGrayWt_cell)
      with False have "tempRMS2 cfg st b c \<le> 0" by (simp add: t not_less)
      then show ?thesis by (simp add: ccdBad_def nan)
    next
      case False
      then show ?thesis by (simp add: ccdBad_def nan tempRMS2_def)
    qed
    then have "ccdGray g c = illegalValue cfg \<and> ccdGrayRMS g c = illegalValue cfg
        \<and> ccdGrayErr g c = illegalValue cfg"
      by (simp add: sel ccdGrayFinal_def ccdGrayRMSFinal_def ccdGrayErrFinal_def)
    with False show ?thesis by (simp only: if_False)
  qed
qed

text \<open>A cell with a contribution of variance zero stores a gray that is not a number, the
  error 0 and the illegal value as its RMS when it has more than two contributions, none of
  variance zero and residual zero together; otherwise it stores the illegal value.\<close>

lemma ccd_cell_infinite:
  assumes "computeCCDAndExpGray cfg st old b = Inr g"
    and inf: "ccdInfinite cfg st b c"
  shows "if 2 < length (cellObs cfg st b c) \<and> \<not> ccdUndefined cfg st b c
         then ccdGrayIsNaN g c \<and> ccdGrayErr g c = 0 \<and> ccdGrayRMS g c = illegalValue cfg
         else \<not> ccdGrayIsNaN g c \<and> ccdGray g c = illegalValue cfg
              \<and> ccdGrayRMS g c = illegalValue cfg \<and> ccdGrayErr g c = illegalValue cfg"
proof -
  note sel = computeCCDAndExpGray_Inr [OF assms(1)]
  show ?thesis
  proof (cases "2 < length (cellObs cfg st b c) \<and> \<not> ccdUndefined cfg st b c")
    case True
    then have nan: "ccdNaN cfg st b c"
      by (simp add: ccdNaN_def inf ccdGd_def ccdNGoodStarsSum_length)
    then have "\<not> ccdBad cfg st b c" by (simp add: ccdBad_def)
    with True nan show ?thesis
      by (simp add: sel ccdGrayRMSFinal_def ccdGrayErrFinal_def)
  next
    case False
    then have nan: "\<not> ccdNaN cfg st b c"
      by (auto simp: ccdNaN_def inf ccdGd_def ccdNGoodStarsSum_length)
    then have "\<not> ccdGd cfg st b c" by (simp add: ccdNaN_def inf)
    then have "ccdBad cfg st b c" by (simp add: ccdBad_def nan tempRMS2_def)
    with nan have "\<not> ccdGrayIsNaN g c \<and> ccdGray g c = illegalValue cfg
        \<and> ccdGrayRMS g c = illegalValue cfg \<and> ccdGrayErr g c = illegalValue cfg"
      by (simp add: sel ccdGrayFinal_def ccdGrayRMSFinal_def ccdGrayErrFinal_def)
    with False show ?thesis by simp
  qed
qed

lemma filter_fst_product:
  assumes "distinct xs" and "e \<in> set xs"
  shows "filter (\<lambda>c. fst c = e) (List.product xs ys) = map (Pair e) ys"
  using assms
proof (induction xs)
  case Nil
  then show ?case by simp
next
  case (Cons x xs)
  have other: "filter (\<lambda>c. fst c = e) (List.product zs ys) = []" if "e \<notin> set zs" for zs
    using that by (induction zs) (auto simp: filter_empty_conv)
  show ?case
  proof (cases "x = e")
    case True
    with Cons.prems have "e \<notin> set xs" by simp
    with True show ?thesis by (simp add: other filter_map comp_def)
  next
    case False
    with Cons show ?thesis by (simp add: filter_map comp_def)
  qed
qed

lemma goodCCD_row:
  assumes "e < nExp cfg"
  shows "filter (\<lambda>c. fst c = e) (goodCCD cfg st b)
         = map (Pair e) (filter (\<lambda>d. ccdNGoodStarsSum cfg st b (e, d) \<ge> minStarPerCCD cfg
               \<and> ccdGrayErrFinal cfg st b (e, d) > 0
               \<and> ccdGrayErrFinal cfg st b (e, d) < maxCCDGrayErr cfg) [0..<nCCD cfg])"
proof -
  have "filter (\<lambda>c. fst c = e) (List.product [0..<nExp cfg] [0..<nCCD cfg])
        = map (Pair e) [0..<nCCD cfg]"
    using assms by (intro filter_fst_product) simp_all
  then show ?thesis
    unfolding goodCCD_def
    by (subst filter_filter, subst conj_commute, subst filter_filter [symmetric])
       (simp add: filter_map comp_def)
qed

lemma grayStarsEx_sel:
  "nStars grayStarsEx = 4" "nStarObs grayStarsEx = 4"
  "objFlag grayStarsEx = (\<lambda>_. 0)" "objNGoodObs grayStarsEx = (\<lambda>_. 1)"
  "objMagStdMean grayStarsEx = (\<lambda>_. 20)"
  "objMagStdMeanErr grayStarsEx = (\<lambda>c. if fst c = 3 then 2 else 0)"
  "obsObjIDIndex grayStarsEx = (\<lambda>i. i)" "obsExpIndex grayStarsEx = (\<lambda>_. 0)"
  "obsBandIndex grayStarsEx = (\<lambda>_. 0)" "obsCCD grayStarsEx = (\<lambda>i. if i = 3 then 2 else 1)"
  "obsFlag grayStarsEx = (\<lambda>_. 0)" "obsMagADUModelErr grayStarsEx = (\<lambda>_. 1)"
  "obsMagStd grayStarsEx = (\<lambda>i. if i = 0 then 19 else if i = 1 then 20 else 21)"
  "bandRequiredIndex grayStarsEx = [0]" "bandExtraIndex grayStarsEx = []"
  "minObsPerBand grayStarsEx = 1" "allMagStdComputed grayStarsEx = True"
  by (simp_all add: grayStarsEx_def)

lemma grayCfgEx_sel:
  "minStarPerCCD grayCfgEx = 3" "maxCCDGrayErr grayCfgEx = 1" "ccdGrayMaxStarErr grayCfgEx = 2"
  "ccdStartIndex grayCfgEx = 1" "illegalValue grayCfgEx = -9999" "nExp grayCfgEx = 1"
  "nCCD grayCfgEx = 2"
  by (simp_all add: grayCfgEx_def)

lemma upt4: "[0..<4] = [0,1,2,3]" by (simp add: upt_rec)

lemma grayEx_goodStars: "grayGoodStars grayStarsEx = [0,1,2,3]"
  by (simp add: grayGoodStars_def grayStarsEx_sel minObs_def upt4)

lemma grayEx_goodObs: "grayGoodObs grayCfgEx grayStarsEx False = [0,1,2,3]"
  by (simp add: grayGoodObs_def grayMatchedObs_def match_sub2_def grayEx_goodStars EGrayErr2_def upt4 grayStarsEx_sel grayCfgEx_sel)

lemma grayEx_use: "grayUse grayCfgEx grayStarsEx False = [0,1,2,3]"
  by (simp add: grayUse_def grayEx_goodObs reqBandUse_def match_sub2_def extraBandUse_def grayStarsEx_sel)


lemma cellObs00: "cellObs grayCfgEx grayStarsEx False (0, 0) = [0, 1, 2]"
  by (simp add: cellObs_def grayEx_use ccdKey_def obsCCDIndex_def grayStarsEx_sel grayCfgEx_sel)

lemma cellObs01: "cellObs grayCfgEx grayStarsEx False (0, Suc 0) = [3]"
  by (simp add: cellObs_def grayEx_use ccdKey_def obsCCDIndex_def grayStarsEx_sel grayCfgEx_sel)

lemma upt2: "[0..<2] = [0, 1]" by (simp add: upt_rec)

lemma grayEx_Inr: "\<exists>g. computeCCDAndExpGray grayCfgEx grayStarsEx (\<lambda>_. 0) False = Inr g"
  by (simp add: computeCCDAndExpGray_def grayEx_goodStars grayEx_goodObs grayEx_use
      cellInRange_def obsCCDIndex_def grayStarsEx_sel grayCfgEx_sel)

lemma grayEx_finite00: "\<not> ccdInfinite grayCfgEx grayStarsEx False (0, 0)"
  by (simp add: ccdInfinite_def cellObs00 EGrayErr2_def grayStarsEx_sel)

lemma grayStarsZero_sel:
  "nStars grayStarsZero = 4" "nStarObs grayStarsZero = 4"
  "objFlag grayStarsZero = (\<lambda>_. 0)" "objNGoodObs grayStarsZero = (\<lambda>_. 1)"
  "objMagStdMean grayStarsZero = (\<lambda>_. 20)"
  "objMagStdMeanErr grayStarsZero = (\<lambda>c. if fst c = 0 then 1 else if fst c = 3 then 2 else 0)"
  "obsObjIDIndex grayStarsZero = (\<lambda>i. i)" "obsExpIndex grayStarsZero = (\<lambda>_. 0)"
  "obsBandIndex grayStarsZero = (\<lambda>_. 0)" "obsCCD grayStarsZero = (\<lambda>i. if i = 3 then 2 else 1)"
  "obsFlag grayStarsZero = (\<lambda>_. 0)" "obsMagADUModelErr grayStarsZero = (\<lambda>_. 1)"
  "obsMagStd grayStarsZero = (\<lambda>i. if i = 0 then 19 else if i = 1 then 20 else 21)"
  "bandRequiredIndex grayStarsZero = [0]" "bandExtraIndex grayStarsZero = []"
  "minObsPerBand grayStarsZero = 1" "allMagStdComputed grayStarsZero = True"
  by (simp_all add: grayStarsZero_def grayStarsEx_def)

lemma grayZero_goodStars: "grayGoodStars grayStarsZero = [0,1,2,3]"
  by (simp add: grayGoodStars_def grayStarsZero_sel minObs_def upt4)

lemma grayZero_goodObs: "grayGoodObs grayCfgEx grayStarsZero False = [0,1,2,3]"
  by (simp add: grayGoodObs_def grayMatchedObs_def match_sub2_def grayZero_goodStars
      EGrayErr2_def upt4 grayStarsZero_sel grayCfgEx_sel)

lemma grayZero_use: "grayUse grayCfgEx grayStarsZero False = [0,1,2,3]"
  by (simp add: grayUse_def grayZero_goodObs reqBandUse_def match_sub2_def extraBandUse_def
      grayStarsZero_sel)

lemma grayZero_cellObs00: "cellObs grayCfgEx grayStarsZero False (0, 0) = [0, 1, 2]"
  by (simp add: cellObs_def grayZero_use ccdKey_def obsCCDIndex_def grayStarsZero_sel
      grayCfgEx_sel)

lemma grayZero_Inr: "\<exists>g. computeCCDAndExpGray grayCfgEx grayStarsZero (\<lambda>_. 0) False = Inr g"
  by (simp add: computeCCDAndExpGray_def grayZero_goodStars grayZero_goodObs grayZero_use
      cellInRange_def obsCCDIndex_def grayStarsZero_sel grayCfgEx_sel)

text \<open>
  Claim C5.  A cell of \<open>computeCCDAndExpGray\<close> is to store either its weighted statistics or
  the illegal value in gray, RMS and error.  The first cell of the catalogue in which the
  mean magnitude of star 0 rests on its single observation has three contributing stars,
  one of them with residual 1 and residual variance \<open>1 - 1 = 0\<close>, which the cut on the
  variance keeps.  The method then stores a gray that is not a number, the error 0 and
  the illegal value as RMS: neither the statistics nor the illegal value throughout.
\<close>

theorem gray_zero_variance_cell:
  "case computeCCDAndExpGray grayCfgEx grayStarsZero (\<lambda>_. 0) False of
     Inl _ \<Rightarrow> False
   | Inr g \<Rightarrow> cellObs grayCfgEx grayStarsZero False (0, 0) = [0, 1, 2]
             \<and> EGrayErr2 grayStarsZero False 0 = 0 \<and> EGray grayStarsZero 0 = 1
             \<and> ccdGrayIsNaN g (0, 0) \<and> ccdGrayErr g (0, 0) = 0
             \<and> ccdGrayRMS g (0, 0) = - 9999"
proof -
  obtain g where r: "computeCCDAndExpGray grayCfgEx grayStarsZero (\<lambda>_. 0) False = Inr g"
    using grayZero_Inr by blast
  have e: "EGrayErr2 grayStarsZero False 0 = 0" "EGray grayStarsZero 0 = 1"
    by (simp_all add: EGrayErr2_def EGray_def grayStarsZero_sel)
  have inf: "ccdInfinite grayCfgEx grayStarsZero False (0, 0)"
    by (simp add: ccdInfinite_def grayZero_cellObs00 EGrayErr2_def grayStarsZero_sel)
  have und: "\<not> ccdUndefined grayCfgEx grayStarsZero False (0, 0)"
    by (simp add: ccdUndefined_def grayZero_cellObs00 EGrayErr2_def EGray_def grayStarsZero_sel)
  from ccd_cell_infinite [OF r inf] und
  have "ccdGrayIsNaN g (0, 0) \<and> ccdGrayErr g (0, 0) = 0 \<and> ccdGrayRMS g (0, 0) = - 9999"
    by (simp add: grayZero_cellObs00 grayCfgEx_sel)
  with r e show ?thesis by (simp add: grayZero_cellObs00)
qed

text \<open>
  Claim C4.  With \<open>onlyObsErr = False\<close> the residual variance of an observation is its
  model-error variance minus the variance of the mean magnitude of its object.  The cut
  that follows keeps every observation whose variance lies below \<open>ccdGrayMaxStarErr\<close>; it
  has no lower bound.  In the small catalogue the observation of star 3 has variance
  \<open>1 - 4 = - 3\<close>: it stays among the good observations, is the one contribution to its
  cell and gives that cell the weight \<open>- 1 / 3\<close>.
\<close>

theorem gray_keeps_nonpositive_variance:
  "EGrayErr2 grayStarsEx False 3 = - 3
   \<and> 3 \<in> set (grayGoodObs grayCfgEx grayStarsEx False)
   \<and> cellObs grayCfgEx grayStarsEx False (0, 1) = [3]
   \<and> ccdGrayWt grayCfgEx grayStarsEx False (0, 1) = - (1 / 3)"
  by (simp add: grayEx_goodObs cellObs01 ccdGrayWt_cell cellWeight_def EGrayErr2_def grayStarsEx_sel)


text \<open>
  Claim C6.  In \<open>computeCCDAndExpGray\<close>, the exposure-level sums run over exactly the CCDs
  of the exposure that have at least \<open>minStarPerCCD\<close> stars and a gray error strictly
  between 0 and \<open>maxCCDGrayErr\<close>: their number is the stored count of good CCDs, and
  their weighted mean, error and RMS are the stored exposure values.  An exposure with
  fewer than three such CCDs stores the illegal value in gray, RMS and error.
\<close>

theorem exp_gray_gated:
  assumes "computeCCDAndExpGray cfg st old b = Inr g" and "e < nExp cfg"
  shows "expNGoodCCDs g e = int (length (gateCCDs cfg g e))
       \<and> (if length (gateCCDs cfg g e) < 3
          then expGray g e = illegalValue cfg \<and> expGrayRMS g e = illegalValue cfg
               \<and> expGrayErr g e = illegalValue cfg
          else expGray g e = gateMean cfg g e
               \<and> expGrayErr g e = sqrt (1 / gateWeight cfg g e)
               \<and> expGrayRMS g e = sqrt (gateMeanSq cfg g e - (gateMean cfg g e)\<^sup>2))"
proof -
  note sel = computeCCDAndExpGray_Inr [OF assms(1)]
  have row: "filter (\<lambda>c. fst c = e) (goodCCD cfg st b) = map (Pair e) (gateCCDs cfg g e)"
    by (simp add: goodCCD_row [OF assms(2)] gateCCDs_def sel)
  have n: "expNGoodCCDsSum cfg st b e = int (length (gateCCDs cfg g e))"
    by (simp add: expNGoodCCDsSum_def add_at_app row sum_list_triv comp_def)
  have w: "expGrayWt cfg st b e = gateWeight cfg g e"
    by (simp add: expGrayWt_def add_at_app row gateWeight_def sel comp_def)
  have m: "expGraySum cfg st b e / gateWeight cfg g e = gateMean cfg g e"
    by (simp add: expGraySum_def add_at_app row gateMean_def sel comp_def)
  have q: "expGrayRMSSum cfg st b e / gateWeight cfg g e = gateMeanSq cfg g e"
    by (simp add: expGrayRMSSum_def add_at_app row gateMeanSq_def sel comp_def)
  have le: "expNGoodCCDsSum cfg st b e \<le> 2 \<longleftrightarrow> length (gateCCDs cfg g e) < 3"
    by (simp add: n) linarith
  show ?thesis
    by (simp add: sel n [symmetric] expGrayFinal_def expGrayRMSFinal_def expGrayErrFinal_def
        le w m q)
qed


theorem exp_gray_gated_witness:
  "case computeCCDAndExpGray grayCfgEx grayStarsEx (\<lambda>_. 0) False of
     Inl _ \<Rightarrow> False
   | Inr g \<Rightarrow> expNGoodCCDs g 0 = 1 \<and> expGray g 0 = - 9999 \<and> expGrayRMS g 0 = - 9999
             \<and> expGrayErr g 0 = - 9999"
proof -
  obtain g where r: "computeCCDAndExpGray grayCfgEx grayStarsEx (\<lambda>_. 0) False = Inr g"
    using grayEx_Inr by blast
  note sel = computeCCDAndExpGray_Inr [OF r]
  have e: "(0::nat) < nExp grayCfgEx" by (simp add: grayCfgEx_sel)
  have n0: "ccdNGoodStars g (0, 0) = 3" "ccdNGoodStars g (0, Suc 0) = 1"
    by (simp_all add: sel ccdNGoodStarsSum_length cellObs00 cellObs01)
  have w: "cellWeight grayCfgEx grayStarsEx False (0, 0) = 3"
    by (simp add: cellWeight_def cellObs00 EGrayErr2_def grayStarsEx_sel)
  have m: "cellMean grayCfgEx grayStarsEx False (0, 0) = 0"
    by (simp add: cellMean_def cellObs00 EGrayErr2_def EGray_def grayStarsEx_sel)
  have q: "cellMeanSq grayCfgEx grayStarsEx False (0, 0) = 2 / 3"
    by (simp add: cellMeanSq_def w cellObs00 EGrayErr2_def EGray_def grayStarsEx_sel)
  have err0: "ccdGrayErr g (0, 0) = sqrt (1 / 3)"
    using ccd_cell_cases [OF r grayEx_finite00] by (simp add: cellObs00 w m q)
  have gate: "gateCCDs grayCfgEx g 0 = [0]"
    by (simp add: gateCCDs_def upt2 grayCfgEx_sel n0 err0)
  from exp_gray_gated [OF r e]
  have "expNGoodCCDs g 0 = 1 \<and> expGray g 0 = - 9999 \<and> expGrayRMS g 0 = - 9999
        \<and> expGrayErr g 0 = - 9999"
    by (simp add: gate grayCfgEx_sel)
  with r show ?thesis by simp
qed

section \<open>The repeatability\<close>

lemma sigFgcmValue_cases:
  "sigFgcmValue width med =
     Inr (case width of None \<Rightarrow> 5 / 100
          | Some sigma \<Rightarrow> if med > sigma\<^sup>2 then 1 / 1000 else sqrt (sigma\<^sup>2 - med))"
  by (simp add: sigFgcmValue_def np_sqrt_def split: option.split)

text \<open>One pass of the inner loop on the observations the method uses.\<close>

lemma sigFgcmStep_eq:
  "sigFgcmStep histoGauss cfg st doPlots save (sigGoodObs cfg pars st reserved) b c s =
     Inr (if sigSelection cfg pars st reserved b c = [] then s
          else s\<lparr> sigFgcm := (sigFgcm s)(b := sigScatter histoGauss cfg pars st reserved b c),
                  sigLog := sigLog s @ [(b, c, sigScatter histoGauss cfg pars st reserved b c)],
                  parsSigFgcm := (if save \<and> c = 0
                     then (parsSigFgcm s)(b := sigScatter histoGauss cfg pars st reserved b c)
                     else parsSigFgcm s),
                  extraNameSet := (doPlots \<or> extraNameSet s) \<rparr>)"
proof -
  let ?G = "sigGoodObs cfg pars st reserved"
  have u: "sigUse cfg st ?G (gmiCutLow (sort (map (gmiGO cfg st) ?G)) ! c)
             (gmiCutHigh (sort (map (gmiGO cfg st) ?G)) ! c) b
           = sigSelection cfg pars st reserved b c"
    by (simp add: sigSelection_def Let_def)
  have v: "(case histoGauss (map (EGray st) (sigSelection cfg pars st reserved b c)) of
              None \<Rightarrow> 5 / 100
            | Some sigma \<Rightarrow>
                if np_median (map (EGrayErr2 st False) (sigSelection cfg pars st reserved b c))
                   > sigma\<^sup>2
                then 1 / 1000
                else sqrt (sigma\<^sup>2
                     - np_median (map (EGrayErr2 st False) (sigSelection cfg pars st reserved b c))))
           = sigScatter histoGauss cfg pars st reserved b c"
    by (simp add: sigScatter_def Let_def)
  show ?thesis
    unfolding sigFgcmStep_def Let_def u sigFgcmValue_cases v
    by (cases doPlots) simp_all
qed

lemma sigFgcm_cuts:
  "\<exists>s'. foldE (sigFgcmStep histoGauss cfg st doPlots save (sigGoodObs cfg pars st reserved) b) cs s
          = Inr s'
      \<and> sigLog s' = sigLog s @ sigLines histoGauss cfg pars st reserved cs b
      \<and> parsSigFgcm s' =
          (if save \<and> 0 \<in> set cs \<and> sigSelection cfg pars st reserved b 0 \<noteq> []
           then (parsSigFgcm s)(b := sigScatter histoGauss cfg pars st reserved b 0)
           else parsSigFgcm s)
      \<and> extraNameSet s' =
          (extraNameSet s \<or> doPlots \<and> sigLines histoGauss cfg pars st reserved cs b \<noteq> [])"
proof (induction cs arbitrary: s)
  case Nil
  show ?case by (simp add: sigLines_def)
next
  case (Cons c cs)
  let ?s1 = "if sigSelection cfg pars st reserved b c = [] then s
          else s\<lparr> sigFgcm := (sigFgcm s)(b := sigScatter histoGauss cfg pars st reserved b c),
                  sigLog := sigLog s @ [(b, c, sigScatter histoGauss cfg pars st reserved b c)],
                  parsSigFgcm := (if save \<and> c = 0
                     then (parsSigFgcm s)(b := sigScatter histoGauss cfg pars st reserved b c)
                     else parsSigFgcm s),
                  extraNameSet := (doPlots \<or> extraNameSet s) \<rparr>"
  from Cons.IH [of ?s1] obtain s' where
    f: "foldE (sigFgcmStep histoGauss cfg st doPlots save (sigGoodObs cfg pars st reserved) b) cs ?s1
          = Inr s'"
    and l: "sigLog s' = sigLog ?s1 @ sigLines histoGauss cfg pars st reserved cs b"
    and p: "parsSigFgcm s' =
          (if save \<and> 0 \<in> set cs \<and> sigSelection cfg pars st reserved b 0 \<noteq> []
           then (parsSigFgcm ?s1)(b := sigScatter histoGauss cfg pars st reserved b 0)
           else parsSigFgcm ?s1)"
    and e: "extraNameSet s' =
          (extraNameSet ?s1 \<or> doPlots \<and> sigLines histoGauss cfg pars st reserved cs b \<noteq> [])"
    by blast
  have "foldE (sigFgcmStep histoGauss cfg st doPlots save (sigGoodObs cfg pars st reserved) b)
          (c # cs) s = Inr s'"
    using f by (simp add: sigFgcmStep_eq)
  moreover have "sigLog s' = sigLog s @ sigLines histoGauss cfg pars st reserved (c # cs) b"
    using l by (simp add: sigLines_def)
  moreover have "parsSigFgcm s' =
          (if save \<and> 0 \<in> set (c # cs) \<and> sigSelection cfg pars st reserved b 0 \<noteq> []
           then (parsSigFgcm s)(b := sigScatter histoGauss cfg pars st reserved b 0)
           else parsSigFgcm s)"
    using p by (cases "c = 0") auto
  moreover have "extraNameSet s' =
          (extraNameSet s \<or> doPlots \<and> sigLines histoGauss cfg pars st reserved (c # cs) b \<noteq> [])"
    using e by (auto simp: sigLines_def)
  ultimately show ?case by blast
qed


lemma sigFgcmBand_eq:
  "\<exists>s'. sigLog s' = sigLog s @ sigLines histoGauss cfg pars st reserved [0..<4] b
      \<and> parsSigFgcm s' =
          (if save \<and> sigSelection cfg pars st reserved b 0 \<noteq> []
           then (parsSigFgcm s)(b := sigScatter histoGauss cfg pars st reserved b 0)
           else parsSigFgcm s)
      \<and> sigFgcmBand histoGauss cfg st doPlots save (sigGoodObs cfg pars st reserved) b s =
          (if extraNameSet s \<or> doPlots \<and> sigLines histoGauss cfg pars st reserved [0..<4] b \<noteq> []
           then Inr (s'\<lparr>extraNameSet := True\<rparr>)
           else Inl (UnboundLocalError, s'\<lparr>extraNameSet := False\<rparr>))"
proof -
  from sigFgcm_cuts [where histoGauss = histoGauss and cfg = cfg and pars = pars and st = st
      and reserved = reserved and save = save and doPlots = doPlots and b = b
      and cs = "[0..<4]" and s = s]
  obtain s' where
    f: "foldE (sigFgcmStep histoGauss cfg st doPlots save (sigGoodObs cfg pars st reserved) b)
          [0..<4] s = Inr s'"
    and l: "sigLog s' = sigLog s @ sigLines histoGauss cfg pars st reserved [0..<4] b"
    and p: "parsSigFgcm s' =
          (if save \<and> 0 \<in> set [0..<4] \<and> sigSelection cfg pars st reserved b 0 \<noteq> []
           then (parsSigFgcm s)(b := sigScatter histoGauss cfg pars st reserved b 0)
           else parsSigFgcm s)"
    and e: "extraNameSet s' =
          (extraNameSet s \<or> doPlots \<and> sigLines histoGauss cfg pars st reserved [0..<4] b \<noteq> [])"
    by blast
  have "sigFgcmBand histoGauss cfg st doPlots save (sigGoodObs cfg pars st reserved) b s =
          (if extraNameSet s \<or> doPlots \<and> sigLines histoGauss cfg pars st reserved [0..<4] b \<noteq> []
           then Inr (s'\<lparr>extraNameSet := True\<rparr>)
           else Inl (UnboundLocalError, s'\<lparr>extraNameSet := False\<rparr>))"
    using e by (auto simp: sigFgcmBand_def f)
  with l p show ?thesis by auto
qed

lemma sigFgcm_bands:
  assumes "extraNameSet s"
  shows "\<exists>s'. foldE (sigFgcmBand histoGauss cfg st doPlots save (sigGoodObs cfg pars st reserved))
                bs s = Inr s'
      \<and> sigLog s' = sigLog s @ concat (map (sigLines histoGauss cfg pars st reserved [0..<4]) bs)
      \<and> (\<forall>b. parsSigFgcm s' b =
            (if b \<in> set bs \<and> save \<and> sigSelection cfg pars st reserved b 0 \<noteq> []
             then sigScatter histoGauss cfg pars st reserved b 0 else parsSigFgcm s b))"
  using assms
proof (induction bs arbitrary: s)
  case Nil
  show ?case by simp
next
  case (Cons b bs)
  from sigFgcmBand_eq [where s = s and histoGauss = histoGauss and cfg = cfg and pars = pars
      and st = st and reserved = reserved and b = b and save = save and doPlots = doPlots]
  obtain s1 where
    l1: "sigLog s1 = sigLog s @ sigLines histoGauss cfg pars st reserved [0..<4] b"
    and p1: "parsSigFgcm s1 =
          (if save \<and> sigSelection cfg pars st reserved b 0 \<noteq> []
           then (parsSigFgcm s)(b := sigScatter histoGauss cfg pars st reserved b 0)
           else parsSigFgcm s)"
    and f1: "sigFgcmBand histoGauss cfg st doPlots save (sigGoodObs cfg pars st reserved) b s =
          Inr (s1\<lparr>extraNameSet := True\<rparr>)"
    using Cons.prems by auto
  from Cons.IH [of "s1\<lparr>extraNameSet := True\<rparr>"] obtain s' where
    f: "foldE (sigFgcmBand histoGauss cfg st doPlots save (sigGoodObs cfg pars st reserved))
                bs (s1\<lparr>extraNameSet := True\<rparr>) = Inr s'"
    and l: "sigLog s' = sigLog s1 @ concat (map (sigLines histoGauss cfg pars st reserved [0..<4]) bs)"
    and p: "\<forall>b. parsSigFgcm s' b =
            (if b \<in> set bs \<and> save \<and> sigSelection cfg pars st reserved b 0 \<noteq> []
             then sigScatter histoGauss cfg pars st reserved b 0 else parsSigFgcm s1 b)"
    by auto
  have "foldE (sigFgcmBand histoGauss cfg st doPlots save (sigGoodObs cfg pars st reserved))
                (b # bs) s = Inr s'"
    using f f1 by simp
  moreover have "sigLog s' =
      sigLog s @ concat (map (sigLines histoGauss cfg pars st reserved [0..<4]) (b # bs))"
    using l l1 by simp
  moreover have "\<forall>b'. parsSigFgcm s' b' =
            (if b' \<in> set (b # bs) \<and> save \<and> sigSelection cfg pars st reserved b' 0 \<noteq> []
             then sigScatter histoGauss cfg pars st reserved b' 0 else parsSigFgcm s b')"
    using p p1 by auto
  ultimately show ?case by blast
qed


lemma computeSigFgcm_ready:
  assumes "sigReady cfg pars st reserved"
  shows "computeSigFgcm histoGauss cfg pars st reserved doPlots save =
           foldE (sigFgcmBand histoGauss cfg st doPlots save (sigGoodObs cfg pars st reserved))
             [0..<nBands st]
             \<lparr> sigFgcm = (\<lambda>_. 0), parsSigFgcm = compSigFgcm pars, extraNameSet = False,
               sigLog = [] \<rparr>"
  using assms
  by (auto simp: sigReady_def computeSigFgcm_def np_match_def sigGoodObs_def Let_def)

text \<open>The result of the method once it reaches its loops.\<close>

lemma computeSigFgcm_loops:
  assumes r: "sigReady cfg pars st reserved"
  shows "if nBands st = 0 \<or> doPlots \<and> sigLines histoGauss cfg pars st reserved [0..<4] 0 \<noteq> []
         then \<exists>s. computeSigFgcm histoGauss cfg pars st reserved doPlots save = Inr s
                \<and> sigLog s = concat (map (sigLines histoGauss cfg pars st reserved [0..<4])
                                        [0..<nBands st])
                \<and> (\<forall>b. parsSigFgcm s b =
                      (if b < nBands st \<and> save \<and> sigSelection cfg pars st reserved b 0 \<noteq> []
                       then sigScatter histoGauss cfg pars st reserved b 0
                       else compSigFgcm pars b))
         else \<exists>s. computeSigFgcm histoGauss cfg pars st reserved doPlots save
                    = Inl (UnboundLocalError, s)
                \<and> sigLog s = sigLines histoGauss cfg pars st reserved [0..<4] 0
                \<and> (\<forall>b. parsSigFgcm s b =
                      (if b = 0 \<and> save \<and> sigSelection cfg pars st reserved b 0 \<noteq> []
                       then sigScatter histoGauss cfg pars st reserved b 0
                       else compSigFgcm pars b))"
proof (cases "nBands st = 0")
  case True
  then show ?thesis by (simp add: computeSigFgcm_ready [OF r])
next
  case False
  let ?s0 = "\<lparr> sigFgcm = (\<lambda>_. 0), parsSigFgcm = compSigFgcm pars, extraNameSet = False,
               sigLog = [] \<rparr>"
  let ?band = "sigFgcmBand histoGauss cfg st doPlots save (sigGoodObs cfg pars st reserved)"
  from False have u: "[0..<nBands st] = 0 # [Suc 0..<nBands st]" by (simp add: upt_rec)
  from sigFgcmBand_eq [where s = ?s0 and histoGauss = histoGauss and cfg = cfg and pars = pars
      and st = st and reserved = reserved and b = 0 and save = save and doPlots = doPlots]
  obtain s1 where
    l1: "sigLog s1 = sigLines histoGauss cfg pars st reserved [0..<4] 0"
    and p1: "parsSigFgcm s1 =
          (if save \<and> sigSelection cfg pars st reserved 0 0 \<noteq> []
           then (compSigFgcm pars)(0 := sigScatter histoGauss cfg pars st reserved 0 0)
           else compSigFgcm pars)"
    and f1: "?band 0 ?s0 =
          (if doPlots \<and> sigLines histoGauss cfg pars st reserved [0..<4] 0 \<noteq> []
           then Inr (s1\<lparr>extraNameSet := True\<rparr>)
           else Inl (UnboundLocalError, s1\<lparr>extraNameSet := False\<rparr>))"
    by auto
  show ?thesis
  proof (cases "doPlots \<and> sigLines histoGauss cfg pars st reserved [0..<4] 0 \<noteq> []")
    case True
    have e: "extraNameSet (s1\<lparr>extraNameSet := True\<rparr>)" by simp
    from sigFgcm_bands [OF e, where histoGauss = histoGauss and cfg = cfg and pars = pars
        and st = st and reserved = reserved and save = save and doPlots = doPlots
        and bs = "[Suc 0..<nBands st]"]
    obtain s' where
      f: "foldE ?band [Suc 0..<nBands st] (s1\<lparr>extraNameSet := True\<rparr>) = Inr s'"
      and l: "sigLog s' = sigLog (s1\<lparr>extraNameSet := True\<rparr>)
            @ concat (map (sigLines histoGauss cfg pars st reserved [0..<4]) [Suc 0..<nBands st])"
      and p: "\<forall>b. parsSigFgcm s' b =
            (if b \<in> set [Suc 0..<nBands st] \<and> save \<and> sigSelection cfg pars st reserved b 0 \<noteq> []
             then sigScatter histoGauss cfg pars st reserved b 0
             else parsSigFgcm (s1\<lparr>extraNameSet := True\<rparr>) b)"
      by blast
    from f1 True have f1': "?band 0 ?s0 = Inr (s1\<lparr>extraNameSet := True\<rparr>)"
      by simp
    have "computeSigFgcm histoGauss cfg pars st reserved doPlots save = Inr s'"
      by (simp add: computeSigFgcm_ready [OF r] u f1' f)
    moreover have "sigLog s' = concat (map (sigLines histoGauss cfg pars st reserved [0..<4])
                                        [0..<nBands st])"
      using l l1 by (simp add: u)
    moreover have "\<forall>b. parsSigFgcm s' b =
                      (if b < nBands st \<and> save \<and> sigSelection cfg pars st reserved b 0 \<noteq> []
                       then sigScatter histoGauss cfg pars st reserved b 0
                       else compSigFgcm pars b)"
    proof
      fix b
      show "parsSigFgcm s' b =
                      (if b < nBands st \<and> save \<and> sigSelection cfg pars st reserved b 0 \<noteq> []
                       then sigScatter histoGauss cfg pars st reserved b 0
                       else compSigFgcm pars b)"
      proof (cases "b = 0")
        case True
        then show ?thesis using p p1 False by simp
      next
        case F0: False
        then have "Suc 0 \<le> b" by simp
        then show ?thesis using p p1 F0 by simp
      qed
    qed
    ultimately show ?thesis using True by auto
  next
    case F: False
    from f1 F have f1': "?band 0 ?s0 = Inl (UnboundLocalError, s1\<lparr>extraNameSet := False\<rparr>)"
      by (simp only: if_False)
    have "computeSigFgcm histoGauss cfg pars st reserved doPlots save
            = Inl (UnboundLocalError, s1\<lparr>extraNameSet := False\<rparr>)"
      by (simp add: computeSigFgcm_ready [OF r] u f1')
    moreover have "sigLog (s1\<lparr>extraNameSet := False\<rparr>)
        = sigLines histoGauss cfg pars st reserved [0..<4] 0"
      using l1 by simp
    moreover have "\<forall>b. parsSigFgcm (s1\<lparr>extraNameSet := False\<rparr>) b =
                      (if b = 0 \<and> save \<and> sigSelection cfg pars st reserved b 0 \<noteq> []
                       then sigScatter histoGauss cfg pars st reserved b 0
                       else compSigFgcm pars b)"
      using p1 by auto
    ultimately show ?thesis using F False by auto
  qed
qed




lemma sigStarsEx_sel:
  "nStars sigStarsEx = 3" "nStarObs sigStarsEx = 3" "nBands sigStarsEx = 2"
  "objFlag sigStarsEx = (\<lambda>_. 0)" "objNGoodObs sigStarsEx = (\<lambda>_. 1)"
  "objMagStdMean sigStarsEx = (\<lambda>c. if snd c = 0 then 20 + real (fst c) else 20)"
  "objMagStdMeanErr sigStarsEx = (\<lambda>_. 0)" "obsObjIDIndex sigStarsEx = (\<lambda>i. i)"
  "obsExpIndex sigStarsEx = (\<lambda>_. 0)" "obsFlag sigStarsEx = (\<lambda>_. 0)"
  "obsBandIndex sigStarsEx = (\<lambda>_. 0)" "obsMagADUModelErr sigStarsEx = (\<lambda>_. 1 / 10)"
  "obsMagStd sigStarsEx = (\<lambda>_. 19)" "bandRequiredIndex sigStarsEx = [0]"
  "minObsPerBand sigStarsEx = 1" "magStdComputed sigStarsEx = True"
  by (simp_all add: sigStarsEx_def)

lemma sigCfgEx_sel:
  "sigFgcmMaxEGray sigCfgEx = 10" "sigFgcmMaxErr sigCfgEx = 1" "colorSplitIndices sigCfgEx = (0, 1)"
  by (simp_all add: sigCfgEx_def)

lemma sigParsEx_sel: "expFlag sigParsEx = (\<lambda>_. 0)" "compSigFgcm sigParsEx = (\<lambda>_. 0)"
  by (simp_all add: sigParsEx_def)

lemma upt3: "[0..<3] = [0, 1, 2]"
  by (simp add: upt_rec)

lemma sigEx_goodStars: "sigGoodStars sigCfgEx sigStarsEx False = [0, 1, 2]"
  by (simp add: sigGoodStars_def minObs_def upt3 sigStarsEx_sel)

lemma sigEx_goodObs: "sigGoodObs sigCfgEx sigParsEx sigStarsEx False = [0, 1, 2]"
  by (simp add: sigGoodObs_def sigCutObs_def match_sub2_def sigEx_goodStars upt3 sigStarsEx_sel
      sigParsEx_sel)

lemma sigEx_ready: "sigReady sigCfgEx sigParsEx sigStarsEx False"
  by (simp add: sigReady_def sigEx_goodStars sigEx_goodObs sigStarsEx_sel)

lemma sigEx_sorted: "sort (map (gmiGO sigCfgEx sigStarsEx) [0, 1, 2]) = [0, 1, 2]"
  by (simp add: gmiGO_def sigStarsEx_sel sigCfgEx_sel)

lemma sigEx_selection:
  "sigSelection sigCfgEx sigParsEx sigStarsEx False 0 0 = [1]"
  "sigSelection sigCfgEx sigParsEx sigStarsEx False 0 (Suc 0) = []"
  "sigSelection sigCfgEx sigParsEx sigStarsEx False 0 2 = [1]"
  "sigSelection sigCfgEx sigParsEx sigStarsEx False 0 3 = []"
  "sigSelection sigCfgEx sigParsEx sigStarsEx False (Suc 0) c = []"
  by (simp_all add: sigSelection_def sigEx_goodObs sigEx_sorted gmiCutLow_def gmiCutHigh_def
      sigUse_def EGray_def EGrayErr2_def gmiGO_def sigStarsEx_sel sigCfgEx_sel power2_eq_square)

lemma sigEx_median: "np_median [EGrayErr2 sigStarsEx False (Suc 0)] = 1 / 100"
  by (simp add: np_median_def EGrayErr2_def sigStarsEx_sel power2_eq_square)

lemma sigEx_scatter:
  "sigScatter (\<lambda>_. Some (1 / 20)) sigCfgEx sigParsEx sigStarsEx False 0 0 = 1 / 1000"
  "sigScatter (\<lambda>_. Some (1 / 20)) sigCfgEx sigParsEx sigStarsEx False 0 2 = 1 / 1000"
  "sigScatter (\<lambda>_. Some (1 / 2)) sigCfgEx sigParsEx sigStarsEx False 0 0 = sqrt (24 / 100)"
  "sigScatter (\<lambda>_. None) sigCfgEx sigParsEx sigStarsEx False 0 0 = 5 / 100"
  by (simp_all add: sigScatter_def Let_def sigEx_selection sigEx_median power2_eq_square)


text \<open>Without the plots the method saves the scatter of the first band and stops.\<close>

lemma sigEx_noPlots:
  "\<exists>s. computeSigFgcm (\<lambda>_. Some (1 / 20)) sigCfgEx sigParsEx sigStarsEx False False True
          = Inl (UnboundLocalError, s)
       \<and> parsSigFgcm s 0 = 1 / 1000"
  using computeSigFgcm_loops [OF sigEx_ready, where histoGauss = "\<lambda>_. Some (1 / 20)"
      and doPlots = False and save = True]
  by (auto simp: sigStarsEx_sel sigEx_selection sigEx_scatter)


section \<open>The chi-squared engine\<close>

subsection \<open>What the phases of a call leave unchanged\<close>

lemma worker_Inl_iff:
  "worker C cfg lay a w job = Inl e \<longleftrightarrow>
     (fitBandIndex lay = [] \<or> snd job = []) \<and> e = EmptyMatchInput"
  by (auto simp: worker_def np_match_def Let_def)

lemma worker_frame:
  assumes "worker C cfg lay a w job = Inr (w1, r)"
  shows "wpars w1 = wpars w" "wchisq w1 = wchisq w"
  using assms by (auto simp: worker_def np_match_def Let_def split: if_splits)

lemma runWorkers_frame:
  "(case runWorkers C cfg lay a w jobs of Inl (e, w') \<Rightarrow> w' | Inr (w', rs) \<Rightarrow> w')
     = v \<Longrightarrow> wpars v = wpars w \<and> wchisq v = wchisq w"
proof (induction jobs arbitrary: w)
  case Nil
  then show ?case by auto
next
  case (Cons job jobs)
  show ?case
  proof (cases "worker C cfg lay a w job")
    case (Inl e)
    with Cons.prems show ?thesis by auto
  next
    case (Inr x)
    obtain w1 r where x: "x = (w1, r)" by (cases x)
    from worker_frame [OF Inr [unfolded x]] have f: "wpars w1 = wpars w" "wchisq w1 = wchisq w" .
    have "(case runWorkers C cfg lay a w1 jobs of Inl (e, w') \<Rightarrow> w' | Inr (w', rs) \<Rightarrow> w') = v"
      using Cons.prems by (auto simp: Inr x split: sum.splits prod.splits)
    from Cons.IH [OF this] f show ?thesis by simp
  qed
qed

lemma worker_allExposures:
  assumes "allExposures a" and "\<not> computeSEDSlopes a"
  shows "worker C cfg lay a w job
         = (if fitBandIndex lay = [] \<or> snd job = [] then Inl EmptyMatchInput
            else Inr (w\<lparr>wstars := writeMagStd C cfg a (wpars w) (wstars w) (snd job)\<rparr>, None))"
  using assms by (simp add: worker_def np_match_def Let_def sedSlopeStep_def)

lemma runWorkers_allExposures:
  assumes "allExposures a" and "\<not> computeSEDSlopes a"
  shows "\<exists>m. runWorkers C cfg lay a w jobs
           = (if workersRun lay jobs then Inr (w\<lparr>wstars := (wstars w)\<lparr>obsMagStd := m\<rparr>\<rparr>, [])
              else Inl (EmptyMatchInput, w\<lparr>wstars := (wstars w)\<lparr>obsMagStd := m\<rparr>\<rparr>))"
proof (induction jobs arbitrary: w)
  case Nil
  have "w = w\<lparr>wstars := (wstars w)\<lparr>obsMagStd := obsMagStd (wstars w)\<rparr>\<rparr>" by simp
  then have "runWorkers C cfg lay a w []
      = Inr (w\<lparr>wstars := (wstars w)\<lparr>obsMagStd := obsMagStd (wstars w)\<rparr>\<rparr>, [])"
    by simp
  then show ?case unfolding workersRun_def by (intro exI [of _ "obsMagStd (wstars w)"]) simp
next
  case (Cons job jobs)
  show ?case
  proof (cases "fitBandIndex lay = [] \<or> snd job = []")
    case True
    have "w = w\<lparr>wstars := (wstars w)\<lparr>obsMagStd := obsMagStd (wstars w)\<rparr>\<rparr>" by simp
    then have "runWorkers C cfg lay a w (job # jobs)
        = Inl (EmptyMatchInput, w\<lparr>wstars := (wstars w)\<lparr>obsMagStd := obsMagStd (wstars w)\<rparr>\<rparr>)"
      using True by (simp add: worker_allExposures [OF assms])
    moreover from True have "\<not> workersRun lay (job # jobs)" by (auto simp: workersRun_def)
    ultimately show ?thesis by (intro exI [of _ "obsMagStd (wstars w)"]) (simp only: if_False)
  next
    case False
    let ?w1 = "w\<lparr>wstars := writeMagStd C cfg a (wpars w) (wstars w) (snd job)\<rparr>"
    obtain m where m: "runWorkers C cfg lay a ?w1 jobs
        = (if workersRun lay jobs then Inr (?w1\<lparr>wstars := (wstars ?w1)\<lparr>obsMagStd := m\<rparr>\<rparr>, [])
           else Inl (EmptyMatchInput, ?w1\<lparr>wstars := (wstars ?w1)\<lparr>obsMagStd := m\<rparr>\<rparr>))"
      using Cons.IH [of ?w1] by blast
    have e: "?w1\<lparr>wstars := (wstars ?w1)\<lparr>obsMagStd := m\<rparr>\<rparr>
             = w\<lparr>wstars := (wstars w)\<lparr>obsMagStd := m\<rparr>\<rparr>"
      by (simp add: writeMagStd_def)
    have r: "workersRun lay (job # jobs) = workersRun lay jobs"
      using False by (simp add: workersRun_def)
    have "runWorkers C cfg lay a w (job # jobs)
        = (if workersRun lay (job # jobs)
           then Inr (w\<lparr>wstars := (wstars w)\<lparr>obsMagStd := m\<rparr>\<rparr>, [])
           else Inl (EmptyMatchInput, w\<lparr>wstars := (wstars w)\<lparr>obsMagStd := m\<rparr>\<rparr>))"
      using False by (simp add: worker_allExposures [OF assms] m r; simp add: writeMagStd_def)
    then show ?thesis by blast
  qed
qed

lemma matching_frame:
  assumes "matching a w goodStars = Inr (w2, sub, gobs)"
  shows "wpars w2 = wpars w" "wstars w2 = wstars w"
    "fitChisqs (wchisq w2) = fitChisqs (wchisq w)"
    "nActualFitPars (wchisq w2) = nActualFitPars (wchisq w)"
  using assms
  by (auto simp: matching_def split: if_splits sum.splits prod.splits)

lemma prepare_Inr_frame:
  assumes "prepare C cfg a w = Inr (w2, jobs)"
  shows "wpars w2 = reloadParArray C (wpars w) (fitParams a) (fitterUnits a)"
    "wstars w2 = (if \<not> allExposures a then resetMeans (wstars w) else wstars w)"
    "fitChisqs (wchisq w2) = fitChisqs (wchisq w)"
    "nActualFitPars (wchisq w2) = nActualFitPars (wchisq w)"
    "\<not> invalidOptions a"
  using assms
  by (auto simp: prepare_def Let_def reloaded_def dest: matching_frame
      split: if_splits sum.splits prod.splits)

lemma prepare_Inl_frame:
  assumes "prepare C cfg a w = Inl (e, w')" and "allExposures a"
  shows "wstars w' = wstars w" "fitChisqs (wchisq w') = fitChisqs (wchisq w)"
    "nActualFitPars (wchisq w') = nActualFitPars (wchisq w)"
  using assms
  by (auto simp: prepare_def Let_def reloaded_def dest: matching_frame
      split: if_splits sum.splits prod.splits)

subsection \<open>Calls with \<open>allExposures\<close>\<close>

lemma finish_allExposures:
  assumes "allExposures a"
  shows "finish lay a w ps
         = Inr (markComputed a w,
                if fitChisqs (wchisq w) = [] then 0 else last (fitChisqs (wchisq w)), None)"
  using assms by (simp add: finish_def)

lemma call_allExposures:
  assumes "allExposures a"
  shows "case call C cfg lay a w of
           Inl (e, w') \<Rightarrow>
             wstars w' = (wstars w)\<lparr> obsMagStd := obsMagStd (wstars w') \<rparr>
             \<and> fitChisqs (wchisq w') = fitChisqs (wchisq w)
             \<and> nActualFitPars (wchisq w') = nActualFitPars (wchisq w)
         | Inr (w', c, g) \<Rightarrow>
             wstars w' = (wstars w)\<lparr> obsMagStd := obsMagStd (wstars w'), magStdComputed := True,
                                      allMagStdComputed := True \<rparr>
             \<and> fitChisqs (wchisq w') = fitChisqs (wchisq w)
             \<and> nActualFitPars (wchisq w') = nActualFitPars (wchisq w)
             \<and> c = (if fitChisqs (wchisq w) = [] then 0 else last (fitChisqs (wchisq w)))
             \<and> g = None \<and> callTrace C cfg lay a w = []"
proof (cases "prepare C cfg a w")
  case (Inl failure)
  obtain e w' where f: "failure = (e, w')" by (cases failure)
  from prepare_Inl_frame [OF Inl [unfolded f] assms] show ?thesis
    by (simp add: call_def Inl f)
next
  case (Inr r)
  obtain w2 jobs where r: "r = (w2, jobs)" by (cases r)
  note fr = prepare_Inr_frame [OF Inr [unfolded r]]
  from fr(5) assms have ns: "\<not> computeSEDSlopes a" by (simp add: invalidOptions_def)
  obtain m where m: "runWorkers C cfg lay a w2 jobs
      = (if workersRun lay jobs then Inr (w2\<lparr>wstars := (wstars w2)\<lparr>obsMagStd := m\<rparr>\<rparr>, [])
         else Inl (EmptyMatchInput, w2\<lparr>wstars := (wstars w2)\<lparr>obsMagStd := m\<rparr>\<rparr>))"
    using runWorkers_allExposures [OF assms ns] by blast
  show ?thesis
  proof (cases "workersRun lay jobs")
    case True
    with m have "runWorkers C cfg lay a w2 jobs
        = Inr (w2\<lparr>wstars := (wstars w2)\<lparr>obsMagStd := m\<rparr>\<rparr>, [])" by simp
    then show ?thesis
      using assms fr(2,3,4)
      by (simp add: call_def Inr r finish_allExposures markComputed_def callTrace_def)
  next
    case False
    with m have "runWorkers C cfg lay a w2 jobs
        = Inl (EmptyMatchInput, w2\<lparr>wstars := (wstars w2)\<lparr>obsMagStd := m\<rparr>\<rparr>)" by simp
    then show ?thesis
      using assms fr(2,3,4) by (simp add: call_def Inr r)
  qed
qed

subsection \<open>The small catalogue: selection, match and jobs\<close>

lemma chisqStarsEx_sel:
  "nStars chisqStarsEx = 2" "nStarObs chisqStarsEx = 4"
  "objFlag chisqStarsEx = (\<lambda>_. 0)" "objSEDSlope chisqStarsEx = (\<lambda>_. 0)"
  "obsObjIDIndex chisqStarsEx = (\<lambda>i. if i < 2 then 0 else 1)"
  "obsExpIndex chisqStarsEx = (\<lambda>i. if i = 0 \<or> i = 2 then 0 else 1)"
  "obsBandIndex chisqStarsEx = (\<lambda>_. 0)" "obsLUTFilterIndex chisqStarsEx = (\<lambda>_. 0)"
  "obsCCD chisqStarsEx = (\<lambda>_. 1)" "obsFlag chisqStarsEx = (\<lambda>_. 0)"
  "obsSecZenith chisqStarsEx = (\<lambda>i. if i = 2 then 3 else 1)"
  "obsMagADU chisqStarsEx
     = (\<lambda>i. if i = 0 then 1 else if i = 1 then - 1 else if i = 2 then 3 else - 3)"
  "obsMagADUModelErr chisqStarsEx = (\<lambda>_. 1)" "obsMagStd chisqStarsEx = (\<lambda>_. 0)"
  "objMagStdMean chisqStarsEx = (\<lambda>_. 5)" "objMagStdMeanNoChrom chisqStarsEx = (\<lambda>_. 5)"
  "objMagStdMeanErr chisqStarsEx = (\<lambda>_. 5)"
  by (simp_all add: chisqStarsEx_def)

lemma chisqWorldEx_sel:
  "wpars chisqWorldEx = chisqParsEx" "wstars chisqWorldEx = chisqStarsEx"
  "fitChisqs (wchisq chisqWorldEx) = [3, 7]" "nActualFitPars (wchisq chisqWorldEx) = 2"
  "matchesCached (wchisq chisqWorldEx) = False"
  by (simp_all add: chisqWorldEx_def)

lemma chisqCfgEx_sel:
  "ccdStartIndex chisqCfgEx = 1" "illegalValue chisqCfgEx = - 9999" "nStarPerRun chisqCfgEx = 2"
  "noChromaticCorrections chisqCfgEx = False" "I10StdBand chisqCfgEx = (\<lambda>_. 0)"
  "useSedLUT chisqCfgEx = False" "exposureRetrieved chisqCfgEx = 1"
  by (simp_all add: chisqCfgEx_def)

lemma chisqParsEx_sel:
  "expFlag chisqParsEx = (\<lambda>_. 0)" "expPWV chisqParsEx = (\<lambda>_. 0)" "expO3 chisqParsEx = (\<lambda>_. 0)"
  "expLnTau chisqParsEx = (\<lambda>_. 0)" "expTau chisqParsEx = (\<lambda>_. 1)"
  "expAlpha chisqParsEx = (\<lambda>_. 0)" "expPmb chisqParsEx = (\<lambda>_. 0)"
  "expQESys chisqParsEx = (\<lambda>_. 0)" "expMJD chisqParsEx = (\<lambda>_. 0)"
  "expDeltaUT chisqParsEx = (\<lambda>_. 0)"
  "expNightIndex chisqParsEx = (\<lambda>e. if e = 0 then 0 else 1)"
  "expWashIndex chisqParsEx = (\<lambda>_. 0)" "externalPWVFlag chisqParsEx = (\<lambda>_. False)"
  "externalTauFlag chisqParsEx = (\<lambda>_. False)" "compRetrievedPWVFlag chisqParsEx = (\<lambda>_. 0)"
  "washMJDs chisqParsEx = (\<lambda>_. 0)"
  by (simp_all add: chisqParsEx_def)

lemma chisqCollabEx_sel:
  "reloadParArray chisqCollabEx = (\<lambda>p v u. p)"
  "computeI0 chisqCollabEx = (\<lambda>_. 1)" "computeI1 chisqCollabEx = (\<lambda>_. 0)"
  "computeLogDerivatives chisqCollabEx
     = (\<lambda>args _. (0, fst (snd (snd (snd (snd (snd args))))), 1, 0))"
  "hasI1Derivatives chisqCollabEx = False"
  "o3Unit (getUnitDict chisqCollabEx u) = 1" "alphaUnit (getUnitDict chisqCollabEx u) = 1"
  "pwvUnit (getUnitDict chisqCollabEx u) = 1" "pwvPerSlopeUnit (getUnitDict chisqCollabEx u) = 1"
  "lnTauUnit (getUnitDict chisqCollabEx u) = 1" "lnTauSlopeUnit (getUnitDict chisqCollabEx u) = 1"
  "qeSysUnit (getUnitDict chisqCollabEx u) = 1" "qeSysSlopeUnit (getUnitDict chisqCollabEx u) = 1"
  by (simp_all add: chisqCollabEx_def)

lemma upt_2_4: "[0..<2] = [0, 1]" "[0..<4] = [0, 1, 2, 3]"
  by (simp_all add: upt_rec)

lemma chisqEx_reloaded_sel:
  "wpars (reloaded chisqCollabEx a chisqWorldEx) = chisqParsEx"
  "wchisq (reloaded chisqCollabEx a chisqWorldEx) = wchisq chisqWorldEx"
  "wstars (reloaded chisqCollabEx a chisqWorldEx)
     = (if \<not> allExposures a then resetMeans chisqStarsEx else chisqStarsEx)"
  by (simp_all add: reloaded_def chisqWorldEx_sel chisqCollabEx_sel)

lemma resetMeans_sel:
  "nStars (resetMeans st) = nStars st" "nStarObs (resetMeans st) = nStarObs st"
  "objFlag (resetMeans st) = objFlag st" "obsObjIDIndex (resetMeans st) = obsObjIDIndex st"
  "obsExpIndex (resetMeans st) = obsExpIndex st" "obsFlag (resetMeans st) = obsFlag st"
  "obsBandIndex (resetMeans st) = obsBandIndex st"
  by (simp_all add: resetMeans_def)

lemma chisqEx_goodStars:
  assumes "\<not> includeReserve a"
  shows "chisqGoodStars chisqCfgEx a (wstars (reloaded chisqCollabEx a chisqWorldEx))
         = [0, Suc 0]"
  using assms
  by (simp add: chisqGoodStars_def chisqEx_reloaded_sel resetMeans_sel chisqStarsEx_sel upt_2_4)

lemma chisqEx_preMatch:
  "preMatch a chisqParsEx (wstars (reloaded chisqCollabEx a chisqWorldEx)) [0, Suc 0]
   = Inr ([0, 0, Suc 0, Suc 0], [0, Suc 0, 2, 3])"
  by (simp add: preMatch_def np_match_def match_sub1_def match_sub2_def chisqEx_reloaded_sel resetMeans_sel
      chisqStarsEx_sel chisqParsEx_sel upt_2_4 Let_def)

lemma chisqEx_prepare:
  assumes "\<not> includeReserve a" and "\<not> invalidOptions a" and "\<not> useMatchCache a" and "debug a"
  shows "prepare chisqCollabEx chisqCfgEx a chisqWorldEx
         = Inr (reloaded chisqCollabEx a chisqWorldEx, [([0, 1], [0, 1, 2, 3])])"
  using assms
  by (simp add: prepare_def Let_def chisqEx_goodStars matching_def chisqEx_reloaded_sel(1)
      chisqEx_preMatch workerList_def)

lemma call_allExposures_Inr:
  assumes "prepare C cfg a w = Inr (w2, jobs)" and "allExposures a" and "workersRun lay jobs"
  shows "\<exists>w' c g. call C cfg lay a w = Inr (w', c, g)"
proof -
  from prepare_Inr_frame(5) [OF assms(1)] assms(2) have ns: "\<not> computeSEDSlopes a"
    by (simp add: invalidOptions_def)
  obtain m where "runWorkers C cfg lay a w2 jobs
                  = Inr (w2\<lparr>wstars := (wstars w2)\<lparr>obsMagStd := m\<rparr>\<rparr>, [])"
    using runWorkers_allExposures [OF assms(2) ns, where C = C and cfg = cfg and lay = lay
        and w = w2 and jobs = jobs] assms(3)
    by auto
  then show ?thesis
    by (simp add: call_def assms(1) finish_allExposures [OF assms(2)])
qed

lemma chisqLayEx_sel: "fitBandIndex chisqLayEx = [0]" "nFitPars chisqLayEx = 14"
  by (simp_all add: chisqLayEx_def)

lemma chisqArgsEx_sel:
  "includeReserve chisqArgsEx = False" "useMatchCache chisqArgsEx = False"
  "debug chisqArgsEx = True" "allExposures chisqArgsEx = False"
  "computeDerivatives chisqArgsEx = False" "computeSEDSlopes chisqArgsEx = False"
  "fitterUnits chisqArgsEx = False" "fgcmGray chisqArgsEx = None"
  by (simp_all add: chisqArgsEx_def)

lemma chisqEx_allExposures_Inr:
  "\<exists>w' c g. call chisqCollabEx chisqCfgEx chisqLayEx (chisqArgsEx\<lparr>allExposures := True\<rparr>)
              chisqWorldEx = Inr (w', c, g)"
  by (rule call_allExposures_Inr [OF chisqEx_prepare])
     (simp_all add: chisqArgsEx_sel invalidOptions_def workersRun_def chisqLayEx_sel)

text \<open>
  Claim C10.  With \<open>allExposures = True\<close>, the chi-squared that \<open>__call__\<close> returns is not
  computed from the evaluation at hand, of which no worker delivers partial sums: it is the
  last element of the history of chi-squared values, which the call leaves as it is, and
  0 when the history is empty.
\<close>

theorem allExposures_returns_history:
  assumes "call C cfg lay a w = Inr (w', c, g)" and "allExposures a"
  shows "c = (if fitChisqs (wchisq w) = [] then 0 else last (fitChisqs (wchisq w)))
         \<and> callTrace C cfg lay a w = []
         \<and> fitChisqs (wchisq w') = fitChisqs (wchisq w)"
  using call_allExposures [OF assms(2), where C = C and cfg = cfg and lay = lay and w = w] assms(1) by simp

theorem allExposures_returns_history_witness:
  "\<exists>w' g. call chisqCollabEx chisqCfgEx chisqLayEx (chisqArgsEx\<lparr>allExposures := True\<rparr>)
             chisqWorldEx = Inr (w', 7, g)
           \<and> fitChisqs (wchisq w') = [3, 7]"
proof -
  obtain w' c g where r: "call chisqCollabEx chisqCfgEx chisqLayEx
      (chisqArgsEx\<lparr>allExposures := True\<rparr>) chisqWorldEx = Inr (w', c, g)"
    using chisqEx_allExposures_Inr by blast
  have "allExposures (chisqArgsEx\<lparr>allExposures := True\<rparr>)" by simp
  from allExposures_returns_history [OF r this]
  have "c = 7" "fitChisqs (wchisq w') = [3, 7]" by (simp_all add: chisqWorldEx_sel)
  with r show ?thesis by blast
qed

text \<open>
  Claim C9.  With \<open>allExposures = True\<close>, a call of \<open>__call__\<close> leaves the mean standardised
  magnitudes of the objects (with and without chromatic correction) and their errors
  unchanged: of the star store it writes the standardised magnitudes of the observations
  and the two flags that record that they exist, and nothing else.  No worker delivers
  partial sums, no derivatives are returned, and the number of fitted parameters stays.
  A call that fails has changed nothing of the star store but standardised magnitudes of
  observations.
\<close>

theorem allExposures_keeps_means:
  assumes "allExposures a"
  shows "case call C cfg lay a w of
           Inl (e, w') \<Rightarrow>
             objMagStdMean (wstars w') = objMagStdMean (wstars w)
             \<and> objMagStdMeanNoChrom (wstars w') = objMagStdMeanNoChrom (wstars w)
             \<and> objMagStdMeanErr (wstars w') = objMagStdMeanErr (wstars w)
             \<and> wstars w' = (wstars w)\<lparr> obsMagStd := obsMagStd (wstars w') \<rparr>
         | Inr (w', c, g) \<Rightarrow>
             objMagStdMean (wstars w') = objMagStdMean (wstars w)
             \<and> objMagStdMeanNoChrom (wstars w') = objMagStdMeanNoChrom (wstars w)
             \<and> objMagStdMeanErr (wstars w') = objMagStdMeanErr (wstars w)
             \<and> wstars w' = (wstars w)\<lparr> obsMagStd := obsMagStd (wstars w'),
                                        magStdComputed := True, allMagStdComputed := True \<rparr>
             \<and> callTrace C cfg lay a w = [] \<and> g = None
             \<and> nActualFitPars (wchisq w') = nActualFitPars (wchisq w)"
proof (cases "call C cfg lay a w")
  case (Inl failure)
  obtain e w' where f: "failure = (e, w')" by (cases failure)
  from call_allExposures [OF assms, where C = C and cfg = cfg and lay = lay and w = w]
  have eq: "wstars w' = (wstars w)\<lparr> obsMagStd := obsMagStd (wstars w') \<rparr>"
    by (simp add: Inl f)
  have "objMagStdMean (wstars w') = objMagStdMean (wstars w)"
    "objMagStdMeanNoChrom (wstars w') = objMagStdMeanNoChrom (wstars w)"
    "objMagStdMeanErr (wstars w') = objMagStdMeanErr (wstars w)"
    by (subst eq, simp)+
  with eq show ?thesis by (simp add: Inl f)
next
  case (Inr r)
  obtain w' c g where r: "r = (w', c, g)" by (cases r)
  from call_allExposures [OF assms, where C = C and cfg = cfg and lay = lay and w = w]
  have eq: "wstars w' = (wstars w)\<lparr> obsMagStd := obsMagStd (wstars w'), magStdComputed := True,
                                     allMagStdComputed := True \<rparr>"
    and rest: "callTrace C cfg lay a w = []" "g = None"
      "nActualFitPars (wchisq w') = nActualFitPars (wchisq w)"
    by (simp_all add: Inr r)
  have "objMagStdMean (wstars w') = objMagStdMean (wstars w)"
    "objMagStdMeanNoChrom (wstars w') = objMagStdMeanNoChrom (wstars w)"
    "objMagStdMeanErr (wstars w') = objMagStdMeanErr (wstars w)"
    by (subst eq, simp)+
  with eq rest show ?thesis by (simp add: Inr r)
qed

theorem allExposures_keeps_means_witness:
  "case call chisqCollabEx chisqCfgEx chisqLayEx (chisqArgsEx\<lparr>allExposures := True\<rparr>)
          chisqWorldEx of
     Inl failure \<Rightarrow> False
   | Inr (w', c, g) \<Rightarrow>
       objMagStdMean (wstars w') = (\<lambda>_. 5) \<and> objMagStdMeanNoChrom (wstars w') = (\<lambda>_. 5)
       \<and> objMagStdMeanErr (wstars w') = (\<lambda>_. 5) \<and> g = None
       \<and> nActualFitPars (wchisq w') = 2"
proof -
  obtain w' c g where r: "call chisqCollabEx chisqCfgEx chisqLayEx
      (chisqArgsEx\<lparr>allExposures := True\<rparr>) chisqWorldEx = Inr (w', c, g)"
    using chisqEx_allExposures_Inr by blast
  have "allExposures (chisqArgsEx\<lparr>allExposures := True\<rparr>)" by simp
  from allExposures_keeps_means [OF this, where C = chisqCollabEx and cfg = chisqCfgEx
      and lay = chisqLayEx and w = chisqWorldEx]
  show ?thesis by (simp add: r chisqWorldEx_sel chisqStarsEx_sel)
qed

subsection \<open>The failures of a call\<close>

lemma finish_Inl_iff:
  "finish lay a w ps = Inl (e, w') \<longleftrightarrow>
     \<not> allExposures a \<and> fitDOF lay a w ps \<le> 0 \<and> e = TooManyParameters
     \<and> w' = w\<lparr>wchisq := (wchisq w)\<lparr>nActualFitPars := activePars lay a w ps\<rparr>\<rparr>"
  by (auto simp: finish_def Let_def)

lemma runWorkers_Inl:
  assumes "runWorkers C cfg lay a w jobs = Inl (e, w')"
  shows "e = EmptyMatchInput"
  using assms
proof (induction jobs arbitrary: w)
  case Nil
  then show ?case by simp
next
  case (Cons job jobs)
  show ?case
  proof (cases "worker C cfg lay a w job")
    case (Inl e1)
    with Cons.prems show ?thesis by (auto simp: worker_Inl_iff)
  next
    case (Inr x)
    obtain w1 r where x: "x = (w1, r)" by (cases x)
    from Cons.prems have "runWorkers C cfg lay a w1 jobs = Inl (e, w')"
      by (auto simp: Inr x split: sum.splits prod.splits)
    then show ?thesis by (rule Cons.IH)
  qed
qed

lemma call_Inl_iff:
  "call C cfg lay a w = Inl (e, w') \<longleftrightarrow>
     prepare C cfg a w = Inl (e, w')
     \<or> (\<exists>w2 jobs. prepare C cfg a w = Inr (w2, jobs)
          \<and> (runWorkers C cfg lay a w2 jobs = Inl (e, w')
              \<or> (\<exists>w3 rs. runWorkers C cfg lay a w2 jobs = Inr (w3, rs)
                    \<and> finish lay a w3 (sumArrays rs) = Inl (e, w'))))"
  by (auto simp: call_def split: sum.splits prod.splits)

lemma prepare_explicit:
  "prepare C cfg a w \<noteq> Inl (TooManyParameters, w')"
  by (auto simp: prepare_def Let_def matching_def preMatch_def np_match_def workerList_def
      split: if_splits sum.splits prod.splits)

lemma runWorkers_explicit:
  "runWorkers C cfg lay a w jobs \<noteq> Inl (TooManyParameters, w')"
  "runWorkers C cfg lay a w jobs \<noteq> Inl (InvalidOptions, w')"
  "runWorkers C cfg lay a w jobs \<noteq> Inl (NoGoodStars, w')"
  "runWorkers C cfg lay a w jobs \<noteq> Inl (StrangeFirstElement, w')"
  using runWorkers_Inl [of C cfg lay a w jobs _ w'] by auto

lemma call_TooManyParameters_iff:
  "(\<exists>w'. call C cfg lay a w = Inl (TooManyParameters, w')) \<longleftrightarrow> nonPositiveDOF C cfg lay a w"
  by (auto simp: call_Inl_iff prepare_explicit runWorkers_explicit finish_Inl_iff
      nonPositiveDOF_def callDOF_def split: sum.splits prod.splits)

lemma reloaded_sel:
  "wchisq (reloaded C a w) = wchisq w"
  "obsObjIDIndex (wstars (reloaded C a w)) = obsObjIDIndex (wstars w)"
  "nStarObs (wstars (reloaded C a w)) = nStarObs (wstars w)"
  by (simp_all add: reloaded_def resetMeans_def)

lemma finish_explicit:
  "finish lay a w ps \<noteq> Inl (InvalidOptions, w')" "finish lay a w ps \<noteq> Inl (NoGoodStars, w')"
  "finish lay a w ps \<noteq> Inl (StrangeFirstElement, w')"
  by (simp_all add: finish_Inl_iff)

lemma match_sub1_empty: "match_sub1 arr1 arr2 [] = []"
  by (simp add: match_sub1_def match_sub2_def)

lemma call_InvalidOptions_iff:
  "call C cfg lay a w = Inl (InvalidOptions, w') \<longleftrightarrow> invalidOptions a \<and> w' = w"
  by (auto simp: call_Inl_iff finish_explicit runWorkers_explicit prepare_def Let_def
      matching_def preMatch_def np_match_def workerList_def
      split: if_splits sum.splits prod.splits)

lemma call_NoGoodStars_iff:
  "(\<exists>w'. call C cfg lay a w = Inl (NoGoodStars, w')) \<longleftrightarrow>
     \<not> invalidOptions a \<and> callGoodStars C cfg a w = []"
  by (auto simp: call_Inl_iff finish_explicit runWorkers_explicit prepare_def Let_def
      matching_def preMatch_def np_match_def workerList_def callGoodStars_def
      split: if_splits sum.splits prod.splits)

lemma call_StrangeFirstElement_iff:
  "(\<exists>w'. call C cfg lay a w = Inl (StrangeFirstElement, w')) \<longleftrightarrow>
     \<not> invalidOptions a \<and> callGoodStars C cfg a w \<noteq> [] \<and> firstPairStrange C cfg a w"
  by (auto simp: call_Inl_iff finish_explicit runWorkers_explicit prepare_def Let_def
      matching_def preMatch_def np_match_def match_sub1_empty workerList_def callGoodStars_def
      firstPairStrange_def reloaded_sel
      split: if_splits sum.splits prod.splits list.splits)

lemma chisqWorldStrange_sel:
  "matchesCached (wchisq chisqWorldStrange) = False"
  "nStars (wstars chisqWorldStrange) = 2" "nStarObs (wstars chisqWorldStrange) = 4"
  "objFlag (wstars chisqWorldStrange) = (\<lambda>_. 0)"
  "obsObjIDIndex (wstars chisqWorldStrange) = (\<lambda>_. 1)"
  by (simp_all add: chisqWorldStrange_def chisqWorldEx_def chisqStarsEx_def)

lemma chisqStrange_goodStars:
  "callGoodStars chisqCollabEx chisqCfgEx chisqArgsEx chisqWorldStrange = [0, Suc 0]"
  by (simp add: callGoodStars_def chisqGoodStars_def reloaded_def resetMeans_def
      chisqArgsEx_sel chisqWorldStrange_sel upt_2_4)

lemma chisqStrange_firstPair:
  "firstPairStrange chisqCollabEx chisqCfgEx chisqArgsEx chisqWorldStrange"
  by (simp add: firstPairStrange_def chisqStrange_goodStars chisqArgsEx_sel
      chisqWorldStrange_sel match_sub1_def match_sub2_def upt_2_4)

lemma chisqStrange_call:
  "\<exists>v. call chisqCollabEx chisqCfgEx chisqLayEx chisqArgsEx chisqWorldStrange
        = Inl (StrangeFirstElement, v)"
  by (simp add: call_StrangeFirstElement_iff chisqStrange_goodStars chisqStrange_firstPair
      invalidOptions_def chisqArgsEx_sel)

text \<open>The claim as stated names three conditions only.  On the catalogue whose first good
  star has no observation, the call raises although none of the three holds.\<close>

theorem call_raises_counterexample:
  "isl (call chisqCollabEx chisqCfgEx chisqLayEx chisqArgsEx chisqWorldStrange)
   \<and> \<not> claimedRaiseCondition chisqCollabEx chisqCfgEx chisqLayEx chisqArgsEx chisqWorldStrange"
proof -
  obtain v where c: "call chisqCollabEx chisqCfgEx chisqLayEx chisqArgsEx chisqWorldStrange
                     = Inl (StrangeFirstElement, v)"
    using chisqStrange_call by blast
  then have "\<not> nonPositiveDOF chisqCollabEx chisqCfgEx chisqLayEx chisqArgsEx chisqWorldStrange"
    by (simp add: call_TooManyParameters_iff [symmetric])
  with c show ?thesis
    by (simp add: claimedRaiseCondition_def chisqStrange_goodStars invalidOptions_def
        chisqArgsEx_sel)
qed

text \<open>
  Claim C3, amended.  \<open>__call__\<close> raises one of its explicit errors exactly as follows: the
  invalid-argument error if and only if \<open>allExposures\<close> is set together with
  \<open>computeDerivatives\<close> or \<open>computeSEDSlopes\<close>, and then the state is the one it was called
  in; the no-data error if and only if the options are valid and no object passes the flag
  selection; the error on the first pair of the match if and only if the options are
  valid, some object is selected, the match is computed afresh and its first pair does not
  refer to the first selected object; the error on the degrees of freedom if and only if
  the call computes them and they are not positive.  So it raises one of the four if and
  only if one of these four conditions holds.  A failure is returned at once: nothing is
  tried again.
\<close>

theorem call_explicit_errors:
  "(call C cfg lay a w = Inl (InvalidOptions, w') \<longleftrightarrow> invalidOptions a \<and> w' = w)
   \<and> ((\<exists>v. call C cfg lay a w = Inl (NoGoodStars, v)) \<longleftrightarrow>
          \<not> invalidOptions a \<and> callGoodStars C cfg a w = [])
   \<and> ((\<exists>v. call C cfg lay a w = Inl (StrangeFirstElement, v)) \<longleftrightarrow>
          \<not> invalidOptions a \<and> callGoodStars C cfg a w \<noteq> [] \<and> firstPairStrange C cfg a w)
   \<and> ((\<exists>v. call C cfg lay a w = Inl (TooManyParameters, v)) \<longleftrightarrow>
          nonPositiveDOF C cfg lay a w)
   \<and> ((\<exists>e v. call C cfg lay a w = Inl (e, v)
              \<and> e \<in> {InvalidOptions, NoGoodStars, StrangeFirstElement, TooManyParameters}) \<longleftrightarrow>
          invalidOptions a \<or> callGoodStars C cfg a w = [] \<or> firstPairStrange C cfg a w
          \<or> nonPositiveDOF C cfg lay a w)"
proof -
  have i: "call C cfg lay a w = Inl (InvalidOptions, v) \<longleftrightarrow> invalidOptions a \<and> v = w" for v
    by (rule call_InvalidOptions_iff)
  have n: "(\<exists>v. call C cfg lay a w = Inl (NoGoodStars, v)) \<longleftrightarrow>
          \<not> invalidOptions a \<and> callGoodStars C cfg a w = []"
    by (rule call_NoGoodStars_iff)
  have s: "(\<exists>v. call C cfg lay a w = Inl (StrangeFirstElement, v)) \<longleftrightarrow>
          \<not> invalidOptions a \<and> callGoodStars C cfg a w \<noteq> [] \<and> firstPairStrange C cfg a w"
    by (rule call_StrangeFirstElement_iff)
  have t: "(\<exists>v. call C cfg lay a w = Inl (TooManyParameters, v)) \<longleftrightarrow>
          nonPositiveDOF C cfg lay a w"
    by (rule call_TooManyParameters_iff)
  have "(\<exists>e v. call C cfg lay a w = Inl (e, v)
              \<and> e \<in> {InvalidOptions, NoGoodStars, StrangeFirstElement, TooManyParameters}) \<longleftrightarrow>
        (\<exists>v. call C cfg lay a w = Inl (InvalidOptions, v))
        \<or> (\<exists>v. call C cfg lay a w = Inl (NoGoodStars, v))
        \<or> (\<exists>v. call C cfg lay a w = Inl (StrangeFirstElement, v))
        \<or> (\<exists>v. call C cfg lay a w = Inl (TooManyParameters, v))"
    by auto
  also have "\<dots> \<longleftrightarrow> invalidOptions a
        \<or> (\<not> invalidOptions a \<and> callGoodStars C cfg a w = [])
        \<or> (\<not> invalidOptions a \<and> callGoodStars C cfg a w \<noteq> [] \<and> firstPairStrange C cfg a w)
        \<or> nonPositiveDOF C cfg lay a w"
    by (simp only: i n s t simp_thms ex_simps)
  also have "\<dots> \<longleftrightarrow> invalidOptions a \<or> callGoodStars C cfg a w = []
        \<or> firstPairStrange C cfg a w \<or> nonPositiveDOF C cfg lay a w"
    by (cases "invalidOptions a"; cases "callGoodStars C cfg a w = []") simp_all
  finally have c: "(\<exists>e v. call C cfg lay a w = Inl (e, v)
              \<and> e \<in> {InvalidOptions, NoGoodStars, StrangeFirstElement, TooManyParameters}) \<longleftrightarrow>
          invalidOptions a \<or> callGoodStars C cfg a w = [] \<or> firstPairStrange C cfg a w
          \<or> nonPositiveDOF C cfg lay a w" .
  show ?thesis
    by (intro conjI) (rule i, rule n, rule s, rule t, rule c)
qed

theorem call_explicit_errors_witness:
  "(\<exists>v. call chisqCollabEx chisqCfgEx chisqLayEx chisqArgsEx chisqWorldStrange
          = Inl (StrangeFirstElement, v))
   \<and> call chisqCollabEx chisqCfgEx chisqLayEx
        (chisqArgsEx\<lparr>allExposures := True, computeDerivatives := True\<rparr>) chisqWorldEx
      = Inl (InvalidOptions, chisqWorldEx)"
proof -
  have 1: "\<not> invalidOptions chisqArgsEx"
    by (simp add: invalidOptions_def chisqArgsEx_sel)
  have 2: "invalidOptions (chisqArgsEx\<lparr>allExposures := True, computeDerivatives := True\<rparr>)"
    by (simp add: invalidOptions_def)
  have 3: "callGoodStars chisqCollabEx chisqCfgEx chisqArgsEx chisqWorldStrange \<noteq> []"
    by (simp add: chisqStrange_goodStars)
  note t1 = call_explicit_errors [where C = chisqCollabEx and cfg = chisqCfgEx
      and lay = chisqLayEx and a = chisqArgsEx and w = chisqWorldStrange]
  note t2 = call_explicit_errors [where C = chisqCollabEx and cfg = chisqCfgEx
      and lay = chisqLayEx
      and a = "chisqArgsEx\<lparr>allExposures := True, computeDerivatives := True\<rparr>"
      and w = chisqWorldEx and w' = chisqWorldEx]
  have a: "\<exists>v. call chisqCollabEx chisqCfgEx chisqLayEx chisqArgsEx chisqWorldStrange
               = Inl (StrangeFirstElement, v)"
    by (rule iffD2 [OF t1 [THEN conjunct2, THEN conjunct2, THEN conjunct1]])
       (simp add: 1 3 chisqStrange_firstPair)
  have b: "call chisqCollabEx chisqCfgEx chisqLayEx
        (chisqArgsEx\<lparr>allExposures := True, computeDerivatives := True\<rparr>) chisqWorldEx
      = Inl (InvalidOptions, chisqWorldEx)"
    by (rule iffD2 [OF t2 [THEN conjunct1]]) (simp add: 2)
  from a b show ?thesis by (rule conjI)
qed

subsection \<open>The gradient on the small catalogue\<close>

lemma multiply_at_app:
  fixes a :: "'k \<Rightarrow> 'v::comm_monoid_mult"
  shows "multiply_at a key val xs k = a k * prod_list (map val (filter (\<lambda>i. key i = k) xs))"
proof (induction xs arbitrary: a)
  case Nil
  show ?case by (simp add: multiply_at_def)
next
  case (Cons x xs)
  have "multiply_at a key val (x # xs) k
        = multiply_at (a(key x := a (key x) * val x)) key val xs k"
    by (simp only: multiply_at_def fold_Cons comp_apply)
  also have "\<dots> = (a(key x := a (key x) * val x)) k
                   * prod_list (map val (filter (\<lambda>i. key i = k) xs))"
    by (rule Cons.IH)
  also have "\<dots> = a k * prod_list (map val (filter (\<lambda>i. key i = k) (x # xs)))"
    by (simp add: mult.assoc)
  finally show ?case .
qed

lemma magdLd_app:
  "magdLd key val L sel k =
     sum_list (map (\<lambda>i. val i / err2GO L i) (filter (\<lambda>i. key i = k) sel))
     * prod_list (map (meanErr2GO L) (filter (\<lambda>i. key i = k) sel))"
  by (simp add: magdLd_def multiply_at_app add_at_app)

lemma familyUpdate_app:
  "familyUpdate pa nfit loc idx term sel scaleIdx c touchIdx k =
     (if k \<in> (\<lambda>n. nfit + loc + n) ` set touchIdx then 1 else 0)
     + (if k \<in> (\<lambda>n. loc + n) ` set scaleIdx then c else 1)
       * (pa k + sum_list (map term (filter (\<lambda>i. loc + idx i = k) sel)))"
  by (simp add: familyUpdate_def iadd_at_def imul_at_def add_at_app)

lemma worker_derivatives:
  assumes "computeDerivatives a" and "\<not> allExposures a" and "\<not> computeSEDSlopes a"
    and "fitBandIndex lay \<noteq> []" and "snd job \<noteq> []"
  shows "worker C cfg lay a w job =
     Inr (w\<lparr>wstars := meanMags C cfg a (wpars w)
                         (writeMagStd C cfg a (wpars w) (wstars w) (snd job)) (snd job)\<rparr>,
          Some (workerDerivatives cfg lay (wpars w) (getUnitDict C (fitterUnits a))
                  (workerLocalsOf C cfg lay (wpars w)
                     (meanMags C cfg a (wpars w)
                        (writeMagStd C cfg a (wpars w) (wstars w) (snd job)) (snd job))
                     (snd job))
                  ((\<lambda>_. 0)
                     (nSums lay a - 2 :=
                        partialChisq lay
                          (meanMags C cfg a (wpars w)
                             (writeMagStd C cfg a (wpars w) (wstars w) (snd job)) (snd job))
                          (snd job),
                      nSums lay a - 1 :=
                        real (length (obsFitUseGO lay
                          (meanMags C cfg a (wpars w)
                             (writeMagStd C cfg a (wpars w) (wstars w) (snd job)) (snd job))
                          (snd job)))))))"
  using assms by (simp add: worker_def np_match_def Let_def sedSlopeStep_def)


lemma chisqArgsDeriv_sel:
  "computeDerivatives chisqArgsDeriv = True" "allExposures chisqArgsDeriv = False"
  "computeSEDSlopes chisqArgsDeriv = False" "fitterUnits chisqArgsDeriv = False"
  "fgcmGray chisqArgsDeriv = None"
  by (simp_all add: chisqArgsDeriv_def chisqArgsEx_def)

lemma resetMeans_more:
  "obsMagADU (resetMeans st) = obsMagADU st"
  "obsMagADUModelErr (resetMeans st) = obsMagADUModelErr st"
  "obsSecZenith (resetMeans st) = obsSecZenith st"
  "obsLUTFilterIndex (resetMeans st) = obsLUTFilterIndex st"
  "obsCCD (resetMeans st) = obsCCD st" "objSEDSlope (resetMeans st) = objSEDSlope st"
  "obsMagStd (resetMeans st) = obsMagStd st"
  "objMagStdMean (resetMeans st) = (\<lambda>_. 99)" "objMagStdMeanErr (resetMeans st) = (\<lambda>_. 99)"
  "objMagStdMeanNoChrom (resetMeans st) = (\<lambda>_. 99)"
  by (simp_all add: resetMeans_def)

lemma chisqEx_magStd:
  "obsMagStd (writeMagStd chisqCollabEx chisqCfgEx chisqArgsDeriv chisqParsEx
                (resetMeans chisqStarsEx) [0, Suc 0, 2, 3])
   = (\<lambda>i. if i = 0 then 1 else if i = Suc 0 then - 1 else if i = 2 then 3
           else if i = 3 then - 3 else 0)"
  by (rule ext)
     (simp add: writeMagStd_def obsMagGO_def deltaStdGO_def I0GO_def I10GO_def Let_def objKey_def
      resetMeans_sel resetMeans_more chisqStarsEx_sel chisqCollabEx_sel chisqCfgEx_sel
      chisqParsEx_sel chisqArgsDeriv_sel)

lemma writeMagStd_sel:
  "obsObjIDIndex (writeMagStd C cfg a p st gobs) = obsObjIDIndex st"
  "obsBandIndex (writeMagStd C cfg a p st gobs) = obsBandIndex st"
  "obsExpIndex (writeMagStd C cfg a p st gobs) = obsExpIndex st"
  "obsMagADUModelErr (writeMagStd C cfg a p st gobs) = obsMagADUModelErr st"
  "obsSecZenith (writeMagStd C cfg a p st gobs) = obsSecZenith st"
  "obsLUTFilterIndex (writeMagStd C cfg a p st gobs) = obsLUTFilterIndex st"
  "obsCCD (writeMagStd C cfg a p st gobs) = obsCCD st"
  "objMagStdMean (writeMagStd C cfg a p st gobs) = objMagStdMean st"
  "objMagStdMeanErr (writeMagStd C cfg a p st gobs) = objMagStdMeanErr st"
  "objSEDSlope (writeMagStd C cfg a p st gobs) = objSEDSlope st"
  by (simp_all add: writeMagStd_def)

lemma meanMags_sel:
  "obsObjIDIndex (meanMags C cfg a p st gobs) = obsObjIDIndex st"
  "obsBandIndex (meanMags C cfg a p st gobs) = obsBandIndex st"
  "obsExpIndex (meanMags C cfg a p st gobs) = obsExpIndex st"
  "obsMagADUModelErr (meanMags C cfg a p st gobs) = obsMagADUModelErr st"
  "obsSecZenith (meanMags C cfg a p st gobs) = obsSecZenith st"
  "obsLUTFilterIndex (meanMags C cfg a p st gobs) = obsLUTFilterIndex st"
  "obsCCD (meanMags C cfg a p st gobs) = obsCCD st"
  "obsMagStd (meanMags C cfg a p st gobs) = obsMagStd st"
  "objSEDSlope (meanMags C cfg a p st gobs) = objSEDSlope st"
  by (simp_all add: meanMags_def Let_def)

lemma chisqEx_wtSum:
  "wtSum (writeMagStd chisqCollabEx chisqCfgEx chisqArgsDeriv chisqParsEx
            (resetMeans chisqStarsEx) [0, Suc 0, 2, 3]) [0, Suc 0, 2, 3]
   = (\<lambda>k. if k = (0, 0) \<or> k = (Suc 0, 0) then 2 else 0)"
  by (rule ext)
     (auto simp: wtSum_def add_at_app objKey_def obsMagErr2GO_def writeMagStd_sel resetMeans_sel
      resetMeans_more chisqStarsEx_sel)

lemma chisqStarsStd_sel:
  "obsObjIDIndex chisqStarsStd = (\<lambda>i. if i < 2 then 0 else 1)"
  "obsExpIndex chisqStarsStd = (\<lambda>i. if i = 0 \<or> i = 2 then 0 else 1)"
  "obsBandIndex chisqStarsStd = (\<lambda>_. 0)"
  "obsSecZenith chisqStarsStd = (\<lambda>i. if i = 2 then 3 else 1)"
  "obsMagADUModelErr chisqStarsStd = (\<lambda>_. 1)"
  "obsLUTFilterIndex chisqStarsStd = (\<lambda>_. 0)" "obsCCD chisqStarsStd = (\<lambda>_. 1)"
  "objSEDSlope chisqStarsStd = (\<lambda>_. 0)"
  "obsMagStd chisqStarsStd
   = (\<lambda>i. if i = 0 then 1 else if i = Suc 0 then - 1 else if i = 2 then 3
           else if i = 3 then - 3 else 0)"
  by (simp_all add: chisqStarsStd_def meanMags_sel writeMagStd_sel chisqEx_magStd resetMeans_sel
      resetMeans_more chisqStarsEx_sel)

lemma chisqStarsStd_means:
  "objMagStdMean chisqStarsStd = (\<lambda>k. if k = (0, 0) \<or> k = (Suc 0, 0) then 0 else 99)"
  "objMagStdMeanErr chisqStarsStd
   = (\<lambda>k. if k = (0, 0) \<or> k = (Suc 0, 0) then sqrt (1 / 2) else 99)"
  by (rule ext,
      auto simp: chisqStarsStd_def meanMags_def Let_def chisqEx_wtSum add_at_app objKey_def
        obsMagErr2GO_def writeMagStd_sel chisqEx_magStd resetMeans_sel resetMeans_more
        chisqStarsEx_sel)+


lemma chisqLayEx_locs:
  "nFitPars chisqLayEx = 14" "fitBandIndex chisqLayEx = [0]"
  "parO3Loc chisqLayEx = 0" "parAlphaLoc chisqLayEx = 2"
  "parPWVInterceptLoc chisqLayEx = 4" "parPWVPerSlopeLoc chisqLayEx = 6"
  "parLnTauInterceptLoc chisqLayEx = 8" "parLnTauSlopeLoc chisqLayEx = 10"
  "parQESysInterceptLoc chisqLayEx = 12" "parQESysSlopeLoc chisqLayEx = 13"
  "hasExternalPWV chisqLayEx = False" "useRetrievedPWV chisqLayEx = False"
  "hasExternalTau chisqLayEx = False"
  by (simp_all add: chisqLayEx_def)

lemma chisqLocalsEx_sel:
  "fitUse chisqLocalsEx = [0, Suc 0, 2, 3]"
  "bandGO chisqLocalsEx = (\<lambda>_. 0)"
  "expGO chisqLocalsEx = (\<lambda>i. if i = 0 \<or> i = 2 then 0 else 1)"
  "err2GO chisqLocalsEx = (\<lambda>_. 1)"
  "meanErr2GO chisqLocalsEx = (\<lambda>_. 1 / 2)"
  "dmwGOF chisqLocalsEx
   = (\<lambda>i. if i = 0 then 1 else if i = Suc 0 then - 1 else if i = 2 then 3
           else if i = 3 then - 3 else 0)"
  "dLdPWVGO chisqLocalsEx = (\<lambda>_. 0)" "dLdO3GO chisqLocalsEx = (\<lambda>i. if i = 2 then 3 else 1)"
  "dLdTauGO chisqLocalsEx = (\<lambda>_. 1)" "dLdAlphaGO chisqLocalsEx = (\<lambda>_. 0)"
  by (simp_all add: chisqLocalsEx_def workerLocalsOf_def obsFitUseGO_def match_sub2_def
      obsMagErr2GO_def objKey_def deltaMagGO_def obsWeightGO_def logDerivativesGO_def
      lutArgsGO_def Let_def chisqStarsStd_sel chisqStarsStd_means chisqLayEx_locs
      chisqCollabEx_sel fun_eq_iff)


lemma chisqEx_nights:
  "nightGOF chisqParsEx chisqLocalsEx = (\<lambda>i. if i = 0 \<or> i = 2 then 0 else 1)"
  "nightBand chisqParsEx chisqLocalsEx = (\<lambda>i. (if i = 0 \<or> i = 2 then 0 else 1, 0))"
  "washGOF chisqParsEx chisqLocalsEx = (\<lambda>_. 0)"
  "washBand chisqParsEx chisqLocalsEx = (\<lambda>_. (0, 0))"
  "noExtTau chisqParsEx chisqLocalsEx = [0, Suc 0, 2, 3]"
  "noExtPWV chisqParsEx chisqLocalsEx = [0, Suc 0, 2, 3]"
  "uNights chisqParsEx chisqLocalsEx [0, Suc 0, 2, 3] = [0, Suc 0]"
  by (simp_all add: nightGOF_def nightBand_def washGOF_def washBand_def noExtTau_def
      noExtPWV_def uNights_def np_unique_def chisqLocalsEx_sel chisqParsEx_sel fun_eq_iff)

lemma chisqEx_blockO3:
  "blockO3 chisqLayEx chisqParsEx (getUnitDict chisqCollabEx False) chisqLocalsEx pa 0
   = 2 * (pa 0 + 6)"
  by (simp add: blockO3_def Let_def familyUpdate_app magdLd_app chisqEx_nights
      chisqLocalsEx_sel chisqLayEx_locs chisqCollabEx_sel)


lemma chisqEx_derivatives:
  "workerDerivatives chisqCfgEx chisqLayEx chisqParsEx (getUnitDict chisqCollabEx False)
     chisqLocalsEx pa 8 = 2 * (pa 8 + 4)"
  "workerDerivatives chisqCfgEx chisqLayEx chisqParsEx (getUnitDict chisqCollabEx False)
     chisqLocalsEx pa 0 = 2 * (pa 0 + 6)"
  by (simp_all add: workerDerivatives_def blockWash_def blockTauNoExternal_def
      blockTauExternal_def blockPWV_def blockPWVNoExternal_def blockPWVExternal_def
      blockAlpha_def blockO3_def magdLdTauOffset_def magdLdPWVOffset_def Let_def
      familyUpdate_app magdLd_app chisqEx_nights chisqLocalsEx_sel chisqLayEx_locs
      chisqCollabEx_sel np_unique_def)

lemma chisqEx_claimed:
  "claimedGradient (lnTauUnit (getUnitDict chisqCollabEx False)) chisqLayEx chisqStarsStd
     [0, Suc 0, 2, 3] (dLdTauGO chisqLocalsEx)
     (\<lambda>i. nightGOF chisqParsEx chisqLocalsEx i = 0
           \<and> \<not> externalTauFlag chisqParsEx (expGO chisqLocalsEx i)) = 4"
  "claimedGradient (o3Unit (getUnitDict chisqCollabEx False)) chisqLayEx chisqStarsStd
     [0, Suc 0, 2, 3] (dLdO3GO chisqLocalsEx)
     (\<lambda>i. nightGOF chisqParsEx chisqLocalsEx i = 0) = 10"
  by (simp_all add: claimedGradient_def objectMeanPartial_def obsFitUseGO_def match_sub2_def
      obsWeightGO_def obsMagErr2GO_def deltaMagGO_def objKey_def chisqEx_nights
      chisqLocalsEx_sel chisqStarsStd_sel chisqStarsStd_means chisqLayEx_locs
      chisqCollabEx_sel chisqParsEx_sel)


lemma chisqEx_worker:
  "worker chisqCollabEx chisqCfgEx chisqLayEx chisqArgsDeriv
     (reloaded chisqCollabEx chisqArgsDeriv chisqWorldEx) ([0, 1], [0, 1, 2, 3])
   = Inr ((reloaded chisqCollabEx chisqArgsDeriv chisqWorldEx)\<lparr>wstars := chisqStarsStd\<rparr>,
          Some (workerDerivatives chisqCfgEx chisqLayEx chisqParsEx
                  (getUnitDict chisqCollabEx False) chisqLocalsEx
                  ((\<lambda>_. 0)(28 := partialChisq chisqLayEx chisqStarsStd [0, 1, 2, 3],
                            29 := real (length (obsFitUseGO chisqLayEx chisqStarsStd
                                                  [0, 1, 2, 3]))))))"
proof -
  have a: "computeDerivatives chisqArgsDeriv" "\<not> allExposures chisqArgsDeriv"
    "\<not> computeSEDSlopes chisqArgsDeriv" "fitBandIndex chisqLayEx \<noteq> []"
    "snd ([0::nat, 1], [0::nat, 1, 2, 3]) \<noteq> []"
    by (simp_all add: chisqArgsDeriv_sel chisqLayEx_locs)
  show ?thesis
    unfolding worker_derivatives [OF a] chisqStarsStd_def chisqLocalsEx_def
    by (simp add: chisqEx_reloaded_sel chisqArgsDeriv_sel nSums_def chisqLayEx_locs)
qed

text \<open>
  Claim C2.  The gradient component of a parameter is to be \<open>2 / unit\<close> times the sum, over
  the fit observations that touch it, of weight times residual times the partial
  derivative less its weighted mean over the observations of the object.  On the small
  catalogue, in the job of the call with \<open>computeDerivatives\<close>, the worker accumulates 8
  for the lnTau intercept of the first night, where this sum is 4, and 12 for the ozone
  of the first night, where it is 10.
\<close>

theorem gradient_not_object_mean:
  "prepare chisqCollabEx chisqCfgEx chisqArgsDeriv chisqWorldEx
     = Inr (reloaded chisqCollabEx chisqArgsDeriv chisqWorldEx, [([0, 1], [0, 1, 2, 3])])
   \<and> (case worker chisqCollabEx chisqCfgEx chisqLayEx chisqArgsDeriv
              (reloaded chisqCollabEx chisqArgsDeriv chisqWorldEx) ([0, 1], [0, 1, 2, 3]) of
         Inr (w', Some pa) \<Rightarrow>
           pa (parLnTauInterceptLoc chisqLayEx) = 8
           \<and> claimedGradient (lnTauUnit (getUnitDict chisqCollabEx False)) chisqLayEx
                (wstars w') [0, 1, 2, 3]
                (dLdTauGO (workerLocalsOf chisqCollabEx chisqCfgEx chisqLayEx chisqParsEx
                             (wstars w') [0, 1, 2, 3]))
                (\<lambda>i. expNightIndex chisqParsEx (obsExpIndex (wstars w') i) = 0
                      \<and> \<not> externalTauFlag chisqParsEx (obsExpIndex (wstars w') i)) = 4
           \<and> pa (parO3Loc chisqLayEx) = 12
           \<and> claimedGradient (o3Unit (getUnitDict chisqCollabEx False)) chisqLayEx
                (wstars w') [0, 1, 2, 3]
                (dLdO3GO (workerLocalsOf chisqCollabEx chisqCfgEx chisqLayEx chisqParsEx
                            (wstars w') [0, 1, 2, 3]))
                (\<lambda>i. expNightIndex chisqParsEx (obsExpIndex (wstars w') i) = 0) = 10
       | _ \<Rightarrow> False)"
proof -
  have p: "prepare chisqCollabEx chisqCfgEx chisqArgsDeriv chisqWorldEx
     = Inr (reloaded chisqCollabEx chisqArgsDeriv chisqWorldEx, [([0, 1], [0, 1, 2, 3])])"
    by (rule chisqEx_prepare)
       (simp_all add: chisqArgsDeriv_def chisqArgsEx_sel invalidOptions_def)
  have n: "(\<lambda>i. expNightIndex chisqParsEx (obsExpIndex chisqStarsStd i) = 0
                \<and> \<not> externalTauFlag chisqParsEx (obsExpIndex chisqStarsStd i))
           = (\<lambda>i. nightGOF chisqParsEx chisqLocalsEx i = 0
                 \<and> \<not> externalTauFlag chisqParsEx (expGO chisqLocalsEx i))"
    "(\<lambda>i. expNightIndex chisqParsEx (obsExpIndex chisqStarsStd i) = 0)
           = (\<lambda>i. nightGOF chisqParsEx chisqLocalsEx i = 0)"
    by (simp_all add: nightGOF_def chisqLocalsEx_sel chisqStarsStd_sel)
  have l: "workerLocalsOf chisqCollabEx chisqCfgEx chisqLayEx chisqParsEx chisqStarsStd
             [0, Suc 0, 2, 3] = chisqLocalsEx"
    by (simp add: chisqLocalsEx_def)
  show ?thesis
    unfolding p chisqEx_worker
    by (simp add: chisqEx_derivatives l n chisqEx_claimed chisqLayEx_locs)
qed


end
